theory Spec2Isabelle
  imports Complex_Main
begin

section \<open>JavaScript numbers\<close>

text \<open>
  A JavaScript \<^verbatim>\<open>number\<close> is an IEEE-754 binary64 value: \<^verbatim>\<open>NaN\<close>, the two
  infinities, or a finite value. A finite value is kept as the rational it denotes; every
  arithmetic operation computes the exact rational result and rounds it to the nearest
  binary64 value (ties to even, overflow to an infinity), as the language prescribes.
  The sign of zero is not tracked: \<open>Fin 0\<close> stands for both zeros. The modelled code
  never divides by a zero that can be negative, so the sign of a zero never changes
  another value.
\<close>

datatype jsnum = NaN | PInf | NInf | Fin rat

definition pow2 :: "int \<Rightarrow> rat" where
  "pow2 e = (if 0 \<le> e then 2 ^ nat e else 1 / 2 ^ nat (- e))"

text \<open>\<open>ilog2 x\<close> is the binary exponent of a positive rational: \<open>2 ^ e \<le> x < 2 ^ (e + 1)\<close>.\<close>

function ilog2 :: "rat \<Rightarrow> int" where
  "ilog2 x = (if x \<le> 0 then 0
              else if 2 \<le> x then ilog2 (x / 2) + 1
              else if x < 1 then ilog2 (2 * x) - 1
              else 0)"
  by pat_completeness auto
termination
proof (relation "measure (\<lambda>x. if 1 \<le> x then nat \<lfloor>x\<rfloor> else nat \<lfloor>1 / x\<rfloor> + 1)")
  show "wf (measure (\<lambda>x::rat. if 1 \<le> x then nat \<lfloor>x\<rfloor> else nat \<lfloor>1 / x\<rfloor> + 1))"
    by simp
next
  fix x :: rat
  assume a: "\<not> x \<le> 0" "2 \<le> x"
  have "\<lfloor>x / 2\<rfloor> < \<lfloor>x\<rfloor>" using a by linarith
  moreover have "0 < \<lfloor>x\<rfloor>" using a by linarith
  ultimately show "(x / 2, x) \<in> measure (\<lambda>x. if 1 \<le> x then nat \<lfloor>x\<rfloor> else nat \<lfloor>1 / x\<rfloor> + 1)"
    using a by auto
next
  fix x :: rat
  assume a: "\<not> x \<le> 0" "\<not> 2 \<le> x" "x < 1"
  have p: "0 < x" using a by simp
  have one: "1 < 1 / x" using a p by (simp add: field_simps)
  have fl: "1 \<le> \<lfloor>1 / x\<rfloor>" using one by linarith
  show "(2 * x, x) \<in> measure (\<lambda>x. if 1 \<le> x then nat \<lfloor>x\<rfloor> else nat \<lfloor>1 / x\<rfloor> + 1)"
  proof (cases "1 \<le> 2 * x")
    case True
    have "\<lfloor>2 * x\<rfloor> = 1" using True a by linarith
    then show ?thesis using True a fl by auto
  next
    case False
    define y where "y = 1 / x"
    have eq: "1 / (2 * x) = y / 2" by (simp add: y_def)
    have "2 * x < 1" using False by simp
    then have "2 < y" using p by (simp add: y_def field_simps)
    then have "\<lfloor>y / 2\<rfloor> < \<lfloor>y\<rfloor>" by linarith
    then have lt: "\<lfloor>1 / (2 * x)\<rfloor> < \<lfloor>1 / x\<rfloor>" by (metis eq y_def)
    have "\<not> 1 \<le> x" using a by simp
    then show ?thesis using False fl lt by (simp del: divide_divide_eq_left)
  qed
qed

declare ilog2.simps [simp del]

definition round_half_even :: "rat \<Rightarrow> int" where
  "round_half_even y =
     (let f = \<lfloor>y\<rfloor>; d = y - of_int f
      in if d < 1 / 2 then f else if 1 / 2 < d then f + 1 else if even f then f else f + 1)"

text \<open>
  \<open>rnd64 x\<close> is the binary64 value nearest to the rational \<open>x\<close>: 53 significant bits,
  least exponent \<open>-1022\<close> (below it the spacing stays \<open>2 ^ -1074\<close>), and a result of
  magnitude \<open>2 ^ 1024\<close> or more is an infinity. It is also the value of a decimal literal
  of the source, so \<^verbatim>\<open>0.21\<close> is \<open>rnd64 (21 / 100)\<close>.
\<close>

definition rnd64 :: "rat \<Rightarrow> jsnum" where
  "rnd64 x =
     (if x = 0 then Fin 0
      else let a = \<bar>x\<bar>;
               e = max (ilog2 a) (- 1022);
               q = pow2 (e - 52);
               r = of_int (round_half_even (a / q)) * q
           in if pow2 1024 \<le> r then (if 0 < x then PInf else NInf)
              else Fin (if 0 < x then r else - r))"

definition jsign :: "jsnum \<Rightarrow> int" where
  "jsign x = (case x of NaN \<Rightarrow> 0 | PInf \<Rightarrow> 1 | NInf \<Rightarrow> - 1
              | Fin a \<Rightarrow> (if a = 0 then 0 else if 0 < a then 1 else - 1))"

definition js_mul :: "jsnum \<Rightarrow> jsnum \<Rightarrow> jsnum" where
  "js_mul x y =
     (case (x, y) of
        (Fin a, Fin b) \<Rightarrow> rnd64 (a * b)
      | _ \<Rightarrow> if x = NaN \<or> y = NaN \<or> jsign x * jsign y = 0 then NaN
             else if 0 < jsign x * jsign y then PInf else NInf)"

definition js_add :: "jsnum \<Rightarrow> jsnum \<Rightarrow> jsnum" where
  "js_add x y =
     (case (x, y) of
        (Fin a, Fin b) \<Rightarrow> rnd64 (a + b)
      | (Fin a, _) \<Rightarrow> y
      | (_, Fin b) \<Rightarrow> x
      | _ \<Rightarrow> if x = y then x else NaN)"

definition js_div :: "jsnum \<Rightarrow> jsnum \<Rightarrow> jsnum" where
  "js_div x y =
     (case (x, y) of
        (Fin a, Fin b) \<Rightarrow>
          (if b = 0 then (if a = 0 then NaN else if 0 < a then PInf else NInf)
           else rnd64 (a / b))
      | (Fin a, NaN) \<Rightarrow> NaN
      | (Fin a, _) \<Rightarrow> Fin 0
      | (PInf, Fin b) \<Rightarrow> (if 0 \<le> b then PInf else NInf)
      | (NInf, Fin b) \<Rightarrow> (if 0 \<le> b then NInf else PInf)
      | _ \<Rightarrow> NaN)"

text \<open>\<open>js_lt x y\<close> is \<^verbatim>\<open>x < y\<close>: false whenever an operand is \<^verbatim>\<open>NaN\<close>.\<close>

definition js_lt :: "jsnum \<Rightarrow> jsnum \<Rightarrow> bool" where
  "js_lt x y =
     (case (x, y) of
        (Fin a, Fin b) \<Rightarrow> a < b
      | (NInf, Fin b) \<Rightarrow> True
      | (NInf, PInf) \<Rightarrow> True
      | (Fin a, PInf) \<Rightarrow> True
      | _ \<Rightarrow> False)"

definition js_gt :: "jsnum \<Rightarrow> jsnum \<Rightarrow> bool" where
  "js_gt x y = js_lt y x"

definition isFinite :: "jsnum \<Rightarrow> bool" where
  "isFinite x = (case x of Fin a \<Rightarrow> True | _ \<Rightarrow> False)"

definition isNaN :: "jsnum \<Rightarrow> bool" where
  "isNaN x = (x = NaN)"

text \<open>
  \<^verbatim>\<open>Math.round\<close> gives the nearest integer, a tie going towards \<open>+\<infinity>\<close>; the integer
  nearest to a binary64 value is a binary64 value, so nothing is rounded afterwards.
\<close>

definition Math_round :: "jsnum \<Rightarrow> jsnum" where
  "Math_round x = (case x of Fin a \<Rightarrow> Fin (of_int \<lfloor>a + 1 / 2\<rfloor>) | _ \<Rightarrow> x)"

definition Math_max :: "jsnum \<Rightarrow> jsnum \<Rightarrow> jsnum" where
  "Math_max x y = (if x = NaN \<or> y = NaN then NaN else if js_lt x y then y else x)"

section \<open>VAT calculation (packages/shared: vat.ts, constants.ts)\<close>

definition DEFAULT_VAT_RATE :: jsnum where
  "DEFAULT_VAT_RATE = rnd64 (21 / 100)"

definition roundToTwoDecimals :: "jsnum \<Rightarrow> jsnum" where
  "roundToTwoDecimals v = js_div (Math_round (js_mul v (Fin 100))) (Fin 100)"

definition sanitizeQuantity :: "jsnum \<Rightarrow> jsnum" where
  "sanitizeQuantity q =
     (if \<not> isFinite q \<or> js_lt q (Fin 0) then Fin 0 else Math_max (Fin 0) (Math_round q))"

definition sanitizePrice :: "jsnum \<Rightarrow> jsnum" where
  "sanitizePrice p =
     (if \<not> isFinite p \<or> js_lt p (Fin 0) then Fin 0 else Math_max (Fin 0) p)"

record VatCalculationInput =
  unitPriceCzk :: jsnum
  quantity :: jsnum
  vatRate :: "jsnum option"

record VatBreakdown =
  subtotalCzk :: jsnum
  vatAmountCzk :: jsnum
  totalCzk :: jsnum
  vb_vatRate :: jsnum

text \<open>
  The optional \<^verbatim>\<open>vatRate\<close> is \<open>None\<close> when the caller leaves it out;
  \<^verbatim>\<open>input.vatRate ?? DEFAULT_VAT_RATE\<close> then takes the default.
\<close>

definition calculateVatBreakdown :: "VatCalculationInput \<Rightarrow> VatBreakdown" where
  "calculateVatBreakdown input =
     (let unitPrice = sanitizePrice (unitPriceCzk input);
          qty = sanitizeQuantity (quantity input);
          rate = (case vatRate input of Some r \<Rightarrow> r | None \<Rightarrow> DEFAULT_VAT_RATE);
          subtotal = roundToTwoDecimals (js_mul unitPrice qty);
          vatAmount = roundToTwoDecimals (js_mul subtotal rate);
          total = roundToTwoDecimals (js_add subtotal vatAmount)
      in \<lparr>subtotalCzk = subtotal, vatAmountCzk = vatAmount, totalCzk = total,
          vb_vatRate = rate\<rparr>)"

definition calculatePriceBeforeVat :: "jsnum \<Rightarrow> jsnum \<Rightarrow> jsnum" where
  "calculatePriceBeforeVat priceWithVat rate =
     roundToTwoDecimals (js_div (sanitizePrice priceWithVat) (js_add (Fin 1) rate))"

subsection \<open>The pricing operation as the specification words it\<close>

text \<open>
  A non-finite or negative unit price becomes 0. A non-finite or negative quantity becomes
  0 and any other quantity is rounded to the nearest integer. The three amounts are then
  computed in order, each rounded to two decimals before the next one uses it.
\<close>

definition spec_sanitized_unitPrice :: "jsnum \<Rightarrow> jsnum" where
  "spec_sanitized_unitPrice p =
     (case p of Fin a \<Rightarrow> (if a < 0 then Fin 0 else Fin a) | _ \<Rightarrow> Fin 0)"

definition spec_sanitized_quantity :: "jsnum \<Rightarrow> jsnum" where
  "spec_sanitized_quantity q =
     (case q of Fin a \<Rightarrow> (if a < 0 then Fin 0 else Fin (of_int (round a))) | _ \<Rightarrow> Fin 0)"

definition spec_computeBreakdown :: "jsnum \<Rightarrow> jsnum \<Rightarrow> jsnum \<Rightarrow> VatBreakdown" where
  "spec_computeBreakdown p q r =
     (let subtotal = roundToTwoDecimals
            (js_mul (spec_sanitized_unitPrice p) (spec_sanitized_quantity q));
          taxAmount = roundToTwoDecimals (js_mul subtotal r);
          total = roundToTwoDecimals (js_add subtotal taxAmount)
      in \<lparr>subtotalCzk = subtotal, vatAmountCzk = taxAmount, totalCzk = total,
          vb_vatRate = r\<rparr>)"

subsection \<open>Rounding to two decimals as the specification words it\<close>




subsection \<open>The round trip as the specification words it\<close>

text \<open>
  A price with tax round-trips at a rate when it, its price before tax and the rate are
  finite and the price before tax times one plus the rate is within 0.01 of it. The
  comparison is made on the exact values of the three binary64 numbers.
\<close>

definition spec_round_trips :: "jsnum \<Rightarrow> jsnum \<Rightarrow> bool" where
  "spec_round_trips priceWithVat rate =
     (case (priceWithVat, calculatePriceBeforeVat priceWithVat rate, rate) of
        (Fin t, Fin p, Fin r) \<Rightarrow> \<bar>t - p * (1 + r)\<bar> \<le> 1 / 100
      | _ \<Rightarrow> False)"

section \<open>JavaScript strings\<close>

text \<open>
  A string is the list of its UTF-16 code units. \<open>str\<close> turns an ASCII literal into
  one. \<open>is_ws\<close> holds of the code units that \<^verbatim>\<open>trim\<close>, \<^verbatim>\<open>parseInt\<close> and
  \<^verbatim>\<open>parseFloat\<close> strip: the white space and the line terminators of the language.
\<close>

type_synonym jsstring = "nat list"

definition str :: "string \<Rightarrow> jsstring" where
  "str s = map of_char s"

definition is_ws :: "nat \<Rightarrow> bool" where
  "is_ws c = (c \<in> set [9, 10, 11, 12, 13, 32, 160, 5760, 8232, 8233, 8239, 8287, 12288, 65279]
              \<or> (8192 \<le> c \<and> c \<le> 8202))"

definition trim :: "jsstring \<Rightarrow> jsstring" where
  "trim s = rev (dropWhile is_ws (rev (dropWhile is_ws s)))"

text \<open>\<^verbatim>\<open>s.split(sep)\<close> for a separator of one code unit; the empty string gives one empty field.\<close>

fun split_acc :: "nat \<Rightarrow> jsstring \<Rightarrow> jsstring \<Rightarrow> jsstring list" where
  "split_acc sep cur [] = [rev cur]"
| "split_acc sep cur (c # cs) =
     (if c = sep then rev cur # split_acc sep [] cs else split_acc sep (c # cur) cs)"

definition js_split :: "nat \<Rightarrow> jsstring \<Rightarrow> jsstring list" where
  "js_split sep s = split_acc sep [] s"

text \<open>\<^verbatim>\<open>s.replace(a, b)\<close> with string arguments of one code unit replaces the first \<open>a\<close> only.\<close>

fun replace_first :: "nat \<Rightarrow> nat \<Rightarrow> jsstring \<Rightarrow> jsstring" where
  "replace_first a b [] = []"
| "replace_first a b (c # cs) = (if c = a then b # cs else c # replace_first a b cs)"

definition is_digit :: "nat \<Rightarrow> bool" where
  "is_digit c = (48 \<le> c \<and> c \<le> 57)"

definition digits_value :: "jsstring \<Rightarrow> nat" where
  "digits_value ds = foldl (\<lambda>acc c. 10 * acc + (c - 48)) 0 ds"

definition pow10 :: "int \<Rightarrow> rat" where
  "pow10 e = (if 0 \<le> e then 10 ^ nat e else 1 / 10 ^ nat (- e))"

text \<open>The sign a numeric string starts with, and the string after it.\<close>

definition leading_minus :: "jsstring \<Rightarrow> bool" where
  "leading_minus t = (case t of [] \<Rightarrow> False | c # r \<Rightarrow> c = 45)"

definition after_sign :: "jsstring \<Rightarrow> jsstring" where
  "after_sign t = (case t of [] \<Rightarrow> [] | c # r \<Rightarrow> (if c = 43 \<or> c = 45 then r else t))"

text \<open>
  \<^verbatim>\<open>parseInt(s, 10)\<close>: leading white space is dropped, then an optional sign, then the
  longest run of decimal digits; with no digit the result is \<^verbatim>\<open>NaN\<close>, and whatever
  follows the digits is ignored.
\<close>

definition parseInt10 :: "jsstring \<Rightarrow> jsnum" where
  "parseInt10 s =
     (let t = dropWhile is_ws s;
          ds = takeWhile is_digit (after_sign t)
      in if ds = [] then NaN
         else rnd64 ((if leading_minus t then - 1 else 1) * of_nat (digits_value ds)))"

text \<open>The exponent part of a decimal literal: \<open>e\<close> or \<open>E\<close>, an optional sign, digits.\<close>

definition exponent_of :: "jsstring \<Rightarrow> int" where
  "exponent_of r =
     (case r of
        [] \<Rightarrow> 0
      | c # r1 \<Rightarrow>
          (if c = 101 \<or> c = 69 then
             (let ds = takeWhile is_digit (after_sign r1)
              in if ds = [] then 0
                 else if leading_minus r1 then - int (digits_value ds)
                 else int (digits_value ds))
           else 0))"

text \<open>
  \<^verbatim>\<open>parseFloat(s)\<close>: leading white space is dropped and the longest prefix that is a
  decimal literal is read (sign, \<^verbatim>\<open>Infinity\<close> or digits with an optional fraction and
  exponent); with no such prefix the result is \<^verbatim>\<open>NaN\<close>. The value read is rounded to
  binary64.
\<close>

definition parseFloat :: "jsstring \<Rightarrow> jsnum" where
  "parseFloat s =
     (let t = dropWhile is_ws s;
          u = after_sign t
      in if take 8 u = str ''Infinity'' then (if leading_minus t then NInf else PInf)
         else let ip = takeWhile is_digit u;
                  r1 = dropWhile is_digit u;
                  hasdot = (case r1 of [] \<Rightarrow> False | c # r \<Rightarrow> c = 46);
                  fp = (if hasdot then takeWhile is_digit (tl r1) else []);
                  r2 = (if hasdot then dropWhile is_digit (tl r1) else r1)
              in if ip = [] \<and> fp = [] then NaN
                 else rnd64 ((if leading_minus t then - 1 else 1)
                        * (of_nat (digits_value ip) + of_nat (digits_value fp) / 10 ^ length fp)
                        * pow10 (exponent_of r2)))"

section \<open>Exchange rates (apps/api: cnbRates.service.ts)\<close>

datatype SupportedCurrency = EUR | USD | PLN

definition SUPPORTED_CURRENCIES :: "SupportedCurrency list" where
  "SUPPORTED_CURRENCIES = [EUR, USD, PLN]"

text \<open>
  \<^verbatim>\<open>CnbRates\<close> is a record with one entry for each supported currency, a number or
  \<^verbatim>\<open>null\<close>: a function into \<open>jsnum option\<close>, \<open>None\<close> for \<^verbatim>\<open>null\<close>.
\<close>

type_synonym CnbRates = "SupportedCurrency \<Rightarrow> jsnum option"

text \<open>\<^verbatim>\<open>SUPPORTED_CURRENCIES.includes(code)\<close>, with the currency the code names.\<close>

definition currency_of :: "jsstring \<Rightarrow> SupportedCurrency option" where
  "currency_of c =
     (if c = str ''EUR'' then Some EUR
      else if c = str ''USD'' then Some USD
      else if c = str ''PLN'' then Some PLN
      else None)"

text \<open>The body of the loop of \<^verbatim>\<open>parseRatesText\<close>; each \<^verbatim>\<open>continue\<close> leaves the table as it is.\<close>

definition parse_row :: "jsstring \<Rightarrow> CnbRates \<Rightarrow> CnbRates" where
  "parse_row line rates =
     (if line = [] then rates
      else let parts = js_split 124 line
           in if length parts < 5 then rates
              else let code = trim (parts ! 3);
                       amountStr = trim (parts ! 2);
                       rateStr = trim (parts ! 4)
                   in case currency_of code of
                        None \<Rightarrow> rates
                      | Some c \<Rightarrow>
                          (let amount = parseInt10 amountStr;
                               rate = parseFloat (replace_first 44 46 rateStr)
                           in if isNaN amount \<or> isNaN rate \<or> amount = Fin 0 then rates
                              else rates(c := Some (js_div rate amount))))"

function parse_loop :: "jsstring list \<Rightarrow> nat \<Rightarrow> CnbRates \<Rightarrow> CnbRates" where
  "parse_loop lines i rates =
     (if i < length lines then parse_loop lines (i + 1) (parse_row (lines ! i) rates)
      else rates)"
  by pat_completeness auto
termination
  by (relation "measure (\<lambda>(lines, i, rates). length lines - i)") auto

declare parse_loop.simps [simp del]

definition parseRatesText :: "jsstring \<Rightarrow> CnbRates" where
  "parseRatesText text = parse_loop (js_split 10 (trim text)) 2 (\<lambda>c. None)"

record CurrencyConversionResult =
  code :: SupportedCurrency
  amount :: "jsnum option"
  formatted :: jsstring

record ConversionResult =
  originalCzk :: jsnum
  fxAvailable :: bool
  conversions :: "CurrencyConversionResult list"

text \<open>
  The loop of \<^verbatim>\<open>convertFromCzk\<close> over the supported currencies, with its two accumulators.
  \<^verbatim>\<open>rates?.[code]\<close> is \<open>None\<close> when the table is \<^verbatim>\<open>null\<close> or the entry is.
  \<^verbatim>\<open>formatPrice\<close> formats with the platform's \<^verbatim>\<open>Intl.NumberFormat\<close>; it is the
  parameter \<open>fmt\<close>.
\<close>

fun convert_loop ::
  "(jsnum \<Rightarrow> SupportedCurrency \<Rightarrow> jsstring) \<Rightarrow> jsnum \<Rightarrow> CnbRates option \<Rightarrow>
   SupportedCurrency list \<Rightarrow> CurrencyConversionResult list \<times> bool \<Rightarrow>
   CurrencyConversionResult list \<times> bool" where
  "convert_loop fmt amountCzk rates [] acc = acc"
| "convert_loop fmt amountCzk rates (c # cs) (convs, hasAnyConversion) =
     (case (case rates of None \<Rightarrow> None | Some rs \<Rightarrow> rs c) of
        Some rate \<Rightarrow>
          (if js_gt rate (Fin 0) then
             (let convertedAmount = js_div amountCzk rate;
                  roundedAmount = js_div (Math_round (js_mul convertedAmount (Fin 100))) (Fin 100)
              in convert_loop fmt amountCzk rates cs
                   (convs @ [\<lparr>code = c, amount = Some roundedAmount,
                              formatted = fmt roundedAmount c\<rparr>], True))
           else convert_loop fmt amountCzk rates cs
                  (convs @ [\<lparr>code = c, amount = None, formatted = str ''N/A''\<rparr>],
                   hasAnyConversion))
      | None \<Rightarrow>
          convert_loop fmt amountCzk rates cs
            (convs @ [\<lparr>code = c, amount = None, formatted = str ''N/A''\<rparr>],
             hasAnyConversion))"

definition convertFromCzk ::
  "(jsnum \<Rightarrow> SupportedCurrency \<Rightarrow> jsstring) \<Rightarrow> jsnum \<Rightarrow> CnbRates option \<Rightarrow> ConversionResult" where
  "convertFromCzk fmt amountCzk rates =
     (case convert_loop fmt amountCzk rates SUPPORTED_CURRENCIES ([], False) of
        (convs, hasAnyConversion) \<Rightarrow>
          \<lparr>originalCzk = amountCzk, fxAvailable = hasAnyConversion, conversions = convs\<rparr>)"

subsection \<open>Conversion as the specification words it\<close>

text \<open>
  A currency converts when the table is there and its rate is present and positive; its
  amount is then the quotient rounded to two decimals, and otherwise there is no amount.
\<close>

definition spec_usable_rate :: "CnbRates option \<Rightarrow> SupportedCurrency \<Rightarrow> jsnum option" where
  "spec_usable_rate rates c =
     (case rates of
        None \<Rightarrow> None
      | Some rs \<Rightarrow> (case rs c of None \<Rightarrow> None
                    | Some r \<Rightarrow> (if js_lt (Fin 0) r then Some r else None)))"

definition spec_amount :: "jsnum \<Rightarrow> CnbRates option \<Rightarrow> SupportedCurrency \<Rightarrow> jsnum option" where
  "spec_amount a rates c =
     (case spec_usable_rate rates c of
        None \<Rightarrow> None
      | Some r \<Rightarrow> Some (roundToTwoDecimals (js_div a r)))"

definition spec_conversion ::
  "(jsnum \<Rightarrow> SupportedCurrency \<Rightarrow> jsstring) \<Rightarrow> jsnum \<Rightarrow> CnbRates option \<Rightarrow>
   SupportedCurrency \<Rightarrow> CurrencyConversionResult" where
  "spec_conversion fmt a rates c =
     (case spec_amount a rates c of
        None \<Rightarrow> \<lparr>code = c, amount = None, formatted = str ''N/A''\<rparr>
      | Some v \<Rightarrow> \<lparr>code = c, amount = Some v, formatted = fmt v c\<rparr>)"

subsection \<open>Rate parsing as the specification words it\<close>

text \<open>
  A row has at least the five fields country, name, amount unit, currency code and rate
  string. It counts when its currency code is a supported one and both its amount and its
  rate (the comma made a point) parse to numbers, the amount not zero; it then gives its
  currency the rate divided by the amount. Every other row is skipped.
\<close>

definition spec_row :: "jsstring \<Rightarrow> (SupportedCurrency \<times> jsnum) option" where
  "spec_row line =
     (case js_split 124 line of
        country # name # amountUnit # currencyCode # rateString # others \<Rightarrow>
          (case currency_of (trim currencyCode) of
             None \<Rightarrow> None
           | Some c \<Rightarrow>
               (let amountValue = parseInt10 (trim amountUnit);
                    parsedRate = parseFloat (replace_first 44 46 (trim rateString))
                in if amountValue = NaN \<or> parsedRate = NaN \<or> amountValue = Fin 0 then None
                   else Some (c, js_div parsedRate amountValue)))
      | _ \<Rightarrow> None)"

definition spec_store :: "CnbRates \<Rightarrow> jsstring \<Rightarrow> CnbRates" where
  "spec_store rates line =
     (case spec_row line of None \<Rightarrow> rates | Some (c, v) \<Rightarrow> rates(c := Some v))"

text \<open>The table that the rows after the first two lines of a text give, in their order.\<close>

definition spec_rates_after_two_lines :: "jsstring \<Rightarrow> CnbRates" where
  "spec_rates_after_two_lines text = foldl spec_store (\<lambda>c. None) (drop 2 (js_split 10 text))"


section \<open>The rate source\<close>

text \<open>
  What a \<^verbatim>\<open>catch\<close> clause receives: an \<^verbatim>\<open>Error\<close> instance with its message, or a
  value that is not one.
\<close>

datatype thrown = ErrorInstance jsstring | OtherValue

text \<open>
  What one call of \<^verbatim>\<open>fetch\<close> does: it rejects (a network error, or the abort that the
  10 second timer triggers), or it resolves to a response whose \<^verbatim>\<open>text()\<close> gives the
  body or fails in turn.
\<close>

datatype body_result = BodyText jsstring | BodyFails thrown

record response =
  ok :: bool
  status :: nat
  body :: body_result

datatype fetch_outcome = Rejected thrown | Resolved response

text \<open>
  The world outside the process: how many outbound requests have been issued, what the
  \<open>n\<close>-th request meets, and the clock.
\<close>

record world =
  requests :: nat
  answers :: "nat \<Rightarrow> fetch_outcome"
  now :: nat

fun decimal :: "nat \<Rightarrow> jsstring" where
  "decimal n = (if n < 10 then [48 + n] else decimal (n div 10) @ [48 + n mod 10])"

declare decimal.simps [simp del]

definition show_int :: "int \<Rightarrow> jsstring" where
  "show_int i = (if i < 0 then 45 # decimal (nat (- i)) else decimal (nat i))"

record FetchRatesResult =
  success :: bool
  rates :: "CnbRates option"
  error :: "jsstring option"
  fetchedAt :: "nat option"

definition errorMessage :: "thrown \<Rightarrow> jsstring" where
  "errorMessage t = (case t of ErrorInstance m \<Rightarrow> m | OtherValue \<Rightarrow> str ''Unknown error'')"

text \<open>The \<^verbatim>\<open>catch\<close> block of \<^verbatim>\<open>fetchCnbRates\<close>.\<close>

definition fetch_caught :: "thrown \<Rightarrow> FetchRatesResult" where
  "fetch_caught t =
     \<lparr>success = False, rates = None,
      error = Some (str ''Failed to fetch rates: '' @ errorMessage t), fetchedAt = None\<rparr>"

definition fetchCnbRates :: "world \<Rightarrow> FetchRatesResult \<times> world" where
  "fetchCnbRates w =
     (let w' = w\<lparr>requests := requests w + 1\<rparr>
      in case answers w (requests w) of
           Rejected t \<Rightarrow> (fetch_caught t, w')
         | Resolved r \<Rightarrow>
             (if \<not> ok r then
                (\<lparr>success = False, rates = None,
                  error = Some (str ''CNB API returned status '' @ decimal (status r)),
                  fetchedAt = None\<rparr>, w')
              else case body r of
                     BodyFails t \<Rightarrow> (fetch_caught t, w')
                   | BodyText txt \<Rightarrow>
                       (\<lparr>success = True, rates = Some (parseRatesText txt), error = None,
                         fetchedAt = Some (now w)\<rparr>, w')))"

definition fetchAndConvert ::
  "(jsnum \<Rightarrow> SupportedCurrency \<Rightarrow> jsstring) \<Rightarrow> jsnum \<Rightarrow> world \<Rightarrow> ConversionResult \<times> world" where
  "fetchAndConvert fmt amountCzk w =
     (case fetchCnbRates w of (r, w') \<Rightarrow> (convertFromCzk fmt amountCzk (rates r), w'))"

section \<open>Storage\<close>

text \<open>
  The rows of the two tables. A \<^verbatim>\<open>Decimal\<close> column of a product is the rational it
  holds, and \<^verbatim>\<open>Number(...)\<close> of it is that rational rounded to binary64. The money
  columns of an order hold the numbers the service wrote, which are read back unchanged.
\<close>

record Product =
  product_id :: int
  product_title :: jsstring
  product_description :: "jsstring option"
  product_priceCzk :: rat
  product_quantity :: int
  product_createdAt :: nat

record Order =
  order_id :: int
  order_createdAt :: nat
  order_productId :: int
  order_customerName :: jsstring
  order_customerEmail :: jsstring
  order_customerPhone :: jsstring
  order_customerAddressLine1 :: jsstring
  order_customerAddressLine2 :: "jsstring option"
  order_customerCity :: jsstring
  order_customerCountry :: jsstring
  order_customerZipCode :: jsstring
  order_quantity :: int
  order_unitPriceCzk :: jsnum
  order_subtotalCzk :: jsnum
  order_vatRate :: jsnum
  order_vatAmountCzk :: jsnum
  order_totalPriceCzk :: jsnum

record database =
  products :: "int \<Rightarrow> Product option"
  orders :: "Order list"
  next_order_id :: int

text \<open>
  The operations of the storage engine that the services call. Each can fail for reasons
  of its own (connectivity, a constraint, a value it refuses): \<open>faults\<close> says at which
  steps it does.
\<close>

datatype storage_step = FindProduct | CreateOrder | UpdateProduct | Commit | FindOrder

datatype failure =
    NotFoundError jsstring
  | ConflictError jsstring
  | StorageFailure storage_step

text \<open>The HTTP status and the code of the error classes (lib/errors.ts).\<close>

definition statusCode :: "failure \<Rightarrow> nat option" where
  "statusCode e = (case e of NotFoundError m \<Rightarrow> Some 404 | ConflictError m \<Rightarrow> Some 409
                   | StorageFailure s \<Rightarrow> None)"

definition error_code :: "failure \<Rightarrow> jsstring option" where
  "error_code e = (case e of NotFoundError m \<Rightarrow> Some (str ''NOT_FOUND'')
                   | ConflictError m \<Rightarrow> Some (str ''CONFLICT'')
                   | StorageFailure s \<Rightarrow> None)"

definition not_found_message :: "jsstring \<Rightarrow> int \<Rightarrow> jsstring" where
  "not_found_message resource ident =
     (if ident \<noteq> 0 then resource @ str '' with ID '' @ show_int ident @ str '' not found''
      else resource @ str '' not found'')"

definition product_findUnique ::
  "(storage_step \<Rightarrow> bool) \<Rightarrow> database \<Rightarrow> int \<Rightarrow> failure + Product option" where
  "product_findUnique faults db pid =
     (if faults FindProduct then Inl (StorageFailure FindProduct) else Inr (products db pid))"

text \<open>
  \<^verbatim>\<open>order.create\<close> with \<^verbatim>\<open>include: { product: true }\<close>: the engine gives the row its id
  and creation time and returns it with the product it refers to; a product that is not
  there violates the foreign key.
\<close>

definition order_create ::
  "(storage_step \<Rightarrow> bool) \<Rightarrow> nat \<Rightarrow> database \<Rightarrow> Order \<Rightarrow> failure + ((Order \<times> Product) \<times> database)" where
  "order_create faults time db data =
     (if faults CreateOrder then Inl (StorageFailure CreateOrder)
      else case products db (order_productId data) of
             None \<Rightarrow> Inl (StorageFailure CreateOrder)
           | Some p \<Rightarrow>
               (let row = data\<lparr>order_id := next_order_id db, order_createdAt := time\<rparr>
                in Inr ((row, p),
                        db\<lparr>orders := orders db @ [row],
                           next_order_id := next_order_id db + 1\<rparr>)))"

text \<open>\<^verbatim>\<open>product.update\<close> with \<^verbatim>\<open>quantity: { decrement: n }\<close>.\<close>

definition product_decrement ::
  "(storage_step \<Rightarrow> bool) \<Rightarrow> database \<Rightarrow> int \<Rightarrow> int \<Rightarrow> failure + database" where
  "product_decrement faults db pid n =
     (if faults UpdateProduct then Inl (StorageFailure UpdateProduct)
      else case products db pid of
             None \<Rightarrow> Inl (StorageFailure UpdateProduct)
           | Some p \<Rightarrow>
               Inr (db\<lparr>products :=
                         (products db)(pid \<mapsto> p\<lparr>product_quantity := product_quantity p - n\<rparr>)\<rparr>))"

text \<open>
  \<^verbatim>\<open>prisma.$transaction(callback)\<close>: the callback works on the state of the
  transaction; when it throws, or the commit fails, nothing it wrote is kept and the error
  goes to the caller.
\<close>

definition transaction ::
  "(storage_step \<Rightarrow> bool) \<Rightarrow> (database \<Rightarrow> failure + ('a \<times> database)) \<Rightarrow> database \<Rightarrow>
   (failure + 'a) \<times> database" where
  "transaction faults callback db =
     (case callback db of
        Inl e \<Rightarrow> (Inl e, db)
      | Inr (x, db') \<Rightarrow>
          (if faults Commit then (Inl (StorageFailure Commit), db) else (Inr x, db')))"

section \<open>Orders (apps/api: orders.service.ts, orders.controller.ts)\<close>

record Customer =
  name :: jsstring
  email :: jsstring
  phone :: jsstring
  addressLine1 :: jsstring
  addressLine2 :: "jsstring option"
  city :: jsstring
  country :: jsstring
  zipCode :: jsstring

text \<open>
  The input of \<^verbatim>\<open>create\<close> comes validated: the product id and the quantity are
  integers.
\<close>

record CreateOrderInput =
  productId :: int
  input_quantity :: int
  customer :: Customer

record ProductDTO =
  dto_id :: int
  dto_title :: jsstring
  dto_description :: "jsstring option"
  dto_priceCzk :: jsnum
  formattedPrice :: jsstring
  dto_available :: bool
  dto_quantity :: int

record CurrencyConversion =
  conv_code :: SupportedCurrency
  conv_amount :: jsnum
  conv_formatted :: jsstring

record OrderWithConversions =
  res_id :: int
  res_productId :: int
  res_customerName :: jsstring
  res_customerEmail :: jsstring
  res_customerPhone :: jsstring
  res_customerAddressLine1 :: jsstring
  res_customerAddressLine2 :: "jsstring option"
  res_customerCity :: jsstring
  res_customerCountry :: jsstring
  res_customerZipCode :: jsstring
  res_quantity :: int
  res_unitPriceCzk :: jsnum
  res_subtotalCzk :: jsnum
  res_vatRate :: jsnum
  res_vatAmountCzk :: jsnum
  res_totalPriceCzk :: jsnum
  res_createdAt :: nat
  res_product :: ProductDTO
  res_conversions :: "CurrencyConversion list"

text \<open>
  \<^verbatim>\<open>enrichOrderWithConversions\<close>; \<^verbatim>\<open>c.amount ?? 0\<close> puts 0 where the amount is
  \<^verbatim>\<open>null\<close>. \<^verbatim>\<open>formatPriceCZK\<close> is the parameter \<open>fmtCZK\<close>.
\<close>

definition enrichOrderWithConversions ::
  "(jsnum \<Rightarrow> SupportedCurrency \<Rightarrow> jsstring) \<Rightarrow> (jsnum \<Rightarrow> jsstring) \<Rightarrow> Order \<times> Product \<Rightarrow>
   world \<Rightarrow> OrderWithConversions \<times> world" where
  "enrichOrderWithConversions fmt fmtCZK op w =
     (case op of (order, product) \<Rightarrow>
        (let totalCzk = order_totalPriceCzk order
         in case fetchAndConvert fmt totalCzk w of
              (fxResult, w') \<Rightarrow>
                (let convs = map (\<lambda>c. \<lparr>conv_code = code c,
                                         conv_amount = (case amount c of None \<Rightarrow> Fin 0 | Some v \<Rightarrow> v),
                                         conv_formatted = formatted c\<rparr>)
                                 (conversions fxResult);
                     productDTO =
                       \<lparr>dto_id = product_id product, dto_title = product_title product,
                        dto_description = product_description product,
                        dto_priceCzk = rnd64 (product_priceCzk product),
                        formattedPrice = fmtCZK (rnd64 (product_priceCzk product)),
                        dto_available = (0 < product_quantity product),
                        dto_quantity = product_quantity product\<rparr>
                 in (\<lparr>res_id = order_id order, res_productId = order_productId order,
                      res_customerName = order_customerName order,
                      res_customerEmail = order_customerEmail order,
                      res_customerPhone = order_customerPhone order,
                      res_customerAddressLine1 = order_customerAddressLine1 order,
                      res_customerAddressLine2 = order_customerAddressLine2 order,
                      res_customerCity = order_customerCity order,
                      res_customerCountry = order_customerCountry order,
                      res_customerZipCode = order_customerZipCode order,
                      res_quantity = order_quantity order,
                      res_unitPriceCzk = order_unitPriceCzk order,
                      res_subtotalCzk = order_subtotalCzk order,
                      res_vatRate = order_vatRate order,
                      res_vatAmountCzk = order_vatAmountCzk order,
                      res_totalPriceCzk = totalCzk,
                      res_createdAt = order_createdAt order,
                      res_product = productDTO,
                      res_conversions = convs\<rparr>, w'))))"

text \<open>The callback that \<^verbatim>\<open>create\<close> runs in the transaction, steps 1 to 5.\<close>

definition create_callback ::
  "(storage_step \<Rightarrow> bool) \<Rightarrow> nat \<Rightarrow> CreateOrderInput \<Rightarrow> database \<Rightarrow>
   failure + ((Order \<times> Product) \<times> database)" where
  "create_callback faults time input tx =
     (case product_findUnique faults tx (productId input) of
        Inl e \<Rightarrow> Inl e
      | Inr None \<Rightarrow> Inl (NotFoundError (not_found_message (str ''Product'') (productId input)))
      | Inr (Some product) \<Rightarrow>
          (if product_quantity product < input_quantity input then
             Inl (ConflictError
                   (str ''Insufficient stock. Available: '' @ show_int (product_quantity product)
                    @ str '', Requested: '' @ show_int (input_quantity input)))
           else
             (let unitPrice = rnd64 (product_priceCzk product);
                  vatBreakdown = calculateVatBreakdown
                    \<lparr>unitPriceCzk = unitPrice,
                     quantity = Fin (of_int (input_quantity input)),
                     vatRate = Some DEFAULT_VAT_RATE\<rparr>
              in case order_create faults time tx
                        \<lparr>order_id = 0, order_createdAt = 0,
                         order_productId = productId input,
                         order_customerName = name (customer input),
                         order_customerEmail = email (customer input),
                         order_customerPhone = phone (customer input),
                         order_customerAddressLine1 = addressLine1 (customer input),
                         order_customerAddressLine2 = addressLine2 (customer input),
                         order_customerCity = city (customer input),
                         order_customerCountry = country (customer input),
                         order_customerZipCode = zipCode (customer input),
                         order_quantity = input_quantity input,
                         order_unitPriceCzk = unitPrice,
                         order_subtotalCzk = subtotalCzk vatBreakdown,
                         order_vatRate = vb_vatRate vatBreakdown,
                         order_vatAmountCzk = vatAmountCzk vatBreakdown,
                         order_totalPriceCzk = totalCzk vatBreakdown\<rparr> of
                   Inl e \<Rightarrow> Inl e
                 | Inr (createdOrder, tx1) \<Rightarrow>
                     (case product_decrement faults tx1 (productId input) (input_quantity input) of
                        Inl e \<Rightarrow> Inl e
                      | Inr tx2 \<Rightarrow> Inr (createdOrder, tx2)))))"

definition create ::
  "(jsnum \<Rightarrow> SupportedCurrency \<Rightarrow> jsstring) \<Rightarrow> (jsnum \<Rightarrow> jsstring) \<Rightarrow> (storage_step \<Rightarrow> bool) \<Rightarrow>
   CreateOrderInput \<Rightarrow> database \<times> world \<Rightarrow> (failure + OrderWithConversions) \<times> (database \<times> world)" where
  "create fmt fmtCZK faults input st =
     (case st of (db, w) \<Rightarrow>
        (case transaction faults (create_callback faults (now w) input) db of
           (Inl e, db') \<Rightarrow> (Inl e, (db', w))
         | (Inr order, db') \<Rightarrow>
             (case enrichOrderWithConversions fmt fmtCZK order w of
                (res, w') \<Rightarrow> (Inr res, (db', w')))))"

text \<open>
  \<^verbatim>\<open>order.findUnique\<close> by id; with \<^verbatim>\<open>include: { product: ... }\<close> the row comes
  with the product it refers to.
\<close>

definition order_findUnique ::
  "(storage_step \<Rightarrow> bool) \<Rightarrow> database \<Rightarrow> int \<Rightarrow> failure + (Order \<times> Product) option" where
  "order_findUnique faults db oid =
     (if faults FindOrder then Inl (StorageFailure FindOrder)
      else case find (\<lambda>row. order_id row = oid) (orders db) of
             None \<Rightarrow> Inr None
           | Some order \<Rightarrow>
               (case products db (order_productId order) of
                  None \<Rightarrow> Inl (StorageFailure FindOrder)
                | Some p \<Rightarrow> Inr (Some (order, p))))"

definition findById ::
  "(jsnum \<Rightarrow> SupportedCurrency \<Rightarrow> jsstring) \<Rightarrow> (jsnum \<Rightarrow> jsstring) \<Rightarrow> (storage_step \<Rightarrow> bool) \<Rightarrow>
   int \<Rightarrow> database \<times> world \<Rightarrow> (failure + OrderWithConversions) \<times> world" where
  "findById fmt fmtCZK faults oid st =
     (case st of (db, w) \<Rightarrow>
        (case order_findUnique faults db oid of
           Inl e \<Rightarrow> (Inl e, w)
         | Inr None \<Rightarrow> (Inl (NotFoundError (not_found_message (str ''Order'') oid)), w)
         | Inr (Some order) \<Rightarrow>
             (case enrichOrderWithConversions fmt fmtCZK order w of
                (res, w') \<Rightarrow> (Inr res, w'))))"

record OrderBasic =
  basic_id :: int
  basic_createdAt :: nat
  basic_productId :: int
  basic_productTitle :: jsstring
  basic_quantity :: int
  basic_customerName :: jsstring
  basic_customerEmail :: jsstring
  basic_unitPriceCzk :: jsnum
  basic_subtotalCzk :: jsnum
  basic_vatRate :: jsnum
  basic_vatAmountCzk :: jsnum
  basic_totalPriceCzk :: jsnum

definition findByIdBasic :: "(storage_step \<Rightarrow> bool) \<Rightarrow> int \<Rightarrow> database \<Rightarrow> failure + OrderBasic" where
  "findByIdBasic faults oid db =
     (case order_findUnique faults db oid of
        Inl e \<Rightarrow> Inl e
      | Inr None \<Rightarrow> Inl (NotFoundError (not_found_message (str ''Order'') oid))
      | Inr (Some (order, product)) \<Rightarrow>
          Inr \<lparr>basic_id = order_id order, basic_createdAt = order_createdAt order,
               basic_productId = order_productId order,
               basic_productTitle = product_title product,
               basic_quantity = order_quantity order,
               basic_customerName = order_customerName order,
               basic_customerEmail = order_customerEmail order,
               basic_unitPriceCzk = order_unitPriceCzk order,
               basic_subtotalCzk = order_subtotalCzk order,
               basic_vatRate = order_vatRate order,
               basic_vatAmountCzk = order_vatAmountCzk order,
               basic_totalPriceCzk = order_totalPriceCzk order\<rparr>)"

record SummaryOrder =
  so_id :: int
  so_createdAt :: nat
  so_productId :: int
  so_productTitle :: jsstring
  so_quantity :: int
  so_customerName :: jsstring
  so_customerEmail :: jsstring

record CzkFormatted =
  subtotal :: jsstring
  vatAmount :: jsstring
  total :: jsstring

record CzkTotals =
  czk_subtotalCzk :: jsnum
  czk_vatAmountCzk :: jsnum
  czk_vatRate :: jsnum
  czk_totalCzk :: jsnum
  czk_formatted :: CzkFormatted

record FxSection =
  available :: bool
  fx_error :: "jsstring option"
  fx_conversions :: "CurrencyConversionResult list"

record Totals =
  czk :: CzkTotals
  fx :: FxSection

record Summary =
  summary_order :: SummaryOrder
  totals :: Totals

text \<open>
  \<^verbatim>\<open>getSummary\<close> of the controller, from the validated order id on; the result is
  the \<^verbatim>\<open>data\<close> of the response, or the error that goes to the error handler.
\<close>

definition getSummary ::
  "(jsnum \<Rightarrow> SupportedCurrency \<Rightarrow> jsstring) \<Rightarrow> (jsnum \<Rightarrow> jsstring) \<Rightarrow> (storage_step \<Rightarrow> bool) \<Rightarrow>
   int \<Rightarrow> database \<times> world \<Rightarrow> (failure + Summary) \<times> world" where
  "getSummary fmt fmtCZK faults oid st =
     (case st of (db, w) \<Rightarrow>
        (case findByIdBasic faults oid db of
           Inl e \<Rightarrow> (Inl e, w)
         | Inr order \<Rightarrow>
             (let czkTotals =
                    \<lparr>czk_subtotalCzk = basic_subtotalCzk order,
                     czk_vatAmountCzk = basic_vatAmountCzk order,
                     czk_vatRate = basic_vatRate order,
                     czk_totalCzk = basic_totalPriceCzk order,
                     czk_formatted =
                       \<lparr>subtotal = fmtCZK (basic_subtotalCzk order),
                        vatAmount = fmtCZK (basic_vatAmountCzk order),
                        total = fmtCZK (basic_totalPriceCzk order)\<rparr>\<rparr>
              in case fetchCnbRates w of
                   (fxResult, w') \<Rightarrow>
                     (let conversionResult =
                            convertFromCzk fmt (basic_totalPriceCzk order) (rates fxResult)
                      in (Inr \<lparr>summary_order =
                                 \<lparr>so_id = basic_id order, so_createdAt = basic_createdAt order,
                                  so_productId = basic_productId order,
                                  so_productTitle = basic_productTitle order,
                                  so_quantity = basic_quantity order,
                                  so_customerName = basic_customerName order,
                                  so_customerEmail = basic_customerEmail order\<rparr>,
                               totals =
                                 \<lparr>czk = czkTotals,
                                  fx = \<lparr>available = fxAvailable conversionResult,
                                        fx_error = (if success fxResult then None
                                                    else error fxResult),
                                        fx_conversions = conversions conversionResult\<rparr>\<rparr>\<rparr>,
                          w')))))"

subsection \<open>Two creations at once\<close>

text \<open>
  \<^verbatim>\<open>prisma.$transaction\<close> is called with the callback alone, so the transaction runs at
  the isolation level the engine has by default; for PostgreSQL, which the repository
  uses, that is read committed: a statement sees what is committed when it runs, the read
  of the product takes no lock, and \<^verbatim>\<open>decrement\<close> applies to the row as it is when the
  update runs. \<open>create_after_read\<close> is the callback from its step 2 on, holding the
  product that step 1 read.
\<close>

definition create_after_read ::
  "(storage_step \<Rightarrow> bool) \<Rightarrow> nat \<Rightarrow> CreateOrderInput \<Rightarrow> Product option \<Rightarrow> database \<Rightarrow>
   failure + ((Order \<times> Product) \<times> database)" where
  "create_after_read faults time input found tx =
     (case found of
        None \<Rightarrow> Inl (NotFoundError (not_found_message (str ''Product'') (productId input)))
      | Some product \<Rightarrow>
          (if product_quantity product < input_quantity input then
             Inl (ConflictError
                   (str ''Insufficient stock. Available: '' @ show_int (product_quantity product)
                    @ str '', Requested: '' @ show_int (input_quantity input)))
           else
             (let unitPrice = rnd64 (product_priceCzk product);
                  vatBreakdown = calculateVatBreakdown
                    \<lparr>unitPriceCzk = unitPrice,
                     quantity = Fin (of_int (input_quantity input)),
                     vatRate = Some DEFAULT_VAT_RATE\<rparr>
              in case order_create faults time tx
                        \<lparr>order_id = 0, order_createdAt = 0,
                         order_productId = productId input,
                         order_customerName = name (customer input),
                         order_customerEmail = email (customer input),
                         order_customerPhone = phone (customer input),
                         order_customerAddressLine1 = addressLine1 (customer input),
                         order_customerAddressLine2 = addressLine2 (customer input),
                         order_customerCity = city (customer input),
                         order_customerCountry = country (customer input),
                         order_customerZipCode = zipCode (customer input),
                         order_quantity = input_quantity input,
                         order_unitPriceCzk = unitPrice,
                         order_subtotalCzk = subtotalCzk vatBreakdown,
                         order_vatRate = vb_vatRate vatBreakdown,
                         order_vatAmountCzk = vatAmountCzk vatBreakdown,
                         order_totalPriceCzk = totalCzk vatBreakdown\<rparr> of
                   Inl e \<Rightarrow> Inl e
                 | Inr (createdOrder, tx1) \<Rightarrow>
                     (case product_decrement faults tx1 (productId input) (input_quantity input) of
                        Inl e \<Rightarrow> Inl e
                      | Inr tx2 \<Rightarrow> Inr (createdOrder, tx2)))))"

text \<open>
  Two creations are followed in turns. A turn of one of them is its read of the product,
  or, once it has read, everything from the check of the stock to the commit, run on what
  is committed by then.
\<close>

datatype client = First | Second

datatype progress =
    NotStarted
  | HasRead "Product option"
  | Finished "failure + (Order \<times> Product)"

record race =
  store :: database
  progress_of_first :: progress
  progress_of_second :: progress

definition advance ::
  "(storage_step \<Rightarrow> bool) \<Rightarrow> nat \<Rightarrow> CreateOrderInput \<Rightarrow> progress \<Rightarrow> database \<Rightarrow>
   progress \<times> database" where
  "advance faults time input p db =
     (case p of
        NotStarted \<Rightarrow>
          (case product_findUnique faults db (productId input) of
             Inl e \<Rightarrow> (Finished (Inl e), db)
           | Inr found \<Rightarrow> (HasRead found, db))
      | HasRead found \<Rightarrow>
          (case transaction faults (create_after_read faults time input found) db of
             (r, db') \<Rightarrow> (Finished r, db'))
      | Finished r \<Rightarrow> (Finished r, db))"

fun interleave ::
  "(storage_step \<Rightarrow> bool) \<Rightarrow> nat \<Rightarrow> CreateOrderInput \<Rightarrow> CreateOrderInput \<Rightarrow> client list \<Rightarrow>
   race \<Rightarrow> race" where
  "interleave faults time inputA inputB [] st = st"
| "interleave faults time inputA inputB (First # turns) st =
     (case advance faults time inputA (progress_of_first st) (store st) of
        (p, db) \<Rightarrow>
          interleave faults time inputA inputB turns (st\<lparr>store := db, progress_of_first := p\<rparr>))"
| "interleave faults time inputA inputB (Second # turns) st =
     (case advance faults time inputB (progress_of_second st) (store st) of
        (p, db) \<Rightarrow>
          interleave faults time inputA inputB turns (st\<lparr>store := db, progress_of_second := p\<rparr>))"

definition committed :: "progress \<Rightarrow> bool" where
  "committed p = (case p of Finished (Inr x) \<Rightarrow> True | _ \<Rightarrow> False)"

definition stored_quantity :: "database \<Rightarrow> int \<Rightarrow> int option" where
  "stored_quantity db pid = map_option product_quantity (products db pid)"

subsection \<open>The failures of the rate source as the specification words them\<close>

text \<open>
  The cause that a failed fetch reports: the message of what the request or the reading of
  the body threw, or the status that is not a success. A body that was read has no cause,
  whatever it holds.
\<close>

definition spec_failure_cause :: "fetch_outcome \<Rightarrow> jsstring option" where
  "spec_failure_cause out =
     (case out of
        Rejected t \<Rightarrow> Some (str ''Failed to fetch rates: '' @ errorMessage t)
      | Resolved r \<Rightarrow>
          (if \<not> ok r then Some (str ''CNB API returned status '' @ decimal (status r))
           else case body r of
                  BodyFails t \<Rightarrow> Some (str ''Failed to fetch rates: '' @ errorMessage t)
                | BodyText txt \<Rightarrow> None))"

definition unavailable :: "SupportedCurrency \<Rightarrow> CurrencyConversionResult" where
  "unavailable c = \<lparr>code = c, amount = None, formatted = str ''N/A''\<rparr>"

text \<open>
  An entry of the \<^verbatim>\<open>conversions\<close> of an order response, from what the conversion of
  the order's total gives for the currency.
\<close>

definition spec_response_conversion ::
  "(jsnum \<Rightarrow> SupportedCurrency \<Rightarrow> jsstring) \<Rightarrow> jsnum \<Rightarrow> CnbRates option \<Rightarrow>
   SupportedCurrency \<Rightarrow> CurrencyConversion" where
  "spec_response_conversion fmt a tbl c =
     (case spec_amount a tbl c of
        None \<Rightarrow> \<lparr>conv_code = c, conv_amount = Fin 0, conv_formatted = str ''N/A''\<rparr>
      | Some v \<Rightarrow> \<lparr>conv_code = c, conv_amount = v, conv_formatted = fmt v c\<rparr>)"

subsection \<open>Order creation as the specification words it\<close>

text \<open>
  The row that a successful creation inserts: the engine's id and time, the customer and
  the quantity of the request, the unit price of the product as a number, and the
  breakdown that the pricing operation computes from them with the default rate. And the
  product after its stock went down by the ordered quantity.
\<close>

definition spec_new_order :: "int \<Rightarrow> nat \<Rightarrow> CreateOrderInput \<Rightarrow> Product \<Rightarrow> Order" where
  "spec_new_order ident time input product =
     (let b = spec_computeBreakdown (rnd64 (product_priceCzk product))
                (Fin (of_int (input_quantity input))) DEFAULT_VAT_RATE
      in \<lparr>order_id = ident, order_createdAt = time, order_productId = productId input,
          order_customerName = name (customer input),
          order_customerEmail = email (customer input),
          order_customerPhone = phone (customer input),
          order_customerAddressLine1 = addressLine1 (customer input),
          order_customerAddressLine2 = addressLine2 (customer input),
          order_customerCity = city (customer input),
          order_customerCountry = country (customer input),
          order_customerZipCode = zipCode (customer input),
          order_quantity = input_quantity input,
          order_unitPriceCzk = rnd64 (product_priceCzk product),
          order_subtotalCzk = subtotalCzk b,
          order_vatRate = vb_vatRate b,
          order_vatAmountCzk = vatAmountCzk b,
          order_totalPriceCzk = totalCzk b\<rparr>)"

definition spec_decremented :: "Product \<Rightarrow> int \<Rightarrow> Product" where
  "spec_decremented product n = product\<lparr>product_quantity := product_quantity product - n\<rparr>"

definition spec_committed :: "database \<Rightarrow> nat \<Rightarrow> CreateOrderInput \<Rightarrow> Product \<Rightarrow> database" where
  "spec_committed db time input product =
     \<lparr>products = (products db)(productId input \<mapsto> spec_decremented product (input_quantity input)),
      orders = orders db @ [spec_new_order (next_order_id db) time input product],
      next_order_id = next_order_id db + 1\<rparr>"

definition insufficient_stock_message :: "int \<Rightarrow> int \<Rightarrow> jsstring" where
  "insufficient_stock_message stock requested =
     str ''Insufficient stock. Available: '' @ show_int stock
     @ str '', Requested: '' @ show_int requested"

text \<open>
  What the specification asks of two creations against one product: they do not both
  commit, and the stored quantity is not negative.
\<close>

definition spec_no_oversell :: "int \<Rightarrow> race \<Rightarrow> bool" where
  "spec_no_oversell pid st =
     (\<not> (committed (progress_of_first st) \<and> committed (progress_of_second st))
      \<and> (case stored_quantity (store st) pid of None \<Rightarrow> True | Some n \<Rightarrow> 0 \<le> n))"

section \<open>Example data\<close>

definition demo_product :: Product where
  "demo_product =
     \<lparr>product_id = 1, product_title = str ''Kniha'', product_description = None,
      product_priceCzk = 1990, product_quantity = 5, product_createdAt = 0\<rparr>"

definition demo_customer :: Customer where
  "demo_customer =
     \<lparr>name = str ''Jan Novak'', email = str ''jan@example.com'', phone = str ''+420123456789'',
      addressLine1 = str ''Hlavni 1'', addressLine2 = None, city = str ''Praha'',
      country = str ''CZ'', zipCode = str ''11000''\<rparr>"

definition demo_input :: "int \<Rightarrow> int \<Rightarrow> CreateOrderInput" where
  "demo_input pid n = \<lparr>productId = pid, input_quantity = n, customer = demo_customer\<rparr>"

definition demo_order :: Order where
  "demo_order =
     \<lparr>order_id = 7, order_createdAt = 0, order_productId = 1,
      order_customerName = str ''Jan Novak'', order_customerEmail = str ''jan@example.com'',
      order_customerPhone = str ''+420123456789'', order_customerAddressLine1 = str ''Hlavni 1'',
      order_customerAddressLine2 = None, order_customerCity = str ''Praha'',
      order_customerCountry = str ''CZ'', order_customerZipCode = str ''11000'',
      order_quantity = 1, order_unitPriceCzk = Fin 1000, order_subtotalCzk = Fin 1000,
      order_vatRate = rnd64 (21 / 100), order_vatAmountCzk = Fin 210,
      order_totalPriceCzk = Fin 1210\<rparr>"

definition demo_db :: database where
  "demo_db = \<lparr>products = (\<lambda>i. None)(1 := Some demo_product), orders = [demo_order],
              next_order_id = 8\<rparr>"

text \<open>A world whose rate source cannot be reached, and one that answers with a page.\<close>

definition world_down :: world where
  "world_down =
     \<lparr>requests = 0, answers = (\<lambda>n. Rejected (ErrorInstance (str ''fetch failed''))), now = 0\<rparr>"

definition world_malformed :: world where
  "world_malformed =
     \<lparr>requests = 0,
      answers = (\<lambda>n. Resolved \<lparr>ok = True, status = 200,
                    body = BodyText (str ''<html>Service Unavailable</html>'')\<rparr>),
      now = 0\<rparr>"

definition no_faults :: "storage_step \<Rightarrow> bool" where
  "no_faults s = False"

definition demo_basic :: OrderBasic where
  "demo_basic =
     \<lparr>basic_id = 7, basic_createdAt = 0, basic_productId = 1,
      basic_productTitle = str ''Kniha'', basic_quantity = 1,
      basic_customerName = str ''Jan Novak'', basic_customerEmail = str ''jan@example.com'',
      basic_unitPriceCzk = Fin 1000, basic_subtotalCzk = Fin 1000,
      basic_vatRate = rnd64 (21 / 100), basic_vatAmountCzk = Fin 210,
      basic_totalPriceCzk = Fin 1210\<rparr>"

section \<open>Rounding to binary64, characterised\<close>

lemma floor_rat_numeral [simp]:
  "\<lfloor>(numeral a :: rat) / numeral b\<rfloor> = numeral a div numeral b"
  using floor_divide_of_int_eq [of "numeral a" "numeral b", where ?'a = rat] by simp

lemma floor_rat_one_numeral [simp]:
  "\<lfloor>(1 :: rat) / numeral b\<rfloor> = 1 div numeral b"
  using floor_divide_of_int_eq [of 1 "numeral b", where ?'a = rat] by simp

lemma rnd64_0: "rnd64 0 = Fin 0"
  by (simp add: rnd64_def)

lemma pow2_powi: "pow2 e = 2 powi e"
  by (simp add: pow2_def power_int_def power_inverse [symmetric] inverse_eq_divide power_one_over)

lemma pow2_pos: "0 < pow2 e"
  by (simp add: pow2_powi)

lemma pow2_add: "pow2 (a + b) = pow2 a * pow2 b"
  by (simp add: pow2_powi power_int_add)

lemma pow2_succ: "pow2 (e + 1) = 2 * pow2 e"
  by (simp add: pow2_add) (simp add: pow2_def)

lemma pow2_pred: "pow2 (e - 1) = pow2 e / 2"
  using pow2_succ [of "e - 1"] by simp

lemma pow2_mono: "a \<le> b \<Longrightarrow> pow2 a \<le> pow2 b"
  by (simp add: pow2_powi power_int_increasing)

lemma ilog2_bounds: "0 < x \<Longrightarrow> pow2 (ilog2 x) \<le> x \<and> x < 2 * pow2 (ilog2 x)"
proof (induction x rule: ilog2.induct)
  case (1 x)
  consider (big) "2 \<le> x" | (small) "x < 1" | (mid) "1 \<le> x" "x < 2" by linarith
  then show ?case
  proof cases
    case big
    then have eq: "ilog2 x = ilog2 (x / 2) + 1" using 1(3) by (subst ilog2.simps) simp
    have "pow2 (ilog2 (x / 2)) \<le> x / 2 \<and> x / 2 < 2 * pow2 (ilog2 (x / 2))"
      using 1(1) big 1(3) by simp
    then show ?thesis unfolding eq pow2_succ by simp
  next
    case small
    then have eq: "ilog2 x = ilog2 (2 * x) - 1" using 1(3) by (subst ilog2.simps) simp
    have "pow2 (ilog2 (2 * x)) \<le> 2 * x \<and> 2 * x < 2 * pow2 (ilog2 (2 * x))"
      using 1(2) small 1(3) by simp
    then show ?thesis unfolding eq pow2_pred by simp
  next
    case mid
    then have eq: "ilog2 x = 0" by (subst ilog2.simps) simp
    show ?thesis unfolding eq using mid by (simp add: pow2_def)
  qed
qed

lemma ilog2_unique:
  assumes "pow2 e \<le> x" "x < 2 * pow2 e"
  shows "ilog2 x = e"
proof -
  have xpos: "0 < x" using assms(1) pow2_pos [of e] by linarith
  let ?k = "ilog2 x"
  have b: "pow2 ?k \<le> x" "x < 2 * pow2 ?k" using ilog2_bounds [OF xpos] by simp_all
  have "\<not> e < ?k"
  proof
    assume "e < ?k"
    then have "pow2 (e + 1) \<le> pow2 ?k" by (intro pow2_mono) simp
    then show False using b(1) assms(2) by (simp add: pow2_succ)
  qed
  moreover have "\<not> ?k < e"
  proof
    assume "?k < e"
    then have "pow2 (?k + 1) \<le> pow2 e" by (intro pow2_mono) simp
    then show False using b(2) assms(1) by (simp add: pow2_succ)
  qed
  ultimately show ?thesis by simp
qed

lemma round_half_even_near: "\<bar>y - of_int m\<bar> < 1 / 2 \<Longrightarrow> round_half_even y = m"
proof -
  assume a: "\<bar>y - of_int m\<bar> < 1 / 2"
  show ?thesis
  proof (cases "of_int m \<le> y")
    case True
    then have f: "\<lfloor>y\<rfloor> = m" using a by (intro floor_unique) linarith+
    show ?thesis using a True by (simp add: round_half_even_def f Let_def)
  next
    case False
    have lo: "of_int (m - 1) \<le> y" using a False by simp
    have hi: "y < of_int (m - 1) + 1" using False by simp
    have f: "\<lfloor>y\<rfloor> = m - 1" using lo hi by (rule floor_unique)
    have "1 / 2 < y - of_int (m - 1)" using a False by simp
    then show ?thesis using a False by (simp add: round_half_even_def f Let_def)
  qed
qed

lemma round_half_even_tie:
  assumes "\<bar>y - of_int m\<bar> = 1 / 2" "even m"
  shows "round_half_even y = m"
proof (cases "of_int m \<le> y")
  case True
  then have d: "y - of_int m = 1 / 2" using assms(1) by simp
  have f: "\<lfloor>y\<rfloor> = m" by (rule floor_unique) (use d in linarith)+
  show ?thesis unfolding round_half_even_def Let_def f d using assms(2) by simp
next
  case False
  then have d: "y - of_int (m - 1) = 1 / 2" using assms(1) by simp
  have f: "\<lfloor>y\<rfloor> = m - 1" by (rule floor_unique) (use d in linarith)+
  show ?thesis unfolding round_half_even_def Let_def f d using assms(2) by simp
qed

lemma round_half_even_eqI:
  assumes "\<bar>y - of_int m\<bar> < 1 / 2 \<or> \<bar>y - of_int m\<bar> = 1 / 2 \<and> even m"
  shows "round_half_even y = m"
  using assms round_half_even_near round_half_even_tie by blast

lemma rnd64_pos_normal:
  assumes "pow2 e \<le> x" "x < 2 * pow2 e" "- 1022 \<le> e" "e \<le> 1022"
    and "\<bar>x - of_int m * pow2 (e - 52)\<bar> < pow2 (e - 52) / 2
       \<or> \<bar>x - of_int m * pow2 (e - 52)\<bar> = pow2 (e - 52) / 2 \<and> even m"
  shows "rnd64 x = Fin (of_int m * pow2 (e - 52))"
proof -
  let ?q = "pow2 (e - 52)"
  have qpos: "0 < ?q" by (rule pow2_pos)
  have xpos: "0 < x" using assms(1) pow2_pos [of e] by linarith
  have il: "ilog2 x = e" using ilog2_unique [OF assms(1,2)] by simp
  have ab: "\<bar>x / ?q - of_int m\<bar> = \<bar>x - of_int m * ?q\<bar> / ?q"
    using qpos by (simp add: field_simps abs_mult [symmetric])
  have "\<bar>x / ?q - of_int m\<bar> < 1 / 2 \<or> \<bar>x / ?q - of_int m\<bar> = 1 / 2 \<and> even m"
    unfolding ab using assms(5) qpos by (auto simp: field_simps)
  then have r: "round_half_even (x / ?q) = m" by (rule round_half_even_eqI)
  have "of_int m * ?q \<le> x + ?q / 2" using assms(5) by linarith
  also have "\<dots> < 2 * pow2 e + ?q" using assms(2) qpos by linarith
  also have "\<dots> \<le> 2 * pow2 e + pow2 e" using pow2_mono [of "e - 52" e] by simp
  also have "\<dots> \<le> 4 * pow2 e" using pow2_pos [of e] by simp
  also have "\<dots> = pow2 (e + 2)" using pow2_add [of e 2] by (simp add: pow2_def)
  also have "\<dots> \<le> pow2 1024" using assms(4) by (intro pow2_mono) simp
  finally have nov: "\<not> pow2 1024 \<le> of_int m * ?q" by simp
  have mx: "max e (- 1022) = e" using assms(3) by simp
  show ?thesis
    using xpos nov by (simp add: rnd64_def il mx r Let_def abs_of_pos)
qed

lemma round_half_even_err: "\<bar>of_int (round_half_even y) - y\<bar> \<le> 1 / 2"
proof -
  have f: "of_int \<lfloor>y\<rfloor> \<le> y" "y < of_int \<lfloor>y\<rfloor> + 1" by linarith+
  show ?thesis
    using f by (auto simp: round_half_even_def Let_def abs_le_iff)
qed

lemma round_half_even_nonneg: "0 \<le> y \<Longrightarrow> 0 \<le> round_half_even y"
proof -
  assume "0 \<le> y"
  then have "0 \<le> \<lfloor>y\<rfloor>" by simp
  then show ?thesis by (auto simp: round_half_even_def Let_def)
qed

lemma ilog2_ge: "pow2 k \<le> x \<Longrightarrow> k \<le> ilog2 x"
proof (rule ccontr)
  assume a: "pow2 k \<le> x" and "\<not> k \<le> ilog2 x"
  then have "ilog2 x + 1 \<le> k" by simp
  then have "pow2 (ilog2 x + 1) \<le> pow2 k" by (rule pow2_mono)
  moreover have "0 < x" using a pow2_pos [of k] by linarith
  ultimately show False using ilog2_bounds [of x] a by (simp add: pow2_succ)
qed

lemma ilog2_le: "0 < x \<Longrightarrow> x \<le> pow2 k \<Longrightarrow> ilog2 x \<le> k"
proof (rule ccontr)
  assume a: "0 < x" "x \<le> pow2 k" and "\<not> ilog2 x \<le> k"
  then have "k + 1 \<le> ilog2 x" by simp
  then have "pow2 (k + 1) \<le> pow2 (ilog2 x)" by (rule pow2_mono)
  then have "2 * pow2 k \<le> x" using ilog2_bounds [OF a(1)] by (simp add: pow2_succ)
  then show False using a(2) pow2_pos [of k] by linarith
qed

text \<open>The rounding error of \<open>rnd64\<close>: relative \<open>2 ^ -53\<close>, and \<open>2 ^ -1075\<close> below the normal range.\<close>

lemma rnd64_error:
  assumes "0 \<le> x" "x \<le> pow2 1022"
  shows "\<exists>y. rnd64 x = Fin y \<and> 0 \<le> y \<and> \<bar>y - x\<bar> \<le> max x (pow2 (- 1022)) / 2 ^ 53"
proof (cases "x = 0")
  case True
  then show ?thesis using pow2_pos [of "- 1022"] by (simp add: rnd64_def)
next
  case False
  then have xpos: "0 < x" using assms(1) by simp
  define e where "e = max (ilog2 x) (- 1022)"
  define q where "q = pow2 (e - 52)"
  define m where "m = round_half_even (x / q)"
  have qpos: "0 < q" unfolding q_def by (rule pow2_pos)
  have e_le: "e \<le> 1022" unfolding e_def using ilog2_le [OF xpos assms(2)] by simp
  have x_lt: "x < 2 * pow2 e"
  proof -
    have "x < 2 * pow2 (ilog2 x)" using ilog2_bounds [OF xpos] by simp
    also have "\<dots> \<le> 2 * pow2 e" using pow2_mono [of "ilog2 x" e] by (simp add: e_def)
    finally show ?thesis .
  qed
  have "\<bar>of_int m - x / q\<bar> \<le> 1 / 2" unfolding m_def by (rule round_half_even_err)
  then have "\<bar>of_int m - x / q\<bar> * q \<le> 1 / 2 * q"
    using qpos by (intro mult_right_mono) simp_all
  moreover have "\<bar>of_int m - x / q\<bar> * q = \<bar>of_int m * q - x\<bar>"
    using qpos by (simp add: abs_mult [symmetric] field_simps)
  ultimately have err: "\<bar>of_int m * q - x\<bar> \<le> q / 2" by simp
  have mnn: "0 \<le> m" unfolding m_def using xpos qpos by (intro round_half_even_nonneg) simp
  have q_eq: "q = pow2 e / 2 ^ 52"
    using pow2_add [of "e - 52" 52] by (simp add: q_def pow2_def [of 52])
  have q_le: "q / 2 \<le> max x (pow2 (- 1022)) / 2 ^ 53"
  proof (cases "- 1022 \<le> ilog2 x")
    case True
    then have "e = ilog2 x" by (simp add: e_def)
    then have "pow2 e \<le> x" using ilog2_bounds [OF xpos] by simp
    then have "pow2 e \<le> max x (pow2 (- 1022))" by simp
    then show ?thesis unfolding q_eq by (simp add: field_simps)
  next
    case False
    then have "e = - 1022" by (simp add: e_def)
    then have "pow2 e \<le> max x (pow2 (- 1022))" by simp
    then show ?thesis unfolding q_eq by (simp add: field_simps)
  qed
  have "of_int m * q \<le> x + q / 2" using err by linarith
  also have "\<dots> < 2 * pow2 e + q" using x_lt qpos by linarith
  also have "\<dots> \<le> 2 * pow2 e + pow2 e" using pow2_mono [of "e - 52" e] by (simp add: q_def)
  also have "\<dots> \<le> 4 * pow2 e" using pow2_pos [of e] by simp
  also have "\<dots> = pow2 (e + 2)" using pow2_add [of e 2] by (simp add: pow2_def [of 2])
  also have "\<dots> \<le> pow2 1024" using e_le by (intro pow2_mono) simp
  finally have nov: "\<not> pow2 1024 \<le> of_int m * q" by simp
  have r: "rnd64 x = Fin (of_int m * q)"
    using xpos nov False
    by (simp add: rnd64_def Let_def abs_of_pos e_def [symmetric] q_def [symmetric] m_def [symmetric])
  have "0 \<le> of_int m * q" using mnn qpos by simp
  then show ?thesis using r err q_le by (intro exI [of _ "of_int m * q"]) simp
qed

lemma rnd64_overflow:
  assumes "pow2 1024 \<le> x"
  shows "rnd64 x = PInf"
proof -
  have xpos: "0 < x" using assms pow2_pos [of 1024] by linarith
  define e where "e = ilog2 x"
  have e_ge: "1024 \<le> e" unfolding e_def using assms by (rule ilog2_ge)
  define q where "q = pow2 (e - 52)"
  define m where "m = round_half_even (x / q)"
  have qpos: "0 < q" unfolding q_def by (rule pow2_pos)
  have q_eq: "pow2 e = q * 2 ^ 52"
    using pow2_add [of "e - 52" 52] by (simp add: q_def pow2_def [of 52])
  have "pow2 e \<le> x" unfolding e_def using ilog2_bounds [OF xpos] by simp
  then have "4503599627370496 \<le> x / q" using qpos by (simp add: q_eq field_simps)
  moreover have "\<bar>of_int m - x / q\<bar> \<le> 1 / 2" unfolding m_def by (rule round_half_even_err)
  ultimately have "(4503599627370495 :: rat) < of_int m" by linarith
  then have "(4503599627370495 :: int) < m" by simp
  then have "(4503599627370496 :: int) \<le> m" by simp
  then have "(4503599627370496 :: rat) \<le> of_int m" by simp
  then have "2 ^ 52 * q \<le> of_int m * q" using qpos by (intro mult_right_mono) simp_all
  then have "pow2 e \<le> of_int m * q" by (simp add: q_eq mult.commute)
  moreover have "pow2 1024 \<le> pow2 e" using e_ge by (rule pow2_mono)
  ultimately have ov: "pow2 1024 \<le> of_int m * q" by linarith
  have mx: "max e (- 1022) = e" using e_ge by simp
  show ?thesis
    using xpos ov
    by (simp add: rnd64_def Let_def abs_of_pos e_def [symmetric] mx q_def [symmetric]
        m_def [symmetric])
qed

section \<open>Properties of the VAT calculation\<close>

lemma sanitizePrice_spec: "sanitizePrice p = spec_sanitized_unitPrice p"
  by (cases p)
    (simp_all add: sanitizePrice_def spec_sanitized_unitPrice_def isFinite_def js_lt_def
      Math_max_def)

lemma sanitizeQuantity_spec: "sanitizeQuantity q = spec_sanitized_quantity q"
proof (cases q)
  case (Fin a)
  show ?thesis
  proof (cases "a < 0")
    case True
    then show ?thesis
      by (simp add: Fin sanitizeQuantity_def spec_sanitized_quantity_def isFinite_def js_lt_def)
  next
    case False
    define n where "n = \<lfloor>a + 1 / 2\<rfloor>"
    have "0 \<le> n" unfolding n_def using False by linarith
    then have "\<not> rat_of_int n < 0" by simp
    then have mx: "Math_max (Fin 0) (Fin (of_int n)) = Fin (of_int n)"
      by (auto simp: Math_max_def js_lt_def)
    have r: "Math_round (Fin a) = Fin (of_int n)" by (simp add: Math_round_def n_def)
    have "sanitizeQuantity (Fin a) = Fin (of_int n)"
      using False by (simp add: sanitizeQuantity_def isFinite_def js_lt_def r mx)
    moreover have "spec_sanitized_quantity (Fin a) = Fin (of_int n)"
      using False by (simp add: spec_sanitized_quantity_def round_def n_def)
    ultimately show ?thesis by (simp add: Fin)
  qed
qed (simp_all add: sanitizeQuantity_def spec_sanitized_quantity_def isFinite_def)

subsection \<open>The worked example, operation by operation\<close>


lemma rnd64_33333: "rnd64 (33333 / 100) = Fin (5864003374185185 / 17592186044416)"
  using rnd64_pos_normal [of "8" "33333 / 100" "5864003374185185"] by (simp add: pow2_def)

lemma rnd64_99999: "rnd64 (99999 / 100) = Fin (4398002530638889 / 4398046511104)"
  using rnd64_pos_normal [of "9" "99999 / 100" "8796005061277778"] by (simp add: pow2_def)

lemma rnd64_21: "rnd64 (21 / 100) = Fin (7566047373982433 / 36028797018963968)"
  using rnd64_pos_normal [of "- 3" "21 / 100" "7566047373982433"] by (simp add: pow2_def)

lemma rnd64_120999: "rnd64 (120999 / 100) = Fin (5321592297970729 / 4398046511104)"
  using rnd64_pos_normal [of "10" "120999 / 100" "5321592297970729"] by (simp add: pow2_def)

lemma rnd64_210: "rnd64 210 = Fin 210"
  using rnd64_pos_normal [of "7" "210" "7388718138654720"] by (simp add: pow2_def)

lemma breakdown_example_inputs:
  "sanitizePrice (Fin (5864003374185185 / 17592186044416)) = Fin (5864003374185185 / 17592186044416)"
  "sanitizeQuantity (Fin 3) = Fin 3"
  by (simp_all add: sanitizePrice_spec sanitizeQuantity_spec spec_sanitized_unitPrice_def
      spec_sanitized_quantity_def round_def)

lemma breakdown_example_subtotal:
  "roundToTwoDecimals (js_mul (Fin (5864003374185185 / 17592186044416)) (Fin 3))
     = Fin (4398002530638889 / 4398046511104)"
proof -
  have a2: "rnd64 (17592010122555555 / 17592186044416) = Fin (4398002530638889 / 4398046511104)"
    using rnd64_pos_normal [of "9" "17592010122555555 / 17592186044416" "8796005061277778"]
    by (simp add: pow2_def)
  have a3: "rnd64 (109950063265972225 / 1099511627776) = Fin 99999"
    using rnd64_pos_normal [of "16" "109950063265972225 / 1099511627776" "6871878954123264"]
    by (simp add: pow2_def)
  show ?thesis
    by (simp add: roundToTwoDecimals_def js_mul_def js_div_def Math_round_def a2 a3 rnd64_99999)
qed

lemma breakdown_example_vat:
  "roundToTwoDecimals (js_mul (Fin (4398002530638889 / 4398046511104))
       (Fin (7566047373982433 / 36028797018963968)))
     = Fin 210"
proof -
  have a4: "rnd64 (33275495497708460950271752636937 / 158456325028528675187087900672)
      = Fin (7388644251473333 / 35184372088832)"
    using rnd64_pos_normal [of "7"
        "33275495497708460950271752636937 / 158456325028528675187087900672" "7388644251473333"]
    by (simp add: pow2_def)
  have a5: "rnd64 (184716106286833325 / 8796093022208) = Fin (5772378321463541 / 274877906944)"
    using rnd64_pos_normal [of "14" "184716106286833325 / 8796093022208" "5772378321463541"]
    by (simp add: pow2_def)
  show ?thesis
    by (simp add: roundToTwoDecimals_def js_mul_def js_div_def Math_round_def a4 a5 rnd64_210)
qed

lemma breakdown_example_total:
  "roundToTwoDecimals (js_add (Fin (4398002530638889 / 4398046511104)) (Fin 210))
     = Fin (5321592297970729 / 4398046511104)"
proof -
  have a6: "rnd64 (5321592297970729 / 4398046511104) = Fin (5321592297970729 / 4398046511104)"
    using rnd64_pos_normal [of "10" "5321592297970729 / 4398046511104" "5321592297970729"]
    by (simp add: pow2_def)
  have a7: "rnd64 (133039807449268225 / 1099511627776) = Fin 120999"
    using rnd64_pos_normal [of "16" "133039807449268225 / 1099511627776" "8314987965579264"]
    by (simp add: pow2_def)
  show ?thesis
    by (simp add: roundToTwoDecimals_def js_mul_def js_add_def js_div_def Math_round_def
        a6 a7 rnd64_120999)
qed

lemma breakdown_example:
  "calculateVatBreakdown
     \<lparr>unitPriceCzk = Fin (5864003374185185 / 17592186044416), quantity = Fin 3,
      vatRate = Some (Fin (7566047373982433 / 36028797018963968))\<rparr>
   = \<lparr>subtotalCzk = Fin (4398002530638889 / 4398046511104), vatAmountCzk = Fin 210,
      totalCzk = Fin (5321592297970729 / 4398046511104),
      vb_vatRate = Fin (7566047373982433 / 36028797018963968)\<rparr>"
  by (simp add: calculateVatBreakdown_def Let_def breakdown_example_inputs
      breakdown_example_subtotal breakdown_example_vat breakdown_example_total)

section \<open>Error bounds of the VAT calculation\<close>

lemma pow2_tiny: "pow2 (- 1022) \<le> 1 / 1024"
  using pow2_mono [of "- 1022" "- 10"] by (simp add: pow2_def [of "- 10"])

lemma pow2_1000_bounds: "128 * pow2 1000 \<le> pow2 1022" "1 \<le> pow2 1000"
proof -
  have "pow2 1007 \<le> pow2 1022" by (rule pow2_mono) simp
  moreover have "pow2 1007 = pow2 1000 * pow2 7" using pow2_add [of 1000 7] by simp
  ultimately show "128 * pow2 1000 \<le> pow2 1022" by (simp add: pow2_def [of 7])
  have "pow2 0 \<le> pow2 1000" by (rule pow2_mono) simp
  then show "1 \<le> pow2 1000" by (simp add: pow2_def [of 0])
qed

lemma abs_diff_split: "\<bar>a - b\<bar> \<le> c \<Longrightarrow> a \<le> b + c \<and> b \<le> a + c" for a b c :: rat
  by linarith

text \<open>
  Rounding a value that is not negative to two decimals: the result is within half a cent
  and a relative \<open>2 ^ -51\<close> of the value, and it is 0 for a value below a third of a cent.
\<close>

lemma round2_error:
  assumes "0 \<le> z" "z \<le> pow2 1000"
  shows "\<exists>y. roundToTwoDecimals (Fin z) = Fin y \<and> 0 \<le> y
           \<and> \<bar>y - z\<bar> \<le> 1 / 200 + z / 2 ^ 51 \<and> (z < 1 / 300 \<longrightarrow> y = 0)"
proof -
  have big: "128 * pow2 1000 \<le> pow2 1022" and one: "1 \<le> pow2 1000"
    by (rule pow2_1000_bounds)+
  have "z * 100 \<le> pow2 1022" using assms big by linarith
  moreover have "0 \<le> z * 100" using assms by simp
  ultimately obtain a where a: "rnd64 (z * 100) = Fin a" "0 \<le> a"
      "\<bar>a - z * 100\<bar> \<le> max (z * 100) (pow2 (- 1022)) / 2 ^ 53"
    using rnd64_error [of "z * 100"] by blast
  define k where "k = \<lfloor>a + 1 / 2\<rfloor>"
  have k1: "of_int k \<le> a + 1 / 2" and k2: "a + 1 / 2 < of_int k + 1"
    unfolding k_def by linarith+
  have knn: "0 \<le> k" unfolding k_def using a(2) by simp
  then have knn': "(0::rat) \<le> of_int k" by simp
  define M where "M = max (z * 100) (pow2 (- 1022))"
  have mx: "M \<le> z * 100 + 1 / 1024"
    unfolding M_def using pow2_tiny assms(1) by (simp add: max_def)
  have "a \<le> z * 100 + M / 2 ^ 53"
    using abs_diff_split [OF a(3)] by (simp add: M_def)
  then have a_hi: "a \<le> z * 100 + z * 100 / 9007199254740992 + 1 / 1024 / 9007199254740992"
    using mx by (simp add: field_simps)
  have "of_int k / 100 \<le> pow2 1022" using k1 a_hi assms(2) big one by (simp add: field_simps)
  moreover have "(0::rat) \<le> of_int k / 100" using knn' by simp
  ultimately obtain y where y: "rnd64 (of_int k / 100) = Fin y" "0 \<le> y"
      "\<bar>y - of_int k / 100\<bar> \<le> max (of_int k / 100) (pow2 (- 1022)) / 2 ^ 53"
    using rnd64_error [of "of_int k / 100"] by blast
  have run: "roundToTwoDecimals (Fin z) = Fin y"
    by (simp add: roundToTwoDecimals_def js_mul_def js_div_def Math_round_def a(1) k_def [symmetric]
        y(1))
  have zero: "y = 0" if "k = 0"
    using y(1) that by (simp add: rnd64_0)
  have small: "k = 0" if "z < 1 / 300"
  proof -
    have "a + 1 / 2 < 1" using a_hi that by linarith
    then have "k < 1" unfolding k_def by (simp add: floor_less_iff)
    then show ?thesis using knn by simp
  qed
  have err: "\<bar>y - z\<bar> \<le> 1 / 200 + z / 2 ^ 51"
  proof (cases "z < 1 / 300")
    case True
    then have "y = 0" using small zero by simp
    then show ?thesis using True assms(1) by simp
  next
    case False
    then have zl: "1 / 300 \<le> z" by simp
    then have "pow2 (- 1022) \<le> z * 100" using pow2_tiny by linarith
    then have "max (z * 100) (pow2 (- 1022)) = z * 100" by simp
    then have a3: "a \<le> z * 100 + z * 100 / 9007199254740992"
        "z * 100 \<le> a + z * 100 / 9007199254740992"
      using abs_diff_split [OF a(3)] by simp_all
    show ?thesis
    proof (cases "k = 0")
      case True
      then have y0: "y = 0" by (rule zero)
      have "a < 1 / 2" using k2 True by simp
      then show ?thesis using y0 a3 assms(1) by simp
    next
      case False
      then have "1 \<le> k" using knn by simp
      then have "(1::rat) \<le> of_int k" by simp
      then have "pow2 (- 1022) \<le> of_int k / 100" using pow2_tiny by linarith
      then have "max (of_int k / 100) (pow2 (- 1022)) = of_int k / 100" by simp
      then have y3: "y \<le> of_int k / 100 + of_int k / 100 / 9007199254740992"
          "of_int k / 100 \<le> y + of_int k / 100 / 9007199254740992"
        using abs_diff_split [OF y(3)] by simp_all
      show ?thesis
        using y3 a3 k1 k2 zl by (simp add: abs_le_iff)
    qed
  qed
  show ?thesis using run y(2) err small zero by (intro exI [of _ y]) simp
qed

lemma pow2_990_bounds: "4 * pow2 990 \<le> pow2 1000" "pow2 1000 \<le> pow2 1022"
proof -
  have "pow2 992 \<le> pow2 1000" by (rule pow2_mono) simp
  moreover have "pow2 992 = pow2 990 * pow2 2" using pow2_add [of 990 2] by simp
  ultimately show "4 * pow2 990 \<le> pow2 1000" by (simp add: pow2_def [of 2])
  show "pow2 1000 \<le> pow2 1022" by (rule pow2_mono) simp
qed

lemma pow2_tinier: "pow2 (- 1022) \<le> 1 / 1048576"
  using pow2_mono [of "- 1022" "- 20"] by (simp add: pow2_def [of "- 20"])

text \<open>
  The price before tax of a total that is not negative, for a rate between 0 and 1: times
  one plus the rate it is within half a cent times one plus the rate, and a relative
  \<open>2 ^ -50\<close>, of the total.
\<close>

lemma price_before_vat_error:
  assumes "0 \<le> T" "T \<le> pow2 990" "0 \<le> r" "r \<le> 1"
  shows "\<exists>P. calculatePriceBeforeVat (Fin T) (Fin r) = Fin P \<and> 0 \<le> P
           \<and> \<bar>T - P * (1 + r)\<bar> \<le> (1 + r) / 200 + T / 2 ^ 50"
proof -
  have big: "4 * pow2 990 \<le> pow2 1000" "pow2 1000 \<le> pow2 1022" "1 \<le> pow2 1000"
    using pow2_990_bounds pow2_1000_bounds(2) by simp_all
  have san: "sanitizePrice (Fin T) = Fin T"
    using assms(1) by (simp add: sanitizePrice_spec spec_sanitized_unitPrice_def)
  have "pow2 1 \<le> pow2 1022" by (rule pow2_mono) simp
  then have two: "2 \<le> pow2 1022" by (simp add: pow2_def [of 1])
  have "0 \<le> 1 + r" "1 + r \<le> pow2 1022" using assms(3,4) two by simp_all
  then obtain d where d: "rnd64 (1 + r) = Fin d"
      "\<bar>d - (1 + r)\<bar> \<le> max (1 + r) (pow2 (- 1022)) / 2 ^ 53"
    using rnd64_error [of "1 + r"] by blast
  have "pow2 (- 1022) \<le> 1 + r" using pow2_tiny assms(3) by linarith
  then have "max (1 + r) (pow2 (- 1022)) = 1 + r" by simp
  then have d_hi: "d \<le> (1 + r) + (1 + r) / 9007199254740992"
    and d_lo: "(1 + r) \<le> d + (1 + r) / 9007199254740992"
    using abs_diff_split [OF d(2)] by simp_all
  have dpos: "1 / 2 \<le> d" using d_lo assms(3,4) by (simp add: field_simps)
  then have dne: "d \<noteq> 0" by simp
  define w where "w = T / d"
  have dw: "d * w = T" using dne by (simp add: w_def)
  have wnn: "0 \<le> w" unfolding w_def using assms(1) dpos by simp
  have "w * (1 / 2) \<le> w * d" using wnn dpos by (intro mult_left_mono)
  then have w2: "w \<le> 2 * T" using dw by (simp add: mult.commute)
  then have "w \<le> pow2 1022" using assms(2) big by linarith
  then obtain x1 where x1: "rnd64 w = Fin x1" "0 \<le> x1"
      "\<bar>x1 - w\<bar> \<le> max w (pow2 (- 1022)) / 2 ^ 53"
    using rnd64_error [OF wnn] by blast
  define M where "M = max w (pow2 (- 1022))"
  have M1: "M \<le> w + 1 / 1024" unfolding M_def using pow2_tiny wnn by (simp add: max_def)
  have x1_hi: "x1 \<le> w + M / 9007199254740992"
    using abs_diff_split [OF x1(3)] by (simp add: M_def)
  have "x1 \<le> pow2 1000" using x1_hi M1 w2 assms(2) big by (simp add: field_simps)
  then obtain P where P: "roundToTwoDecimals (Fin x1) = Fin P" "0 \<le> P"
      "\<bar>P - x1\<bar> \<le> 1 / 200 + x1 / 2 ^ 51" "x1 < 1 / 300 \<longrightarrow> P = 0"
    using round2_error [OF x1(2)] by blast
  have run: "calculatePriceBeforeVat (Fin T) (Fin r) = Fin P"
    using dne by (simp add: calculatePriceBeforeVat_def san js_add_def d(1) js_div_def
        w_def [symmetric] x1(1) P(1))
  have err: "\<bar>T - P * (1 + r)\<bar> \<le> (1 + r) / 200 + T / 2 ^ 50"
  proof (cases "T < 1 / 1000")
    case True
    have "x1 < 1 / 300" using x1_hi M1 w2 True by (simp add: field_simps)
    then have "P = 0" using P(4) by simp
    then show ?thesis using True assms(1,3) by (simp add: field_simps)
  next
    case False
    then have Tl: "1 / 1000 \<le> T" by simp
    have "w * d \<le> w * 3" using wnn d_hi assms(4) by (intro mult_left_mono) (simp_all add: field_simps)
    then have wl: "T \<le> 3 * w" using dw by (simp add: mult.commute)
    then have "pow2 (- 1022) \<le> w" using pow2_tinier Tl by linarith
    then have Mw: "M = w" by (simp add: M_def)
    define g where "g = (1 + r) * w"
    define h where "h = (1 + r) * x1"
    define PP where "PP = (1 + r) * P"
    have rp: "0 \<le> 1 + r" using assms(3) by simp
    have "T = d * w" using dw by simp
    also have "\<dots> \<le> ((1 + r) + (1 + r) / 9007199254740992) * w"
      using d_hi wnn by (intro mult_right_mono)
    also have "\<dots> = g + g / 9007199254740992"
      by (simp add: g_def field_simps)
    finally have g1: "T \<le> g + g / 9007199254740992" .
    have "g = (1 + r) * w" by (simp add: g_def)
    also have "\<dots> \<le> (d + (1 + r) / 9007199254740992) * w"
      using d_lo wnn by (intro mult_right_mono)
    also have "\<dots> = d * w + g / 9007199254740992"
      by (simp add: g_def field_simps)
    finally have g2: "g \<le> T + g / 9007199254740992"
      unfolding dw .
    have x1w: "x1 \<le> w + w / 9007199254740992" "w \<le> x1 + w / 9007199254740992"
      using abs_diff_split [OF x1(3)] Mw by (simp_all add: M_def)
    have "h = (1 + r) * x1" by (simp add: h_def)
    also have "\<dots> \<le> (1 + r) * (w + w / 9007199254740992)"
      using x1w(1) rp by (intro mult_left_mono)
    also have "\<dots> = g + g / 9007199254740992"
      by (simp add: g_def field_simps)
    finally have h1: "h \<le> g + g / 9007199254740992" .
    have "g = (1 + r) * w" by (simp add: g_def)
    also have "\<dots> \<le> (1 + r) * (x1 + w / 9007199254740992)"
      using x1w(2) rp by (intro mult_left_mono)
    also have "\<dots> = h + g / 9007199254740992"
      by (simp add: g_def h_def field_simps)
    finally have h2: "g \<le> h + g / 9007199254740992" .
    have Px: "P \<le> x1 + (1 / 200 + x1 / 2251799813685248)"
        "x1 \<le> P + (1 / 200 + x1 / 2251799813685248)"
      using abs_diff_split [OF P(3)] by simp_all
    have "PP = (1 + r) * P" by (simp add: PP_def)
    also have "\<dots> \<le> (1 + r) * (x1 + (1 / 200 + x1 / 2251799813685248))"
      using Px(1) rp by (intro mult_left_mono)
    also have "\<dots> = h + (1 + r) / 200 + h / 2251799813685248"
      by (simp add: h_def field_simps)
    finally have p1: "PP \<le> h + (1 + r) / 200 + h / 2251799813685248" .
    have "h = (1 + r) * x1" by (simp add: h_def)
    also have "\<dots> \<le> (1 + r) * (P + (1 / 200 + x1 / 2251799813685248))"
      using Px(2) rp by (intro mult_left_mono)
    also have "\<dots> = PP + (1 + r) / 200 + h / 2251799813685248"
      by (simp add: PP_def h_def field_simps)
    finally have p2: "h \<le> PP + (1 + r) / 200 + h / 2251799813685248" .
    have gnn: "0 \<le> g" unfolding g_def using rp wnn by simp
    have up: "PP - T \<le> (1 + r) / 200 + T / 1125899906842624"
      using g1 g2 h1 h2 p1 p2 gnn by linarith
    have dn: "T - PP \<le> (1 + r) / 200 + T / 1125899906842624"
      using g1 g2 h1 h2 p1 p2 gnn by linarith
    have "\<bar>T - PP\<bar> \<le> (1 + r) / 200 + T / 1125899906842624"
      using up dn by (simp add: abs_le_iff)
    then show ?thesis by (simp add: PP_def mult.commute)
  qed
  show ?thesis using run P(2) err by blast
qed

lemma pow2_900_bounds: "1024 * pow2 900 \<le> pow2 990" "1 \<le> pow2 900"
proof -
  have "pow2 910 \<le> pow2 990" by (rule pow2_mono) simp
  moreover have "pow2 910 = pow2 900 * pow2 10" using pow2_add [of 900 10] by simp
  ultimately show "1024 * pow2 900 \<le> pow2 990" by (simp add: pow2_def [of 10])
  have "pow2 0 \<le> pow2 900" by (rule pow2_mono) simp
  then show "1 \<le> pow2 900" by (simp add: pow2_def [of 0])
qed

text \<open>
  An arithmetic result that is not negative, rounded to binary64 and then to two decimals:
  the amount is within half a cent, and a relative \<open>2 ^ -50\<close>, of the exact result.
\<close>

lemma rounded_amount_error:
  assumes "0 \<le> x" "x \<le> pow2 990"
  shows "\<exists>a y. rnd64 x = Fin a \<and> roundToTwoDecimals (Fin a) = Fin y \<and> 0 \<le> y
           \<and> y \<le> 4 * x + 3 \<and> \<bar>y - x\<bar> \<le> 1 / 200 + x / 2 ^ 50"
proof -
  have big: "4 * pow2 990 \<le> pow2 1000" "pow2 1000 \<le> pow2 1022" "1 \<le> pow2 990"
    using pow2_990_bounds pow2_mono [of 0 990] by (simp_all add: pow2_def [of 0])
  have "x \<le> pow2 1022" using assms(2) big by linarith
  then obtain a where a: "rnd64 x = Fin a" "0 \<le> a"
      "\<bar>a - x\<bar> \<le> max x (pow2 (- 1022)) / 2 ^ 53"
    using rnd64_error [OF assms(1)] by blast
  define M where "M = max x (pow2 (- 1022))"
  have M1: "M \<le> x + 1 / 1024" unfolding M_def using pow2_tiny assms(1) by (simp add: max_def)
  have a_hi: "a \<le> x + M / 9007199254740992"
    using abs_diff_split [OF a(3)] by (simp add: M_def)
  have a2: "a \<le> 2 * x + 1" using a_hi M1 assms(1) by (simp add: field_simps)
  then have "a \<le> pow2 1000" using assms(2) big by linarith
  then obtain y where y: "roundToTwoDecimals (Fin a) = Fin y" "0 \<le> y"
      "\<bar>y - a\<bar> \<le> 1 / 200 + a / 2 ^ 51" "a < 1 / 300 \<longrightarrow> y = 0"
    using round2_error [OF a(2)] by blast
  have ya: "y \<le> a + (1 / 200 + a / 2251799813685248)"
      "a \<le> y + (1 / 200 + a / 2251799813685248)"
    using abs_diff_split [OF y(3)] by simp_all
  have bound: "y \<le> 4 * x + 3" using ya(1) a2 a(2) by (simp add: field_simps)
  have err: "\<bar>y - x\<bar> \<le> 1 / 200 + x / 2 ^ 50"
  proof (cases "x < 1 / 1000")
    case True
    have "a < 1 / 300" using a_hi M1 True by (simp add: field_simps)
    then have "y = 0" using y(4) by simp
    then show ?thesis using True assms(1) by (simp add: field_simps)
  next
    case False
    then have "pow2 (- 1022) \<le> x" using pow2_tinier by linarith
    then have "M = x" by (simp add: M_def)
    then have ax: "a \<le> x + x / 9007199254740992" "x \<le> a + x / 9007199254740992"
      using abs_diff_split [OF a(3)] by (simp_all add: M_def)
    have up: "y - x \<le> 1 / 200 + x / 1125899906842624"
      using ax ya assms(1) by linarith
    have dn: "x - y \<le> 1 / 200 + x / 1125899906842624"
      using ax ya assms(1) by linarith
    show ?thesis using up dn by (simp add: abs_le_iff)
  qed
  show ?thesis using a(1) y(1,2) bound err by blast
qed

text \<open>
  The breakdown of a price and a quantity that are not negative, at a rate between 0 and 1,
  when the price times the rounded quantity is at most \<open>2 ^ 900\<close>: the three amounts are
  finite and not negative, and the total is within half a cent, and a relative
  \<open>2 ^ -50\<close>, of the sum of the other two.
\<close>

lemma breakdown_error:
  assumes "0 \<le> p" "0 \<le> q" "0 \<le> r" "r \<le> 1" "p * of_int \<lfloor>q + 1 / 2\<rfloor> \<le> pow2 900"
  shows "\<exists>s t T. calculateVatBreakdown
             \<lparr>unitPriceCzk = Fin p, quantity = Fin q, vatRate = Some (Fin r)\<rparr>
           = \<lparr>subtotalCzk = Fin s, vatAmountCzk = Fin t, totalCzk = Fin T, vb_vatRate = Fin r\<rparr>
         \<and> 0 \<le> s \<and> 0 \<le> t \<and> 0 \<le> T \<and> T \<le> pow2 990
         \<and> \<bar>T - (s + t)\<bar> \<le> 1 / 200 + (s + t) / 2 ^ 50"
proof -
  have big: "1024 * pow2 900 \<le> pow2 990" "1 \<le> pow2 900" by (rule pow2_900_bounds)+
  define n :: rat where "n = of_int \<lfloor>q + 1 / 2\<rfloor>"
  have "0 \<le> \<lfloor>q + 1 / 2\<rfloor>" using assms(2) by simp
  then have nnn: "0 \<le> n" unfolding n_def by simp
  have sp: "sanitizePrice (Fin p) = Fin p"
    using assms(1) by (simp add: sanitizePrice_spec spec_sanitized_unitPrice_def)
  have sq: "sanitizeQuantity (Fin q) = Fin n"
    using assms(2) by (simp add: sanitizeQuantity_spec spec_sanitized_quantity_def round_def n_def)
  define x0 where "x0 = p * n"
  have x0nn: "0 \<le> x0" unfolding x0_def using assms(1) nnn by simp
  have x0le: "x0 \<le> pow2 900" using assms(5) by (simp add: x0_def n_def)
  then have "x0 \<le> pow2 990" using big by linarith
  then obtain a0 s where s: "rnd64 x0 = Fin a0" "roundToTwoDecimals (Fin a0) = Fin s" "0 \<le> s"
      "s \<le> 4 * x0 + 3"
    using rounded_amount_error [OF x0nn] by blast
  define x1 where "x1 = s * r"
  have x1nn: "0 \<le> x1" unfolding x1_def using s(3) assms(3) by simp
  have "s * r \<le> s * 1" using s(3) assms(4) by (intro mult_left_mono)
  then have x1le: "x1 \<le> s" by (simp add: x1_def)
  then have "x1 \<le> pow2 990" using s(4) x0le big by linarith
  then obtain a1 t where t: "rnd64 x1 = Fin a1" "roundToTwoDecimals (Fin a1) = Fin t" "0 \<le> t"
      "t \<le> 4 * x1 + 3"
    using rounded_amount_error [OF x1nn] by blast
  have x2nn: "0 \<le> s + t" using s(3) t(3) by simp
  have "s + t \<le> pow2 990" using s(4) t(4) x1le x0le big by linarith
  then obtain a2 T where T: "rnd64 (s + t) = Fin a2" "roundToTwoDecimals (Fin a2) = Fin T"
      "0 \<le> T" "T \<le> 4 * (s + t) + 3" "\<bar>T - (s + t)\<bar> \<le> 1 / 200 + (s + t) / 2 ^ 50"
    using rounded_amount_error [OF x2nn] by blast
  have "t \<le> 4 * s + 3" using t(4) x1le by linarith
  moreover have "T \<le> 4 * s + 4 * t + 3" using T(4) by simp
  ultimately have "T \<le> 20 * s + 15" by linarith
  then have "T \<le> 80 * x0 + 75" using s(4) by linarith
  then have Tle: "T \<le> pow2 990" using x0le big by linarith
  have run: "calculateVatBreakdown
             \<lparr>unitPriceCzk = Fin p, quantity = Fin q, vatRate = Some (Fin r)\<rparr>
           = \<lparr>subtotalCzk = Fin s, vatAmountCzk = Fin t, totalCzk = Fin T, vb_vatRate = Fin r\<rparr>"
    by (simp add: calculateVatBreakdown_def Let_def sp sq js_mul_def js_add_def
        x0_def [symmetric] s(1,2) x1_def [symmetric] t(1,2) T(1,2))
  show ?thesis using run s(3) t(3) T(3) Tle T(5) by blast
qed

subsection \<open>The breakdown\<close>















subsection \<open>Two inputs outside the range of the bounds\<close>

lemma rnd64_tenth: "rnd64 (1 / 10) = Fin (3602879701896397 / 36028797018963968)"
  using rnd64_pos_normal [of "- 4" "1 / 10" "7205759403792794"] by (simp add: pow2_def)

lemma rnd64_1e14: "rnd64 100000000000000 = Fin 100000000000000"
  using rnd64_pos_normal [of "46" "100000000000000" "6400000000000000"] by (simp add: pow2_def)

lemma rnd64_1e13: "rnd64 10000000000000 = Fin 10000000000000"
  using rnd64_pos_normal [of "43" "10000000000000" "5120000000000000"] by (simp add: pow2_def)

lemma rnd64_11e13: "rnd64 110000000000000 = Fin 110000000000000"
  using rnd64_pos_normal [of "46" "110000000000000" "7040000000000000"] by (simp add: pow2_def)

lemma large_example_inputs:
  "sanitizePrice (Fin 100000000000000) = Fin 100000000000000"
  "sanitizeQuantity (Fin 1) = Fin 1"
  "sanitizePrice (Fin 110000000000000) = Fin 110000000000000"
  by (simp_all add: sanitizePrice_spec sanitizeQuantity_spec spec_sanitized_unitPrice_def
      spec_sanitized_quantity_def round_def)

lemma large_example_subtotal:
  "roundToTwoDecimals (js_mul (Fin 100000000000000) (Fin 1)) = Fin 100000000000000"
proof -
  have sa: "rnd64 10000000000000000 = Fin 10000000000000000"
    using rnd64_pos_normal [of "53" "10000000000000000" "5000000000000000"]
    by (simp add: pow2_def)
  show ?thesis
    by (simp add: roundToTwoDecimals_def js_mul_def js_div_def Math_round_def rnd64_1e14 sa)
qed

lemma large_example_vat:
  "roundToTwoDecimals (js_mul (Fin 100000000000000)
       (Fin (3602879701896397 / 36028797018963968)))
     = Fin 10000000000000"
proof -
  have m1: "rnd64 (21990232555520001220703125 / 2199023255552) = Fin 10000000000000"
    using rnd64_pos_normal [of "43" "21990232555520001220703125 / 2199023255552"
        "5120000000000000"]
    by (simp add: pow2_def)
  have ta: "rnd64 1000000000000000 = Fin 1000000000000000"
    using rnd64_pos_normal [of "49" "1000000000000000" "8000000000000000"]
    by (simp add: pow2_def)
  show ?thesis
    by (simp add: roundToTwoDecimals_def js_mul_def js_div_def Math_round_def m1 ta rnd64_1e13)
qed

lemma large_example_total:
  "roundToTwoDecimals (js_add (Fin 100000000000000) (Fin 10000000000000))
     = Fin 110000000000000"
proof -
  have Ta: "rnd64 11000000000000000 = Fin 11000000000000000"
    using rnd64_pos_normal [of "53" "11000000000000000" "5500000000000000"]
    by (simp add: pow2_def)
  show ?thesis
    by (simp add: roundToTwoDecimals_def js_mul_def js_add_def js_div_def Math_round_def
        rnd64_11e13 Ta)
qed

lemma large_example_breakdown:
  "calculateVatBreakdown
     \<lparr>unitPriceCzk = Fin 100000000000000, quantity = Fin 1, vatRate = Some (rnd64 (1 / 10))\<rparr>
   = \<lparr>subtotalCzk = Fin 100000000000000, vatAmountCzk = Fin 10000000000000,
      totalCzk = Fin 110000000000000, vb_vatRate = rnd64 (1 / 10)\<rparr>"
  by (simp add: calculateVatBreakdown_def Let_def rnd64_tenth large_example_inputs
      large_example_subtotal large_example_vat large_example_total)

lemma large_example_before_vat:
  "calculatePriceBeforeVat (Fin 110000000000000) (rnd64 (1 / 10))
     = Fin (6399999999999999 / 64)"
proof -
  have d: "rnd64 (39631676720860365 / 36028797018963968)
      = Fin (2476979795053773 / 2251799813685248)"
    using rnd64_pos_normal [of "0" "39631676720860365 / 36028797018963968" "4953959590107546"]
    by (simp add: pow2_def)
  have w: "rnd64 (247697979505377280000000000000 / 2476979795053773)
      = Fin (6399999999999999 / 64)"
    using rnd64_pos_normal [of "46" "247697979505377280000000000000 / 2476979795053773"
        "6399999999999999"]
    by (simp add: pow2_def)
  have Pa: "rnd64 (159999999999999975 / 16) = Fin 9999999999999998"
    using rnd64_pos_normal [of "53" "159999999999999975 / 16" "4999999999999999"]
    by (simp add: pow2_def)
  have Pb: "rnd64 (4999999999999999 / 50) = Fin (6399999999999999 / 64)"
    using rnd64_pos_normal [of "46" "4999999999999999 / 50" "6399999999999999"]
    by (simp add: pow2_def)
  show ?thesis
    by (simp add: calculatePriceBeforeVat_def large_example_inputs rnd64_tenth js_add_def d
        js_div_def w roundToTwoDecimals_def js_mul_def Math_round_def Pa Pb)
qed

lemma rnd64_5_4: "rnd64 (5 / 4) = Fin (5 / 4)"
  using rnd64_pos_normal [of "0" "5 / 4" "5629499534213120"] by (simp add: pow2_def)

lemma roundToTwoDecimals_PInf: "roundToTwoDecimals PInf = PInf"
  by (simp add: roundToTwoDecimals_def js_mul_def jsign_def Math_round_def js_div_def)

lemma overflow_example_subtotal: "js_mul (Fin (2 ^ 1023)) (Fin 2) = PInf"
  using rnd64_overflow [of "2 ^ 1023 * 2"] by (simp add: js_mul_def pow2_def)

lemma overflow_example_breakdown:
  "calculateVatBreakdown
     \<lparr>unitPriceCzk = Fin (2 ^ 1023), quantity = Fin 2, vatRate = Some (Fin (1 / 4))\<rparr>
   = \<lparr>subtotalCzk = PInf, vatAmountCzk = PInf, totalCzk = PInf, vb_vatRate = Fin (1 / 4)\<rparr>"
proof -
  have sp: "sanitizePrice (Fin (2 ^ 1023)) = Fin (2 ^ 1023)"
    by (simp add: sanitizePrice_spec spec_sanitized_unitPrice_def)
  have sq: "sanitizeQuantity (Fin 2) = Fin 2"
    by (simp add: sanitizeQuantity_spec spec_sanitized_quantity_def round_def)
  have v: "js_mul PInf (Fin (1 / 4)) = PInf" by (simp add: js_mul_def jsign_def)
  have t: "js_add PInf PInf = PInf" by (simp add: js_add_def)
  show ?thesis
    using sp sq overflow_example_subtotal
    by (simp add: calculateVatBreakdown_def Let_def roundToTwoDecimals_PInf v t)
qed

lemma overflow_example_before_vat: "calculatePriceBeforeVat PInf (Fin (1 / 4)) = Fin 0"
  by (simp add: calculatePriceBeforeVat_def sanitizePrice_spec spec_sanitized_unitPrice_def
      js_add_def rnd64_5_4 js_div_def rnd64_0 roundToTwoDecimals_def js_mul_def Math_round_def)

text \<open>
  C9, as stated, fails in two ways. For unit price \<open>10 ^ 14\<close>, quantity 1 and rate 0.1 the
  total is \<open>1.1 * 10 ^ 14\<close> and the price before tax of that total is 99999999999999.98;
  times one plus the rate this is more than one cent away from the total. For unit price
  \<open>2 ^ 1023\<close>, quantity 2 and rate 0.25 the three amounts overflow to \<open>+\<infinity>\<close>, and the
  price before tax of \<open>+\<infinity>\<close> is 0, because a price that is not finite is sanitised to 0.
\<close>

theorem round_trip_counterexample:
  "calculateVatBreakdown
     \<lparr>unitPriceCzk = Fin 100000000000000, quantity = Fin 1, vatRate = Some (rnd64 (1 / 10))\<rparr>
   = \<lparr>subtotalCzk = Fin 100000000000000, vatAmountCzk = Fin 10000000000000,
      totalCzk = Fin 110000000000000, vb_vatRate = rnd64 (1 / 10)\<rparr>
   \<and> calculatePriceBeforeVat (Fin 110000000000000) (rnd64 (1 / 10))
     = Fin (6399999999999999 / 64)
   \<and> \<not> spec_round_trips (Fin 110000000000000) (rnd64 (1 / 10))
   \<and> calculateVatBreakdown
       \<lparr>unitPriceCzk = Fin (2 ^ 1023), quantity = Fin 2, vatRate = Some (Fin (1 / 4))\<rparr>
     = \<lparr>subtotalCzk = PInf, vatAmountCzk = PInf, totalCzk = PInf, vb_vatRate = Fin (1 / 4)\<rparr>
   \<and> calculatePriceBeforeVat PInf (Fin (1 / 4)) = Fin 0
   \<and> \<not> spec_round_trips PInf (Fin (1 / 4))"
proof -
  have "calculatePriceBeforeVat (Fin 110000000000000)
        (Fin (3602879701896397 / 36028797018963968)) = Fin (6399999999999999 / 64)"
    using large_example_before_vat by (simp add: rnd64_tenth)
  then have a: "\<not> spec_round_trips (Fin 110000000000000) (rnd64 (1 / 10))"
    by (simp add: spec_round_trips_def rnd64_tenth)
  have b: "\<not> spec_round_trips PInf (Fin (1 / 4))"
    by (simp add: spec_round_trips_def)
  show ?thesis
    using a b large_example_breakdown large_example_before_vat overflow_example_breakdown
      overflow_example_before_vat
    by blast
qed

subsection \<open>The round trip\<close>

lemma total_is_rounded_sum:
  "totalCzk (calculateVatBreakdown input)
     = roundToTwoDecimals (js_add (subtotalCzk (calculateVatBreakdown input))
         (vatAmountCzk (calculateVatBreakdown input)))"
  by (simp add: calculateVatBreakdown_def Let_def)

lemma price_before_vat_unfolded:
  "calculatePriceBeforeVat v rate
     = roundToTwoDecimals (js_div (spec_sanitized_unitPrice v) (js_add (Fin 1) rate))"
  by (simp add: calculatePriceBeforeVat_def sanitizePrice_spec)

lemma round_trips_from_error:
  assumes "calculatePriceBeforeVat (Fin T) (Fin r) = Fin P"
    and "\<bar>T - P * (1 + r)\<bar> \<le> (1 + r) / 200 + T / 2 ^ 50"
    and "200 * T \<le> (1 - r) * 2 ^ 50"
  shows "spec_round_trips (Fin T) (Fin r)"
proof -
  have "T / 2 ^ 50 \<le> (1 - r) / 200" using assms(3) by (simp add: field_simps)
  then have "(1 + r) / 200 + T / 2 ^ 50 \<le> (1 + r) / 200 + (1 - r) / 200" by simp
  also have "\<dots> = 1 / 100" by (simp add: field_simps)
  finally have "(1 + r) / 200 + T / 2 ^ 50 \<le> 1 / 100" .
  then have "\<bar>T - P * (1 + r)\<bar> \<le> 1 / 100" using assms(2) by linarith
  then show ?thesis by (simp add: spec_round_trips_def assms(1))
qed

text \<open>
  C9, amended. The total is always the sum of subtotal and tax amount, added in binary64
  and rounded to two decimals, and \<open>calculatePriceBeforeVat\<close> is the sanitised price
  divided by one plus the rate, rounded to two decimals. For a finite unit price and
  quantity that are not negative and a rate between 0 and 1, when the unit price times the
  rounded quantity is at most \<open>2 ^ 900\<close>: the three amounts and the price before tax of the
  total are finite; the total is within half a cent plus a relative \<open>2 ^ -50\<close> of
  subtotal plus tax amount; the total is within half a cent times one plus the rate, plus a
  relative \<open>2 ^ -50\<close>, of the price before tax of the total times one plus the rate; and so
  the round trip is within one cent whenever 200 times the total is at most one minus the
  rate times \<open>2 ^ 50\<close>.
\<close>

theorem breakdown_round_trip:
  assumes "0 \<le> p" "0 \<le> q" "0 \<le> r" "r \<le> 1" "p * of_int \<lfloor>q + 1 / 2\<rfloor> \<le> pow2 900"
  shows "totalCzk (calculateVatBreakdown input)
       = roundToTwoDecimals (js_add (subtotalCzk (calculateVatBreakdown input))
           (vatAmountCzk (calculateVatBreakdown input)))
     \<and> calculatePriceBeforeVat v rate
       = roundToTwoDecimals (js_div (spec_sanitized_unitPrice v) (js_add (Fin 1) rate))
     \<and> (\<exists>s t T P.
          calculateVatBreakdown
              \<lparr>unitPriceCzk = Fin p, quantity = Fin q, vatRate = Some (Fin r)\<rparr>
            = \<lparr>subtotalCzk = Fin s, vatAmountCzk = Fin t, totalCzk = Fin T,
               vb_vatRate = Fin r\<rparr>
          \<and> \<bar>T - (s + t)\<bar> \<le> 1 / 200 + (s + t) / 2 ^ 50
          \<and> calculatePriceBeforeVat (Fin T) (Fin r) = Fin P
          \<and> \<bar>T - P * (1 + r)\<bar> \<le> (1 + r) / 200 + T / 2 ^ 50
          \<and> (200 * T \<le> (1 - r) * 2 ^ 50 \<longrightarrow> spec_round_trips (Fin T) (Fin r)))"
proof -
  obtain s t T where b: "calculateVatBreakdown
             \<lparr>unitPriceCzk = Fin p, quantity = Fin q, vatRate = Some (Fin r)\<rparr>
           = \<lparr>subtotalCzk = Fin s, vatAmountCzk = Fin t, totalCzk = Fin T, vb_vatRate = Fin r\<rparr>"
      and T: "0 \<le> T" "T \<le> pow2 990"
      and near: "\<bar>T - (s + t)\<bar> \<le> 1 / 200 + (s + t) / 2 ^ 50"
    using breakdown_error [OF assms] by blast
  obtain P where P: "calculatePriceBeforeVat (Fin T) (Fin r) = Fin P"
      and trip: "\<bar>T - P * (1 + r)\<bar> \<le> (1 + r) / 200 + T / 2 ^ 50"
    using price_before_vat_error [OF T assms(3,4)] by blast
  have "200 * T \<le> (1 - r) * 2 ^ 50 \<longrightarrow> spec_round_trips (Fin T) (Fin r)"
    using round_trips_from_error [OF P trip] by blast
  then have "\<exists>s t T P.
          calculateVatBreakdown
              \<lparr>unitPriceCzk = Fin p, quantity = Fin q, vatRate = Some (Fin r)\<rparr>
            = \<lparr>subtotalCzk = Fin s, vatAmountCzk = Fin t, totalCzk = Fin T,
               vb_vatRate = Fin r\<rparr>
          \<and> \<bar>T - (s + t)\<bar> \<le> 1 / 200 + (s + t) / 2 ^ 50
          \<and> calculatePriceBeforeVat (Fin T) (Fin r) = Fin P
          \<and> \<bar>T - P * (1 + r)\<bar> \<le> (1 + r) / 200 + T / 2 ^ 50
          \<and> (200 * T \<le> (1 - r) * 2 ^ 50 \<longrightarrow> spec_round_trips (Fin T) (Fin r))"
    using b near P trip by blast
  then show ?thesis
    using total_is_rounded_sum [of input] price_before_vat_unfolded [of v rate] by blast
qed

text \<open>
  The theorem at unit price 333.33, quantity 3 and rate 0.21: the total is 1209.99, and
  its price before tax times 1.21 is within one cent of it.
\<close>

theorem breakdown_round_trip_witness:
  "calculateVatBreakdown
     \<lparr>unitPriceCzk = rnd64 (33333 / 100), quantity = Fin 3, vatRate = Some (rnd64 (21 / 100))\<rparr>
   = \<lparr>subtotalCzk = rnd64 (99999 / 100), vatAmountCzk = Fin 210,
      totalCzk = rnd64 (120999 / 100), vb_vatRate = rnd64 (21 / 100)\<rparr>
   \<and> spec_round_trips (rnd64 (120999 / 100)) (rnd64 (21 / 100))"
proof -
  define p :: rat where "p = 5864003374185185 / 17592186044416"
  define r :: rat where "r = 7566047373982433 / 36028797018963968"
  have hyp: "0 \<le> p" "(0::rat) \<le> 3" "0 \<le> r" "r \<le> 1" "p * of_int \<lfloor>(3::rat) + 1 / 2\<rfloor> \<le> pow2 900"
    by (simp_all add: p_def r_def pow2_def)
  have ex: "calculateVatBreakdown
       \<lparr>unitPriceCzk = Fin p, quantity = Fin 3, vatRate = Some (Fin r)\<rparr>
     = \<lparr>subtotalCzk = Fin (4398002530638889 / 4398046511104), vatAmountCzk = Fin 210,
        totalCzk = Fin (5321592297970729 / 4398046511104), vb_vatRate = Fin r\<rparr>"
    unfolding p_def r_def by (rule breakdown_example)
  obtain s t T where
      b: "calculateVatBreakdown \<lparr>unitPriceCzk = Fin p, quantity = Fin 3, vatRate = Some (Fin r)\<rparr>
            = \<lparr>subtotalCzk = Fin s, vatAmountCzk = Fin t, totalCzk = Fin T, vb_vatRate = Fin r\<rparr>"
      and rt: "200 * T \<le> (1 - r) * 2 ^ 50 \<longrightarrow> spec_round_trips (Fin T) (Fin r)"
    using breakdown_round_trip [OF hyp, where v = "Fin 0" and rate = "Fin 0"
        and input = "\<lparr>unitPriceCzk = Fin 0, quantity = Fin 0, vatRate = None\<rparr>"]
    by blast
  have T: "T = 5321592297970729 / 4398046511104" using b ex by simp
  have "200 * T \<le> (1 - r) * 2 ^ 50" by (simp add: T r_def)
  then have "spec_round_trips (Fin T) (Fin r)" using rt by simp
  then have "spec_round_trips (rnd64 (120999 / 100)) (rnd64 (21 / 100))"
    by (simp add: T r_def rnd64_120999 rnd64_21)
  moreover have "calculateVatBreakdown
     \<lparr>unitPriceCzk = rnd64 (33333 / 100), quantity = Fin 3, vatRate = Some (rnd64 (21 / 100))\<rparr>
   = \<lparr>subtotalCzk = rnd64 (99999 / 100), vatAmountCzk = Fin 210,
      totalCzk = rnd64 (120999 / 100), vb_vatRate = rnd64 (21 / 100)\<rparr>"
    using breakdown_example by (simp add: rnd64_33333 rnd64_21 rnd64_99999 rnd64_120999)
  ultimately show ?thesis by simp
qed

section \<open>Properties of the conversion\<close>

lemma convert_loop_spec:
  "convert_loop fmt a tbl cs (convs, has)
     = (convs @ map (spec_conversion fmt a tbl) cs,
        has \<or> (\<exists>c \<in> set cs. spec_amount a tbl c \<noteq> None))"
proof (induction cs arbitrary: convs has)
  case Nil
  show ?case by simp
next
  case (Cons c cs)
  show ?case
  proof (cases "spec_usable_rate tbl c")
    case None
    then have am: "spec_amount a tbl c = None" by (simp add: spec_amount_def)
    have step: "convert_loop fmt a tbl (c # cs) (convs, has)
        = convert_loop fmt a tbl cs
            (convs @ [\<lparr>code = c, amount = None, formatted = str ''N/A''\<rparr>], has)"
      using None
      by (auto simp: spec_usable_rate_def js_gt_def split: option.splits if_splits)
    show ?thesis unfolding step Cons.IH by (simp add: spec_conversion_def am)
  next
    case (Some r)
    then have am: "spec_amount a tbl c = Some (roundToTwoDecimals (js_div a r))"
      by (simp add: spec_amount_def)
    have step: "convert_loop fmt a tbl (c # cs) (convs, has)
        = convert_loop fmt a tbl cs
            (convs @ [\<lparr>code = c, amount = Some (roundToTwoDecimals (js_div a r)),
                        formatted = fmt (roundToTwoDecimals (js_div a r)) c\<rparr>], True)"
      using Some
      by (auto simp: spec_usable_rate_def js_gt_def roundToTwoDecimals_def Let_def
          split: option.splits if_splits)
    show ?thesis unfolding step Cons.IH by (simp add: spec_conversion_def am)
  qed
qed

lemma convertFromCzk_general:
  "convertFromCzk fmt a tbl
     = \<lparr>originalCzk = a,
        fxAvailable = (\<exists>c \<in> set SUPPORTED_CURRENCIES. spec_amount a tbl c \<noteq> None),
        conversions = map (spec_conversion fmt a tbl) SUPPORTED_CURRENCIES\<rparr>"
  by (simp add: convertFromCzk_def convert_loop_spec)

lemma convert_example_eur:
  "roundToTwoDecimals (js_div (Fin 1000) (rnd64 (24725 / 1000))) = rnd64 (4044 / 100)"
proof -
  have r_eur: "rnd64 (24725 / 1000) = Fin (3479734399585485 / 140737488355328)"
    using rnd64_pos_normal [of "4" "24725 / 1000" "6959468799170970"] by (simp add: pow2_def)
  have c1: "rnd64 (28147497671065600 / 695946879917097) = Fin (5692112774735207 / 140737488355328)"
    using rnd64_pos_normal [of "5" "28147497671065600 / 695946879917097" "5692112774735207"]
    by (simp add: pow2_def)
  have c2: "rnd64 (142302819368380175 / 35184372088832) = Fin (8893926210523761 / 2199023255552)"
    using rnd64_pos_normal [of "11" "142302819368380175 / 35184372088832" "8893926210523761"]
    by (simp add: pow2_def)
  show ?thesis unfolding r_eur
    by (simp add: roundToTwoDecimals_def js_mul_def js_div_def Math_round_def c1 c2)
qed

lemma convert_example_pln:
  "roundToTwoDecimals (js_div (Fin 1000) (Fin (11 / 2))) = rnd64 (18182 / 100)"
proof -
  have d1: "rnd64 (2000 / 11) = Fin (3198579280802909 / 17592186044416)"
    using rnd64_pos_normal [of "7" "2000 / 11" "6397158561605818"] by (simp add: pow2_def)
  have d2: "rnd64 (79964482020072725 / 4398046511104) = Fin (4997780126254545 / 274877906944)"
    using rnd64_pos_normal [of "14" "79964482020072725 / 4398046511104" "4997780126254545"]
    by (simp add: pow2_def)
  show ?thesis
    by (simp add: roundToTwoDecimals_def js_mul_def js_div_def Math_round_def d1 d2)
qed

lemma rnd64_24725_pos: "js_lt (Fin 0) (rnd64 (24725 / 1000))"
proof -
  have r_eur: "rnd64 (24725 / 1000) = Fin (3479734399585485 / 140737488355328)"
    using rnd64_pos_normal [of "4" "24725 / 1000" "6959468799170970"] by (simp add: pow2_def)
  show ?thesis unfolding r_eur by (simp add: js_lt_def)
qed

text \<open>
  C5. For every amount and rate table, \<open>convertFromCzk\<close> gives each of EUR, USD and
  PLN, in this order, the quotient of the amount by the rate rounded to two decimals when
  the rate is present and positive, and no amount (with \<^verbatim>\<open>N/A\<close>) otherwise; the
  flag \<open>fxAvailable\<close> holds exactly when some currency has an amount. Converting 1000
  with EUR 24.725, no USD rate and PLN 5.5 gives 40.44, no amount and 181.82, and the
  flag holds.
\<close>

theorem convertFromCzk_spec:
  "convertFromCzk fmt a tbl
     = \<lparr>originalCzk = a,
        fxAvailable = (\<exists>c \<in> set SUPPORTED_CURRENCIES. spec_amount a tbl c \<noteq> None),
        conversions = map (spec_conversion fmt a tbl) [EUR, USD, PLN]\<rparr>
   \<and> map amount (conversions (convertFromCzk fmt (Fin 1000)
         (Some ((\<lambda>c. None)(EUR := Some (rnd64 (24725 / 1000)), PLN := Some (Fin (11 / 2)))))))
       = [Some (rnd64 (4044 / 100)), None, Some (rnd64 (18182 / 100))]
   \<and> fxAvailable (convertFromCzk fmt (Fin 1000)
         (Some ((\<lambda>c. None)(EUR := Some (rnd64 (24725 / 1000)), PLN := Some (Fin (11 / 2))))))"
proof (intro conjI)
  show "convertFromCzk fmt a tbl
     = \<lparr>originalCzk = a,
        fxAvailable = (\<exists>c \<in> set SUPPORTED_CURRENCIES. spec_amount a tbl c \<noteq> None),
        conversions = map (spec_conversion fmt a tbl) [EUR, USD, PLN]\<rparr>"
    using convertFromCzk_general [of fmt a tbl] by (simp add: SUPPORTED_CURRENCIES_def)
next
  let ?rs = "Some ((\<lambda>c. None)(EUR := Some (rnd64 (24725 / 1000)), PLN := Some (Fin (11 / 2))))"
  have e: "spec_amount (Fin 1000) ?rs EUR = Some (rnd64 (4044 / 100))"
    using rnd64_24725_pos convert_example_eur
    by (simp add: spec_amount_def spec_usable_rate_def)
  have u: "spec_amount (Fin 1000) ?rs USD = None"
    by (simp add: spec_amount_def spec_usable_rate_def)
  have p: "spec_amount (Fin 1000) ?rs PLN = Some (rnd64 (18182 / 100))"
    using convert_example_pln
    by (simp add: spec_amount_def spec_usable_rate_def js_lt_def)
  show "map amount (conversions (convertFromCzk fmt (Fin 1000) ?rs))
       = [Some (rnd64 (4044 / 100)), None, Some (rnd64 (18182 / 100))]"
    using e u p
    by (simp add: convertFromCzk_general SUPPORTED_CURRENCIES_def spec_conversion_def
        del: fun_upd_apply)
  show "fxAvailable (convertFromCzk fmt (Fin 1000) ?rs)"
    using e
    by (simp add: convertFromCzk_general SUPPORTED_CURRENCIES_def del: fun_upd_apply)
qed

text \<open>
  The theorem at a table whose rates are all zero: no currency converts, the flag is off.
\<close>

theorem convertFromCzk_spec_witness:
  "convertFromCzk (\<lambda>v c. []) (Fin 1000) (Some (\<lambda>c. Some (Fin 0)))
     = \<lparr>originalCzk = Fin 1000, fxAvailable = False,
        conversions = [\<lparr>code = EUR, amount = None, formatted = str ''N/A''\<rparr>,
                       \<lparr>code = USD, amount = None, formatted = str ''N/A''\<rparr>,
                       \<lparr>code = PLN, amount = None, formatted = str ''N/A''\<rparr>]\<rparr>"
proof -
  have n: "spec_amount (Fin 1000) (Some (\<lambda>c. Some (Fin 0))) c = None" for c
    by (simp add: spec_amount_def spec_usable_rate_def js_lt_def)
  show ?thesis
    using convertFromCzk_spec [of "\<lambda>v c. []" "Fin 1000" "Some (\<lambda>c. Some (Fin 0))"]
    by (simp add: n spec_conversion_def SUPPORTED_CURRENCIES_def)
qed

section \<open>Properties of the rate parser\<close>

lemma parse_row_spec: "parse_row line tbl = spec_store tbl line"
proof (cases "line = []")
  case True
  then show ?thesis
    by (simp add: parse_row_def spec_store_def spec_row_def js_split_def)
next
  case False
  obtain parts where parts: "js_split 124 line = parts" by simp
  show ?thesis
  proof (cases "length parts < 5")
    case True
    then have "spec_row line = None"
      unfolding spec_row_def parts by (auto split: list.splits)
    then show ?thesis using True False
      by (simp add: parse_row_def spec_store_def parts)
  next
    case long: False
    then obtain country name amountUnit currencyCode rateString others
      where shape: "parts = country # name # amountUnit # currencyCode # rateString # others"
      by (cases parts; simp; rename_tac a as; case_tac as; simp; rename_tac b bs; case_tac bs;
          simp; rename_tac c cs; case_tac cs; simp; rename_tac d ds; case_tac ds; simp)
    show ?thesis using False
      by (auto simp: parse_row_def spec_store_def spec_row_def parts shape isNaN_def Let_def
          split: option.splits)
  qed
qed

lemma parse_loop_foldl:
  "parse_loop lines i tbl = foldl spec_store tbl (drop i lines)"
proof (induction lines i tbl rule: parse_loop.induct)
  case (1 lines i tbl)
  show ?case
  proof (cases "i < length lines")
    case True
    then have d: "drop i lines = lines ! i # drop (i + 1) lines"
      by (simp add: Cons_nth_drop_Suc)
    show ?thesis
      using True 1 by (subst parse_loop.simps) (simp add: d parse_row_spec)
  next
    case False
    then show ?thesis by (subst parse_loop.simps) simp
  qed
qed

lemma parseRatesText_trimmed:
  "parseRatesText text = spec_rates_after_two_lines (trim text)"
  by (simp add: parseRatesText_def spec_rates_after_two_lines_def parse_loop_foldl)





lemma spec_row_header: "spec_row (str ''H'') = None"
  by (simp add: spec_row_def js_split_def str_def)








section \<open>Properties of the rate source\<close>

lemma fetchCnbRates_world: "snd (fetchCnbRates w) = w\<lparr>requests := requests w + 1\<rparr>"
  by (simp add: fetchCnbRates_def Let_def split: fetch_outcome.splits body_result.splits)

lemma fetchCnbRates_result:
  "fst (fetchCnbRates w)
     = (case answers w (requests w) of
          Resolved r \<Rightarrow>
            (case spec_failure_cause (Resolved r) of
               Some cause \<Rightarrow> \<lparr>success = False, rates = None, error = Some cause, fetchedAt = None\<rparr>
             | None \<Rightarrow>
                 (case body r of
                    BodyText txt \<Rightarrow> \<lparr>success = True, rates = Some (parseRatesText txt),
                                     error = None, fetchedAt = Some (now w)\<rparr>
                  | BodyFails t \<Rightarrow> fetch_caught t))
        | Rejected t \<Rightarrow>
            \<lparr>success = False, rates = None, error = spec_failure_cause (Rejected t),
             fetchedAt = None\<rparr>)"
  by (simp add: fetchCnbRates_def Let_def spec_failure_cause_def fetch_caught_def
      split: fetch_outcome.splits body_result.splits)

lemma fetchAndConvert_world:
  "snd (fetchAndConvert fmt a w) = w\<lparr>requests := requests w + 1\<rparr>"
  using fetchCnbRates_world [of w]
  by (cases "fetchCnbRates w") (simp add: fetchAndConvert_def)

lemma fetchAndConvert_result:
  "fst (fetchAndConvert fmt a w) = convertFromCzk fmt a (rates (fst (fetchCnbRates w)))"
  by (cases "fetchCnbRates w") (simp add: fetchAndConvert_def)

text \<open>
  C8. Every rate read issues one outbound request, whatever was fetched before and
  whenever: \<open>fetchCnbRates\<close> keeps no table between calls. Two reads in a row, the clock
  not moving between them, issue two requests.
\<close>

theorem rate_reads_issue_requests:
  "requests (snd (fetchCnbRates w)) = requests w + 1
   \<and> requests (snd (fetchAndConvert fmt b (snd (fetchAndConvert fmt a w)))) = requests w + 2
   \<and> now (snd (fetchAndConvert fmt a w)) = now w"
  by (simp add: fetchCnbRates_world fetchAndConvert_world)

text \<open>
  The failing input: the source answers every request with a well-formed table; the first
  read succeeds, and the second read, at the same time of the clock, issues a second
  request.
\<close>

theorem rate_reads_issue_requests_witness:
  "success (fst (fetchCnbRates
       \<lparr>requests = 0,
        answers = (\<lambda>n. Resolved \<lparr>ok = True, status = 200,
                     body = BodyText (str ''D'' @ 10 # str ''H'' @ 10 # str ''EMU|euro|1|EUR|24,725'')\<rparr>),
        now = 0\<rparr>))
   \<and> requests (snd (fetchAndConvert (\<lambda>v c. []) (Fin 1000) (snd (fetchAndConvert (\<lambda>v c. []) (Fin 1000)
       \<lparr>requests = 0,
        answers = (\<lambda>n. Resolved \<lparr>ok = True, status = 200,
                     body = BodyText (str ''D'' @ 10 # str ''H'' @ 10 # str ''EMU|euro|1|EUR|24,725'')\<rparr>),
        now = 0\<rparr>)))) = 2"
proof -
  let ?w = "\<lparr>requests = 0,
        answers = (\<lambda>n. Resolved \<lparr>ok = True, status = 200,
                     body = BodyText (str ''D'' @ 10 # str ''H'' @ 10 # str ''EMU|euro|1|EUR|24,725'')\<rparr>),
        now = 0\<rparr>"
  have "success (fst (fetchCnbRates ?w))"
    by (simp add: fetchCnbRates_result spec_failure_cause_def)
  then show ?thesis
    using rate_reads_issue_requests [of ?w "\<lambda>v c. []" "Fin 1000" "Fin 1000"] by simp
qed

section \<open>Properties of order creation\<close>

lemma create_callback_not_found:
  assumes "\<not> faults FindProduct" "products tx (productId input) = None"
  shows "create_callback faults time input tx
    = Inl (NotFoundError (not_found_message (str ''Product'') (productId input)))"
  using assms by (simp add: create_callback_def product_findUnique_def)

lemma create_callback_conflict:
  assumes "\<not> faults FindProduct" "products tx (productId input) = Some product"
    "product_quantity product < input_quantity input"
  shows "create_callback faults time input tx
    = Inl (ConflictError
        (insufficient_stock_message (product_quantity product) (input_quantity input)))"
  using assms
  by (simp add: create_callback_def product_findUnique_def insufficient_stock_message_def)

lemma created_row:
  "\<lparr>order_id = ident, order_createdAt = time,
     order_productId = productId input,
     order_customerName = name (customer input),
     order_customerEmail = email (customer input),
     order_customerPhone = phone (customer input),
     order_customerAddressLine1 = addressLine1 (customer input),
     order_customerAddressLine2 = addressLine2 (customer input),
     order_customerCity = city (customer input),
     order_customerCountry = country (customer input),
     order_customerZipCode = zipCode (customer input),
     order_quantity = input_quantity input,
     order_unitPriceCzk = rnd64 (product_priceCzk product),
     order_subtotalCzk = subtotalCzk (calculateVatBreakdown
        \<lparr>unitPriceCzk = rnd64 (product_priceCzk product),
         quantity = Fin (of_int (input_quantity input)), vatRate = Some DEFAULT_VAT_RATE\<rparr>),
     order_vatRate = vb_vatRate (calculateVatBreakdown
        \<lparr>unitPriceCzk = rnd64 (product_priceCzk product),
         quantity = Fin (of_int (input_quantity input)), vatRate = Some DEFAULT_VAT_RATE\<rparr>),
     order_vatAmountCzk = vatAmountCzk (calculateVatBreakdown
        \<lparr>unitPriceCzk = rnd64 (product_priceCzk product),
         quantity = Fin (of_int (input_quantity input)), vatRate = Some DEFAULT_VAT_RATE\<rparr>),
     order_totalPriceCzk = totalCzk (calculateVatBreakdown
        \<lparr>unitPriceCzk = rnd64 (product_priceCzk product),
         quantity = Fin (of_int (input_quantity input)), vatRate = Some DEFAULT_VAT_RATE\<rparr>)\<rparr>
   = spec_new_order ident time input product"
proof -
  have b: "calculateVatBreakdown
        \<lparr>unitPriceCzk = rnd64 (product_priceCzk product),
         quantity = Fin (of_int (input_quantity input)), vatRate = Some DEFAULT_VAT_RATE\<rparr>
      = spec_computeBreakdown (rnd64 (product_priceCzk product))
          (Fin (of_int (input_quantity input))) DEFAULT_VAT_RATE"
    by (simp add: calculateVatBreakdown_def spec_computeBreakdown_def sanitizePrice_spec
        sanitizeQuantity_spec Let_def)
  show ?thesis unfolding b by (simp add: spec_new_order_def Let_def)
qed

lemma create_callback_success:
  assumes "\<not> faults FindProduct" "\<not> faults CreateOrder" "\<not> faults UpdateProduct"
    "products tx (productId input) = Some product"
    "\<not> product_quantity product < input_quantity input"
  shows "create_callback faults time input tx
    = Inr ((spec_new_order (next_order_id tx) time input product, product),
           spec_committed tx time input product)"
  using assms
  by (cases tx)
    (simp add: create_callback_def product_findUnique_def order_create_def
      product_decrement_def Let_def created_row spec_committed_def spec_decremented_def)

lemma create_callback_outcomes:
  "(\<exists>e. create_callback faults time input tx = Inl e)
   \<or> (\<exists>product. products tx (productId input) = Some product
        \<and> \<not> product_quantity product < input_quantity input
        \<and> create_callback faults time input tx
            = Inr ((spec_new_order (next_order_id tx) time input product, product),
                   spec_committed tx time input product))"
proof (cases "faults FindProduct \<or> faults CreateOrder \<or> faults UpdateProduct")
  case True
  then show ?thesis
    by (auto simp: create_callback_def product_findUnique_def order_create_def
        product_decrement_def Let_def split: option.splits sum.splits)
next
  case nf: False
  show ?thesis
  proof (cases "products tx (productId input)")
    case None
    then show ?thesis using nf create_callback_not_found by auto
  next
    case (Some product)
    show ?thesis
    proof (cases "product_quantity product < input_quantity input")
      case True
      then show ?thesis using nf Some create_callback_conflict by auto
    next
      case False
      then show ?thesis using nf Some create_callback_success by auto
    qed
  qed
qed

lemma create_failed:
  assumes "create_callback faults (now w) input db = Inl e"
  shows "create fmt fmtCZK faults input (db, w) = (Inl e, (db, w))"
  using assms by (simp add: create_def transaction_def)

lemma create_commit_failed:
  assumes "create_callback faults (now w) input db = Inr (x, db1)" "faults Commit"
  shows "create fmt fmtCZK faults input (db, w) = (Inl (StorageFailure Commit), (db, w))"
  using assms by (simp add: create_def transaction_def)

lemma create_committed:
  assumes "create_callback faults (now w) input db = Inr (x, db1)" "\<not> faults Commit"
  shows "create fmt fmtCZK faults input (db, w)
    = (Inr (fst (enrichOrderWithConversions fmt fmtCZK x w)),
       (db1, snd (enrichOrderWithConversions fmt fmtCZK x w)))"
  using assms
  by (cases "enrichOrderWithConversions fmt fmtCZK x w") (simp add: create_def transaction_def)

lemma create_outcomes:
  "(\<exists>e. create fmt fmtCZK faults input (db, w) = (Inl e, (db, w)))
   \<or> (\<exists>r w' product. products db (productId input) = Some product
        \<and> \<not> product_quantity product < input_quantity input
        \<and> create fmt fmtCZK faults input (db, w)
            = (Inr r, (spec_committed db (now w) input product, w')))"
proof -
  consider (failed) e where "create_callback faults (now w) input db = Inl e"
    | (ran) product where "products db (productId input) = Some product"
        "\<not> product_quantity product < input_quantity input"
        "create_callback faults (now w) input db
          = Inr ((spec_new_order (next_order_id db) (now w) input product, product),
                 spec_committed db (now w) input product)"
    using create_callback_outcomes [of faults "now w" input db] by blast
  then show ?thesis
  proof cases
    case failed
    then show ?thesis using create_failed by blast
  next
    case ran
    show ?thesis
    proof (cases "faults Commit")
      case True
      then show ?thesis using create_commit_failed [OF ran(3)] by blast
    next
      case False
      then show ?thesis using create_committed [OF ran(3)] ran(1,2) by blast
    qed
  qed
qed

text \<open>
  C3. Whatever the engine does, a run of \<open>create\<close> ends in one of two ways: it fails and
  the stored state is the one it started from, or it succeeds and the stored state has the
  new order row after the old ones and the product's quantity lower by exactly the ordered
  amount. A product that is missing, stock that does not suffice and a failure of the
  engine at any step, the commit included, all end the first way.
\<close>

theorem create_atomic:
  assumes "create fmt fmtCZK faults input (db, w) = (res, (db', w'))"
  shows "(\<exists>e. res = Inl e \<and> db' = db)
   \<or> (\<exists>r product. res = Inr r
        \<and> products db (productId input) = Some product
        \<and> orders db' = orders db @ [spec_new_order (next_order_id db) (now w) input product]
        \<and> products db'
            = (products db)(productId input \<mapsto> spec_decremented product (input_quantity input)))"
  using create_outcomes [of fmt fmtCZK faults input db w] assms
  by (auto simp: spec_committed_def)

lemma demo_lookup:
  "products demo_db (productId (demo_input 1 n)) = Some demo_product"
  "products demo_db 1 = Some demo_product"
  "input_quantity (demo_input pid n) = n"
  "productId (demo_input pid n) = pid"
  "product_quantity demo_product = 5"
  "next_order_id demo_db = 8"
  "orders demo_db = [demo_order]"
  "now world_down = 0"
  by (simp_all add: demo_db_def demo_input_def demo_product_def world_down_def)

lemma demo_create_callback:
  "create_callback no_faults (now world_down) (demo_input 1 2) demo_db
      = Inr ((spec_new_order (next_order_id demo_db) (now world_down) (demo_input 1 2) demo_product,
              demo_product),
             spec_committed demo_db (now world_down) (demo_input 1 2) demo_product)"
  by (rule create_callback_success) (simp_all add: no_faults_def demo_lookup)

text \<open>
  The theorem at the example data. An order of 2 of the 5 items in stock commits: the
  row follows the stored one and 3 items are left. The same order with the engine failing
  at the update of the product leaves the stored state as it was.
\<close>

theorem create_atomic_witness:
  "orders (fst (snd (create (\<lambda>v c. []) (\<lambda>v. []) no_faults (demo_input 1 2) (demo_db, world_down))))
     = [demo_order, spec_new_order 8 0 (demo_input 1 2) demo_product]
   \<and> products (fst (snd (create (\<lambda>v c. []) (\<lambda>v. []) no_faults (demo_input 1 2)
         (demo_db, world_down)))) 1
       = Some (spec_decremented demo_product 2)
   \<and> fst (snd (create (\<lambda>v c. []) (\<lambda>v. []) (\<lambda>s. s = UpdateProduct) (demo_input 1 2)
         (demo_db, world_down)))
       = demo_db"
proof -
  let ?ok = "create (\<lambda>v c. []) (\<lambda>v. []) no_faults (demo_input 1 2) (demo_db, world_down)"
  let ?bad = "create (\<lambda>v c. []) (\<lambda>v. []) (\<lambda>s. s = UpdateProduct) (demo_input 1 2)
         (demo_db, world_down)"
  note cb = demo_create_callback
  have "\<not> no_faults Commit" by (simp add: no_faults_def)
  then have ran: "\<not> isl (fst ?ok)"
    by (simp add: create_committed [OF cb])
  have "(\<exists>e. fst ?ok = Inl e \<and> fst (snd ?ok) = demo_db)
     \<or> (\<exists>r product. fst ?ok = Inr r
          \<and> products demo_db (productId (demo_input 1 2)) = Some product
          \<and> orders (fst (snd ?ok))
              = orders demo_db
                @ [spec_new_order (next_order_id demo_db) (now world_down) (demo_input 1 2) product]
          \<and> products (fst (snd ?ok))
              = (products demo_db)(productId (demo_input 1 2)
                   \<mapsto> spec_decremented product (input_quantity (demo_input 1 2))))"
    by (rule create_atomic [of "\<lambda>v c. []" "\<lambda>v. []" no_faults "demo_input 1 2" demo_db world_down
          "fst ?ok" "fst (snd ?ok)" "snd (snd ?ok)"]) simp
  then have good:
    "orders (fst (snd ?ok)) = [demo_order, spec_new_order 8 0 (demo_input 1 2) demo_product]
     \<and> products (fst (snd ?ok)) 1 = Some (spec_decremented demo_product 2)"
    using ran by (auto simp: demo_lookup)
  have cbf: "create_callback (\<lambda>s. s = UpdateProduct) (now world_down) (demo_input 1 2) demo_db
      = Inl (StorageFailure UpdateProduct)"
    by (simp add: create_callback_def product_findUnique_def order_create_def
        product_decrement_def Let_def demo_lookup)
  have failed: "isl (fst ?bad)"
    by (simp add: create_failed [OF cbf])
  have "(\<exists>e. fst ?bad = Inl e \<and> fst (snd ?bad) = demo_db)
     \<or> (\<exists>r product. fst ?bad = Inr r
          \<and> products demo_db (productId (demo_input 1 2)) = Some product
          \<and> orders (fst (snd ?bad))
              = orders demo_db
                @ [spec_new_order (next_order_id demo_db) (now world_down) (demo_input 1 2) product]
          \<and> products (fst (snd ?bad))
              = (products demo_db)(productId (demo_input 1 2)
                   \<mapsto> spec_decremented product (input_quantity (demo_input 1 2))))"
    by (rule create_atomic [of "\<lambda>v c. []" "\<lambda>v. []" "\<lambda>s. s = UpdateProduct" "demo_input 1 2"
          demo_db world_down "fst ?bad" "fst (snd ?bad)" "snd (snd ?bad)"]) simp
  then have "fst (snd ?bad) = demo_db"
    using failed by auto
  then show ?thesis using good by simp
qed

text \<open>
  C4. Provided the engine answers the read of the product: when the product is not
  there, \<open>create\<close> fails with the not-found error and changes nothing; when it is there
  and the requested quantity is above its stock, \<open>create\<close> fails with the conflict error
  (status 409, code \<^verbatim>\<open>CONFLICT\<close>) and changes nothing; and whenever \<open>create\<close> succeeds,
  the product was there with stock enough, and the stored state is the one that pricing
  and persistence produce.
\<close>

theorem create_preconditions:
  assumes "\<not> faults FindProduct"
  shows "(products db (productId input) = None \<longrightarrow>
            create fmt fmtCZK faults input (db, w)
              = (Inl (NotFoundError (not_found_message (str ''Product'') (productId input))),
                 (db, w)))
   \<and> (\<forall>product. products db (productId input) = Some product
          \<and> product_quantity product < input_quantity input \<longrightarrow>
            create fmt fmtCZK faults input (db, w)
              = (Inl (ConflictError
                   (insufficient_stock_message (product_quantity product) (input_quantity input))),
                 (db, w))
            \<and> statusCode (ConflictError
                   (insufficient_stock_message (product_quantity product) (input_quantity input)))
                = Some 409
            \<and> error_code (ConflictError
                   (insufficient_stock_message (product_quantity product) (input_quantity input)))
                = Some (str ''CONFLICT''))
   \<and> (\<forall>r st'. create fmt fmtCZK faults input (db, w) = (Inr r, st') \<longrightarrow>
          (\<exists>product. products db (productId input) = Some product
             \<and> input_quantity input \<le> product_quantity product
             \<and> fst st' = spec_committed db (now w) input product))"
proof (intro conjI allI impI)
  show "create fmt fmtCZK faults input (db, w)
      = (Inl (NotFoundError (not_found_message (str ''Product'') (productId input))), (db, w))"
    if "products db (productId input) = None"
    using create_callback_not_found
      [where faults = faults and tx = db and input = input and time = "now w"] assms that
    by (intro create_failed) simp
next
  fix product
  assume p: "products db (productId input) = Some product
          \<and> product_quantity product < input_quantity input"
  show "create fmt fmtCZK faults input (db, w)
      = (Inl (ConflictError
           (insufficient_stock_message (product_quantity product) (input_quantity input))),
         (db, w))"
    using create_callback_conflict
      [where faults = faults and tx = db and input = input and time = "now w"
         and product = product] assms p
    by (intro create_failed) simp
  show "statusCode (ConflictError
           (insufficient_stock_message (product_quantity product) (input_quantity input)))
        = Some 409"
    by (simp add: statusCode_def)
  show "error_code (ConflictError
           (insufficient_stock_message (product_quantity product) (input_quantity input)))
        = Some (str ''CONFLICT'')"
    by (simp add: error_code_def)
next
  fix r st'
  assume ok: "create fmt fmtCZK faults input (db, w) = (Inr r, st')"
  show "\<exists>product. products db (productId input) = Some product
             \<and> input_quantity input \<le> product_quantity product
             \<and> fst st' = spec_committed db (now w) input product"
    using create_outcomes [of fmt fmtCZK faults input db w] ok by auto
qed

text \<open>
  The theorem at the example data: a product id that is not stored, 6 items requested of
  the 5 in stock, and 2 items requested.
\<close>

theorem create_preconditions_witness:
  "create (\<lambda>v c. []) (\<lambda>v. []) no_faults (demo_input 99 1) (demo_db, world_down)
     = (Inl (NotFoundError (str ''Product with ID 99 not found'')), (demo_db, world_down))
   \<and> create (\<lambda>v c. []) (\<lambda>v. []) no_faults (demo_input 1 6) (demo_db, world_down)
     = (Inl (ConflictError (str ''Insufficient stock. Available: 5, Requested: 6'')),
        (demo_db, world_down))
   \<and> fst (snd (create (\<lambda>v c. []) (\<lambda>v. []) no_faults (demo_input 1 2) (demo_db, world_down)))
     = spec_committed demo_db 0 (demo_input 1 2) demo_product"
proof (intro conjI)
  have nf: "\<not> no_faults FindProduct" by (simp add: no_faults_def)
  have missing: "products demo_db (productId (demo_input 99 1)) = None"
    by (simp add: demo_db_def demo_input_def)
  have m1: "not_found_message (str ''Product'') (productId (demo_input 99 1))
      = str ''Product with ID 99 not found''"
    by (simp add: not_found_message_def show_int_def decimal.simps str_def demo_input_def)
  show "create (\<lambda>v c. []) (\<lambda>v. []) no_faults (demo_input 99 1) (demo_db, world_down)
     = (Inl (NotFoundError (str ''Product with ID 99 not found'')), (demo_db, world_down))"
    using create_preconditions [where faults = no_faults and db = demo_db and input = "demo_input 99 1"
        and fmt = "\<lambda>v c. []" and fmtCZK = "\<lambda>v. []" and w = world_down, OF nf]
      missing
    by (simp add: m1)
  have m2: "insufficient_stock_message (product_quantity demo_product)
        (input_quantity (demo_input 1 6))
      = str ''Insufficient stock. Available: 5, Requested: 6''"
    by (simp add: insufficient_stock_message_def show_int_def decimal.simps str_def
        demo_input_def demo_product_def)
  have short: "products demo_db (productId (demo_input 1 6)) = Some demo_product
      \<and> product_quantity demo_product < input_quantity (demo_input 1 6)"
    by (simp add: demo_lookup)
  show "create (\<lambda>v c. []) (\<lambda>v. []) no_faults (demo_input 1 6) (demo_db, world_down)
     = (Inl (ConflictError (str ''Insufficient stock. Available: 5, Requested: 6'')),
        (demo_db, world_down))"
    using create_preconditions [where faults = no_faults and db = demo_db and input = "demo_input 1 6"
        and fmt = "\<lambda>v c. []" and fmtCZK = "\<lambda>v. []" and w = world_down, OF nf]
      short
    by (simp add: m2)
  let ?ok = "create (\<lambda>v c. []) (\<lambda>v. []) no_faults (demo_input 1 2) (demo_db, world_down)"
  have "\<not> no_faults Commit" by (simp add: no_faults_def)
  then obtain r st' where run: "?ok = (Inr r, st')"
    using create_committed [OF demo_create_callback] by blast
  then have "\<exists>product. products demo_db (productId (demo_input 1 2)) = Some product
       \<and> input_quantity (demo_input 1 2) \<le> product_quantity product
       \<and> fst st' = spec_committed demo_db (now world_down) (demo_input 1 2) product"
    using create_preconditions [where faults = no_faults and db = demo_db and input = "demo_input 1 2"
        and fmt = "\<lambda>v c. []" and fmtCZK = "\<lambda>v. []" and w = world_down, OF nf]
    by blast
  then show "fst (snd ?ok) = spec_committed demo_db 0 (demo_input 1 2) demo_product"
    using run by (auto simp: demo_lookup)
qed

section \<open>Properties of the order responses\<close>

lemma response_conversion_of:
  "\<lparr>conv_code = code (spec_conversion fmt a tbl c),
     conv_amount = (case amount (spec_conversion fmt a tbl c) of None \<Rightarrow> Fin 0 | Some v \<Rightarrow> v),
     conv_formatted = formatted (spec_conversion fmt a tbl c)\<rparr>
   = spec_response_conversion fmt a tbl c"
  by (simp add: spec_conversion_def spec_response_conversion_def split: option.splits)

lemma enrich_conversions:
  "res_conversions (fst (enrichOrderWithConversions fmt fmtCZK (order, product) w))
     = map (spec_response_conversion fmt (order_totalPriceCzk order) (rates (fst (fetchCnbRates w))))
         [EUR, USD, PLN]"
proof -
  obtain fx w' where f: "fetchAndConvert fmt (order_totalPriceCzk order) w = (fx, w')"
    by (cases "fetchAndConvert fmt (order_totalPriceCzk order) w")
  have fx: "fx = convertFromCzk fmt (order_totalPriceCzk order) (rates (fst (fetchCnbRates w)))"
    using fetchAndConvert_result [of fmt "order_totalPriceCzk order" w] f by simp
  show ?thesis
    by (simp add: enrichOrderWithConversions_def Let_def f fx convertFromCzk_general
        SUPPORTED_CURRENCIES_def response_conversion_of)
qed

lemma enrich_total:
  "res_totalPriceCzk (fst (enrichOrderWithConversions fmt fmtCZK (order, product) w))
     = order_totalPriceCzk order"
  by (cases "fetchAndConvert fmt (order_totalPriceCzk order) w")
    (simp add: enrichOrderWithConversions_def Let_def)

lemma enrich_response_conversions:
  assumes "enrichOrderWithConversions fmt fmtCZK op w = (res, w')"
  shows "res_conversions res
     = map (spec_response_conversion fmt (res_totalPriceCzk res) (rates (fst (fetchCnbRates w))))
         [EUR, USD, PLN]"
proof -
  obtain order product where op: "op = (order, product)" by (cases op)
  have r: "res = fst (enrichOrderWithConversions fmt fmtCZK (order, product) w)"
    using assms op by simp
  show ?thesis unfolding r enrich_total enrich_conversions ..
qed

lemma create_response_conversions:
  assumes "create fmt fmtCZK faults input (db, w) = (Inr res, st')"
  shows "res_conversions res
     = map (spec_response_conversion fmt (res_totalPriceCzk res) (rates (fst (fetchCnbRates w))))
         [EUR, USD, PLN]"
proof -
  obtain r db' where t: "transaction faults (create_callback faults (now w) input) db = (r, db')"
    by (cases "transaction faults (create_callback faults (now w) input) db")
  show ?thesis
  proof (cases r)
    case (Inl e)
    then show ?thesis using assms t by (simp add: create_def)
  next
    case (Inr op)
    obtain res1 w1 where e: "enrichOrderWithConversions fmt fmtCZK op w = (res1, w1)"
      by (cases "enrichOrderWithConversions fmt fmtCZK op w")
    have "res = res1" using assms t Inr e by (simp add: create_def)
    then show ?thesis using enrich_response_conversions [OF e] by simp
  qed
qed

lemma findById_response_conversions:
  assumes "findById fmt fmtCZK faults oid (db, w) = (Inr res, w')"
  shows "res_conversions res
     = map (spec_response_conversion fmt (res_totalPriceCzk res) (rates (fst (fetchCnbRates w))))
         [EUR, USD, PLN]"
proof (cases "order_findUnique faults db oid")
  case (Inl e)
  then show ?thesis using assms by (simp add: findById_def)
next
  case (Inr found)
  show ?thesis
  proof (cases found)
    case None
    then show ?thesis using assms Inr by (simp add: findById_def)
  next
    case (Some op)
    obtain res1 w1 where e: "enrichOrderWithConversions fmt fmtCZK op w = (res1, w1)"
      by (cases "enrichOrderWithConversions fmt fmtCZK op w")
    have "res = res1" using assms Inr Some e by (simp add: findById_def)
    then show ?thesis using enrich_response_conversions [OF e] by simp
  qed
qed

lemma zero_total_converts_to_zero:
  "spec_amount (Fin 0) (Some (\<lambda>c. Some (rnd64 (24725 / 1000)))) EUR = Some (Fin 0)"
proof -
  have r: "rnd64 (24725 / 1000) = Fin (3479734399585485 / 140737488355328)"
    using rnd64_pos_normal [of "4" "24725 / 1000" "6959468799170970"] by (simp add: pow2_def)
  show ?thesis unfolding r
    by (simp add: spec_amount_def spec_usable_rate_def js_lt_def roundToTwoDecimals_def
        js_div_def js_mul_def Math_round_def rnd64_0)
qed

lemma create_succeeds:
  assumes "\<not> faults FindProduct" "\<not> faults CreateOrder" "\<not> faults UpdateProduct"
    "\<not> faults Commit" "products db (productId input) = Some product"
    "input_quantity input \<le> product_quantity product"
  shows "\<exists>res st'. create fmt fmtCZK faults input (db, w) = (Inr res, st')"
proof -
  have "\<not> product_quantity product < input_quantity input" using assms(6) by simp
  then have "create_callback faults (now w) input db
    = Inr ((spec_new_order (next_order_id db) (now w) input product, product),
           spec_committed db (now w) input product)"
    using assms(1,2,3,5) by (intro create_callback_success)
  then show ?thesis
    using create_committed [where faults = faults and fmt = fmt and fmtCZK = fmtCZK] assms(4)
    by blast
qed

lemma findById_succeeds:
  assumes "\<not> faults FindOrder" "find (\<lambda>row. order_id row = oid) (orders db) = Some order"
    "products db (order_productId order) = Some product"
  shows "\<exists>res w'. findById fmt fmtCZK faults oid (db, w) = (Inr res, w')"
  using assms
  by (cases "enrichOrderWithConversions fmt fmtCZK (order, product) w")
    (simp add: findById_def order_findUnique_def)

text \<open>
  C10. In the responses of \<open>create\<close> and \<open>findById\<close>, assembled by
  \<open>enrichOrderWithConversions\<close>, the entry of each of EUR, USD and PLN is made from the
  conversion of the order's total: a currency that did not convert has the amount 0 and
  the text \<^verbatim>\<open>N/A\<close>, one that converted has its amount and its formatted amount. A total
  of 0 converts to the amount 0 as well, so the amount alone does not tell the two apart.
  Both operations do give such a response: \<open>create\<close> when the engine does not fail and
  the product is there with enough stock, \<open>findById\<close> when the engine does not fail and
  the order is stored. When the fetch gave no table, all three entries have the amount 0
  and the text \<^verbatim>\<open>N/A\<close>.
\<close>

theorem response_conversions_zero_for_unavailable:
  "res_conversions (fst (enrichOrderWithConversions fmt fmtCZK (order, product) w))
     = map (spec_response_conversion fmt (order_totalPriceCzk order) (rates (fst (fetchCnbRates w))))
         [EUR, USD, PLN]
   \<and> (\<forall>res st'. create fmt fmtCZK faults input (db, w) = (Inr res, st') \<longrightarrow>
        res_conversions res
          = map (spec_response_conversion fmt (res_totalPriceCzk res) (rates (fst (fetchCnbRates w))))
              [EUR, USD, PLN])
   \<and> (\<forall>res w'. findById fmt fmtCZK faults oid (db, w) = (Inr res, w') \<longrightarrow>
        res_conversions res
          = map (spec_response_conversion fmt (res_totalPriceCzk res) (rates (fst (fetchCnbRates w))))
              [EUR, USD, PLN])
   \<and> (spec_amount a tbl c = None \<longrightarrow>
        spec_response_conversion fmt a tbl c
          = \<lparr>conv_code = c, conv_amount = Fin 0, conv_formatted = str ''N/A''\<rparr>)
   \<and> conv_amount (spec_response_conversion fmt (Fin 0) (Some (\<lambda>c. Some (rnd64 (24725 / 1000)))) EUR)
       = Fin 0
   \<and> (\<not> faults FindProduct \<and> \<not> faults CreateOrder \<and> \<not> faults UpdateProduct
        \<and> \<not> faults Commit \<and> products db (productId input) = Some stocked
        \<and> input_quantity input \<le> product_quantity stocked \<longrightarrow>
        (\<exists>res st'. create fmt fmtCZK faults input (db, w) = (Inr res, st')))
   \<and> (\<not> faults FindOrder \<and> find (\<lambda>row. order_id row = oid) (orders db) = Some stored
        \<and> products db (order_productId stored) = Some stocked \<longrightarrow>
        (\<exists>res w'. findById fmt fmtCZK faults oid (db, w) = (Inr res, w')))
   \<and> (rates (fst (fetchCnbRates w)) = None \<longrightarrow>
        map (spec_response_conversion fmt a (rates (fst (fetchCnbRates w)))) [EUR, USD, PLN]
          = [\<lparr>conv_code = EUR, conv_amount = Fin 0, conv_formatted = str ''N/A''\<rparr>,
             \<lparr>conv_code = USD, conv_amount = Fin 0, conv_formatted = str ''N/A''\<rparr>,
             \<lparr>conv_code = PLN, conv_amount = Fin 0, conv_formatted = str ''N/A''\<rparr>])"
proof (intro conjI allI impI)
  show "res_conversions (fst (enrichOrderWithConversions fmt fmtCZK (order, product) w))
     = map (spec_response_conversion fmt (order_totalPriceCzk order) (rates (fst (fetchCnbRates w))))
         [EUR, USD, PLN]"
    by (rule enrich_conversions)
  show "res_conversions res
          = map (spec_response_conversion fmt (res_totalPriceCzk res) (rates (fst (fetchCnbRates w))))
              [EUR, USD, PLN]"
    if "create fmt fmtCZK faults input (db, w) = (Inr res, st')" for res st'
    using that by (rule create_response_conversions)
  show "res_conversions res
          = map (spec_response_conversion fmt (res_totalPriceCzk res) (rates (fst (fetchCnbRates w))))
              [EUR, USD, PLN]"
    if "findById fmt fmtCZK faults oid (db, w) = (Inr res, w')" for res w'
    using that by (rule findById_response_conversions)
  show "spec_response_conversion fmt a tbl c
          = \<lparr>conv_code = c, conv_amount = Fin 0, conv_formatted = str ''N/A''\<rparr>"
    if "spec_amount a tbl c = None"
    using that by (simp add: spec_response_conversion_def)
  show "conv_amount (spec_response_conversion fmt (Fin 0) (Some (\<lambda>c. Some (rnd64 (24725 / 1000)))) EUR)
       = Fin 0"
    using zero_total_converts_to_zero by (simp add: spec_response_conversion_def)
  show "\<exists>res st'. create fmt fmtCZK faults input (db, w) = (Inr res, st')"
    if "\<not> faults FindProduct \<and> \<not> faults CreateOrder \<and> \<not> faults UpdateProduct
        \<and> \<not> faults Commit \<and> products db (productId input) = Some stocked
        \<and> input_quantity input \<le> product_quantity stocked"
    using that create_succeeds [of faults db input stocked] by blast
  show "\<exists>res w'. findById fmt fmtCZK faults oid (db, w) = (Inr res, w')"
    if "\<not> faults FindOrder \<and> find (\<lambda>row. order_id row = oid) (orders db) = Some stored
        \<and> products db (order_productId stored) = Some stocked"
    using that findById_succeeds [of faults oid db stored stocked] by blast
  show "map (spec_response_conversion fmt a (rates (fst (fetchCnbRates w)))) [EUR, USD, PLN]
          = [\<lparr>conv_code = EUR, conv_amount = Fin 0, conv_formatted = str ''N/A''\<rparr>,
             \<lparr>conv_code = USD, conv_amount = Fin 0, conv_formatted = str ''N/A''\<rparr>,
             \<lparr>conv_code = PLN, conv_amount = Fin 0, conv_formatted = str ''N/A''\<rparr>]"
    if "rates (fst (fetchCnbRates w)) = None"
    using that by (simp add: spec_response_conversion_def spec_amount_def spec_usable_rate_def)
qed

text \<open>
  The theorem at the example data while the rate source is down: an order of 2 of the 5
  items in stock is created, the stored order 7 is read, and in both responses every entry
  has the amount 0 and the text \<^verbatim>\<open>N/A\<close>.
\<close>

theorem response_conversions_zero_for_unavailable_witness:
  "(\<exists>res st'. create (\<lambda>v c. []) (\<lambda>v. []) no_faults (demo_input 1 2) (demo_db, world_down)
        = (Inr res, st')
      \<and> res_conversions res
        = [\<lparr>conv_code = EUR, conv_amount = Fin 0, conv_formatted = str ''N/A''\<rparr>,
           \<lparr>conv_code = USD, conv_amount = Fin 0, conv_formatted = str ''N/A''\<rparr>,
           \<lparr>conv_code = PLN, conv_amount = Fin 0, conv_formatted = str ''N/A''\<rparr>])
   \<and> (\<exists>res w'. findById (\<lambda>v c. []) (\<lambda>v. []) no_faults 7 (demo_db, world_down) = (Inr res, w')
      \<and> res_conversions res
        = [\<lparr>conv_code = EUR, conv_amount = Fin 0, conv_formatted = str ''N/A''\<rparr>,
           \<lparr>conv_code = USD, conv_amount = Fin 0, conv_formatted = str ''N/A''\<rparr>,
           \<lparr>conv_code = PLN, conv_amount = Fin 0, conv_formatted = str ''N/A''\<rparr>])"
proof -
  have r: "rates (fst (fetchCnbRates world_down)) = None"
    by (simp add: fetchCnbRates_result world_down_def)
  have nf: "\<not> no_faults s" for s by (simp add: no_faults_def)
  have row: "find (\<lambda>row. order_id row = 7) (orders demo_db) = Some demo_order"
    "products demo_db (order_productId demo_order) = Some demo_product"
    by (simp_all add: demo_db_def demo_order_def)
  have stock: "products demo_db (productId (demo_input 1 2)) = Some demo_product"
    "input_quantity (demo_input 1 2) \<le> product_quantity demo_product"
    by (simp_all add: demo_lookup)
  note t = response_conversions_zero_for_unavailable
    [where fmt = "\<lambda>v c. []" and fmtCZK = "\<lambda>v. []" and faults = no_faults and oid = 7
      and db = demo_db and w = world_down and input = "demo_input 1 2"
      and stocked = demo_product and stored = demo_order]
  have down: "map (spec_response_conversion (\<lambda>v c. []) a (rates (fst (fetchCnbRates world_down))))
        [EUR, USD, PLN]
      = [\<lparr>conv_code = EUR, conv_amount = Fin 0, conv_formatted = str ''N/A''\<rparr>,
         \<lparr>conv_code = USD, conv_amount = Fin 0, conv_formatted = str ''N/A''\<rparr>,
         \<lparr>conv_code = PLN, conv_amount = Fin 0, conv_formatted = str ''N/A''\<rparr>]" for a
    using t [where a = a] r by blast
  obtain res st' where c: "create (\<lambda>v c. []) (\<lambda>v. []) no_faults (demo_input 1 2)
      (demo_db, world_down) = (Inr res, st')"
    using t nf stock by blast
  then have "res_conversions res
      = map (spec_response_conversion (\<lambda>v c. []) (res_totalPriceCzk res)
          (rates (fst (fetchCnbRates world_down)))) [EUR, USD, PLN]"
    using t by blast
  then have first: "res_conversions res
        = [\<lparr>conv_code = EUR, conv_amount = Fin 0, conv_formatted = str ''N/A''\<rparr>,
           \<lparr>conv_code = USD, conv_amount = Fin 0, conv_formatted = str ''N/A''\<rparr>,
           \<lparr>conv_code = PLN, conv_amount = Fin 0, conv_formatted = str ''N/A''\<rparr>]"
    using down by simp
  obtain res2 w' where f: "findById (\<lambda>v c. []) (\<lambda>v. []) no_faults 7 (demo_db, world_down)
      = (Inr res2, w')"
    using t nf row by blast
  then have "res_conversions res2
      = map (spec_response_conversion (\<lambda>v c. []) (res_totalPriceCzk res2)
          (rates (fst (fetchCnbRates world_down)))) [EUR, USD, PLN]"
    using t by blast
  then have second: "res_conversions res2
        = [\<lparr>conv_code = EUR, conv_amount = Fin 0, conv_formatted = str ''N/A''\<rparr>,
           \<lparr>conv_code = USD, conv_amount = Fin 0, conv_formatted = str ''N/A''\<rparr>,
           \<lparr>conv_code = PLN, conv_amount = Fin 0, conv_formatted = str ''N/A''\<rparr>]"
    using down by simp
  show ?thesis using c first f second by blast
qed

section \<open>Properties of the order summary\<close>

lemma convertFromCzk_null:
  "convertFromCzk fmt a None
     = \<lparr>originalCzk = a, fxAvailable = False, conversions = map unavailable [EUR, USD, PLN]\<rparr>"
  by (simp add: convertFromCzk_general SUPPORTED_CURRENCIES_def spec_amount_def
      spec_usable_rate_def spec_conversion_def unavailable_def)

lemma fetch_failure_tagged:
  assumes "spec_failure_cause (answers w (requests w)) = Some cause"
  shows "fst (fetchCnbRates w)
    = \<lparr>success = False, rates = None, error = Some cause, fetchedAt = None\<rparr>"
  using assms
  by (auto simp: fetchCnbRates_result spec_failure_cause_def fetch_caught_def
      split: fetch_outcome.splits body_result.splits if_splits)

lemma fetch_body_read:
  assumes "answers w (requests w) = Resolved r" "ok r" "body r = BodyText payload"
  shows "fst (fetchCnbRates w)
    = \<lparr>success = True, rates = Some (parseRatesText payload), error = None,
       fetchedAt = Some (now w)\<rparr>"
  using assms by (simp add: fetchCnbRates_result spec_failure_cause_def)

lemma fetch_error_is_cause:
  "(if success (fst (fetchCnbRates w)) then None else error (fst (fetchCnbRates w)))
     = spec_failure_cause (answers w (requests w))"
  by (auto simp: fetchCnbRates_result spec_failure_cause_def fetch_caught_def
      split: fetch_outcome.splits body_result.splits)

lemma getSummary_found:
  assumes "findByIdBasic faults oid db = Inr order"
  shows "getSummary fmt fmtCZK faults oid (db, w)
    = (Inr \<lparr>summary_order =
               \<lparr>so_id = basic_id order, so_createdAt = basic_createdAt order,
                so_productId = basic_productId order,
                so_productTitle = basic_productTitle order,
                so_quantity = basic_quantity order,
                so_customerName = basic_customerName order,
                so_customerEmail = basic_customerEmail order\<rparr>,
             totals =
               \<lparr>czk = \<lparr>czk_subtotalCzk = basic_subtotalCzk order,
                       czk_vatAmountCzk = basic_vatAmountCzk order,
                       czk_vatRate = basic_vatRate order,
                       czk_totalCzk = basic_totalPriceCzk order,
                       czk_formatted =
                         \<lparr>subtotal = fmtCZK (basic_subtotalCzk order),
                          vatAmount = fmtCZK (basic_vatAmountCzk order),
                          total = fmtCZK (basic_totalPriceCzk order)\<rparr>\<rparr>,
                fx = \<lparr>available = fxAvailable (convertFromCzk fmt (basic_totalPriceCzk order)
                                      (rates (fst (fetchCnbRates w)))),
                      fx_error = spec_failure_cause (answers w (requests w)),
                      fx_conversions = conversions (convertFromCzk fmt (basic_totalPriceCzk order)
                                      (rates (fst (fetchCnbRates w))))\<rparr>\<rparr>\<rparr>,
       w\<lparr>requests := requests w + 1\<rparr>)"
proof -
  obtain fxResult w' where f: "fetchCnbRates w = (fxResult, w')" by (cases "fetchCnbRates w")
  have r: "fxResult = fst (fetchCnbRates w)" and w': "w' = w\<lparr>requests := requests w + 1\<rparr>"
    using f fetchCnbRates_world [of w] by simp_all
  show ?thesis
    using fetch_error_is_cause [of w]
    by (simp add: getSummary_def assms f Let_def w') (auto simp: r split: if_splits)
qed

lemma demo_findByIdBasic: "findByIdBasic no_faults 7 demo_db = Inr demo_basic"
  by (simp add: findByIdBasic_def order_findUnique_def no_faults_def demo_db_def demo_order_def
      demo_product_def demo_basic_def)

lemma malformed_parse:
  "parseRatesText (str ''<html>Service Unavailable</html>'') = (\<lambda>c. None)"
proof -
  have t: "trim (str ''<html>Service Unavailable</html>'') = str ''<html>Service Unavailable</html>''"
    by (simp add: trim_def str_def is_ws_def)
  have l: "js_split 10 (str ''<html>Service Unavailable</html>'')
      = [str ''<html>Service Unavailable</html>'']"
    by (simp add: js_split_def str_def)
  show ?thesis
    unfolding parseRatesText_trimmed spec_rates_after_two_lines_def t l by simp
qed

lemma malformed_fetch:
  "fst (fetchCnbRates world_malformed)
     = \<lparr>success = True, rates = Some (\<lambda>c. None), error = None, fetchedAt = Some 0\<rparr>"
  using fetch_body_read [of world_malformed
      "\<lparr>ok = True, status = 200, body = BodyText (str ''<html>Service Unavailable</html>'')\<rparr>"
      "str ''<html>Service Unavailable</html>''"]
  by (simp add: world_malformed_def malformed_parse)

text \<open>
  C6, as stated, fails for a malformed payload: a page served with a success status is
  read and parsed, no row of it counts, and the fetch reports success with a table of no
  rates and no error; the summary then says that no conversion is available and gives no
  cause.
\<close>

theorem rate_failure_counterexample:
  "fst (fetchCnbRates world_malformed)
     = \<lparr>success = True, rates = Some (\<lambda>c. None), error = None, fetchedAt = Some 0\<rparr>
   \<and> (case fst (getSummary (\<lambda>v c. []) (\<lambda>v. []) no_faults 7 (demo_db, world_malformed)) of
        Inl e \<Rightarrow> False
      | Inr s \<Rightarrow> fx (totals s)
                  = \<lparr>available = False, fx_error = None,
                     fx_conversions = map unavailable [EUR, USD, PLN]\<rparr>)"
proof
  show "fst (fetchCnbRates world_malformed)
     = \<lparr>success = True, rates = Some (\<lambda>c. None), error = None, fetchedAt = Some 0\<rparr>"
    by (rule malformed_fetch)
next
  have c: "spec_failure_cause (answers world_malformed (requests world_malformed)) = None"
    by (simp add: world_malformed_def spec_failure_cause_def)
  have v: "convertFromCzk (\<lambda>v c. []) (Fin 1210) (Some (\<lambda>c. None))
      = \<lparr>originalCzk = Fin 1210, fxAvailable = False,
         conversions = map unavailable [EUR, USD, PLN]\<rparr>"
    by (simp add: convertFromCzk_general SUPPORTED_CURRENCIES_def spec_amount_def
        spec_usable_rate_def spec_conversion_def unavailable_def)
  show "case fst (getSummary (\<lambda>v c. []) (\<lambda>v. []) no_faults 7 (demo_db, world_malformed)) of
        Inl e \<Rightarrow> False
      | Inr s \<Rightarrow> fx (totals s)
                  = \<lparr>available = False, fx_error = None,
                     fx_conversions = map unavailable [EUR, USD, PLN]\<rparr>"
    by (simp add: getSummary_found [OF demo_findByIdBasic] c malformed_fetch v demo_basic_def)
qed

text \<open>
  C6, amended. No failure of the rate source raises. When the request is rejected (a
  network error, the timeout), the status is not a success or the body cannot be read,
  \<open>fetchCnbRates\<close> returns a failure with no table and the cause as its error; a body that
  was read under a success status is parsed whatever it holds, and the result is a success
  with the parsed table and no error. \<open>convertFromCzk\<close> of no table gives three
  unavailable currencies and the flag off. The summary of an order that is found always
  comes with the order's CZK totals; its fx section is the conversion of the total through
  the table of the fetch, and it carries the cause when the fetch failed, with no
  conversion available, and no cause otherwise.
\<close>

theorem rate_failures_degrade:
  "(spec_failure_cause (answers w (requests w)) = Some cause \<longrightarrow>
      fst (fetchCnbRates w)
        = \<lparr>success = False, rates = None, error = Some cause, fetchedAt = None\<rparr>)
   \<and> (answers w (requests w) = Resolved r \<and> ok r \<and> body r = BodyText payload \<longrightarrow>
      fst (fetchCnbRates w)
        = \<lparr>success = True, rates = Some (parseRatesText payload), error = None,
           fetchedAt = Some (now w)\<rparr>
      \<and> spec_failure_cause (answers w (requests w)) = None)
   \<and> convertFromCzk fmt a None
       = \<lparr>originalCzk = a, fxAvailable = False, conversions = map unavailable [EUR, USD, PLN]\<rparr>
   \<and> (findByIdBasic faults oid db = Inr order \<longrightarrow>
        (\<exists>s. getSummary fmt fmtCZK faults oid (db, w) = (Inr s, w\<lparr>requests := requests w + 1\<rparr>)
           \<and> czk_subtotalCzk (czk (totals s)) = basic_subtotalCzk order
           \<and> czk_vatAmountCzk (czk (totals s)) = basic_vatAmountCzk order
           \<and> czk_vatRate (czk (totals s)) = basic_vatRate order
           \<and> czk_totalCzk (czk (totals s)) = basic_totalPriceCzk order
           \<and> fx_error (fx (totals s)) = spec_failure_cause (answers w (requests w))
           \<and> available (fx (totals s))
               = fxAvailable (convertFromCzk fmt (basic_totalPriceCzk order)
                   (rates (fst (fetchCnbRates w))))
           \<and> fx_conversions (fx (totals s))
               = conversions (convertFromCzk fmt (basic_totalPriceCzk order)
                   (rates (fst (fetchCnbRates w))))
           \<and> (spec_failure_cause (answers w (requests w)) \<noteq> None \<longrightarrow>
                \<not> available (fx (totals s))
                \<and> fx_conversions (fx (totals s)) = map unavailable [EUR, USD, PLN])))"
proof (intro conjI impI)
  show "fst (fetchCnbRates w)
        = \<lparr>success = False, rates = None, error = Some cause, fetchedAt = None\<rparr>"
    if "spec_failure_cause (answers w (requests w)) = Some cause"
    using that by (rule fetch_failure_tagged)
  show "fst (fetchCnbRates w)
        = \<lparr>success = True, rates = Some (parseRatesText payload), error = None,
           fetchedAt = Some (now w)\<rparr>"
    if "answers w (requests w) = Resolved r \<and> ok r \<and> body r = BodyText payload"
    using that fetch_body_read [of w r payload] by simp
  show "spec_failure_cause (answers w (requests w)) = None"
    if "answers w (requests w) = Resolved r \<and> ok r \<and> body r = BodyText payload"
    using that by (simp add: spec_failure_cause_def)
  show "convertFromCzk fmt a None
       = \<lparr>originalCzk = a, fxAvailable = False, conversions = map unavailable [EUR, USD, PLN]\<rparr>"
    by (rule convertFromCzk_null)
  show "\<exists>s. getSummary fmt fmtCZK faults oid (db, w) = (Inr s, w\<lparr>requests := requests w + 1\<rparr>)
           \<and> czk_subtotalCzk (czk (totals s)) = basic_subtotalCzk order
           \<and> czk_vatAmountCzk (czk (totals s)) = basic_vatAmountCzk order
           \<and> czk_vatRate (czk (totals s)) = basic_vatRate order
           \<and> czk_totalCzk (czk (totals s)) = basic_totalPriceCzk order
           \<and> fx_error (fx (totals s)) = spec_failure_cause (answers w (requests w))
           \<and> available (fx (totals s))
               = fxAvailable (convertFromCzk fmt (basic_totalPriceCzk order)
                   (rates (fst (fetchCnbRates w))))
           \<and> fx_conversions (fx (totals s))
               = conversions (convertFromCzk fmt (basic_totalPriceCzk order)
                   (rates (fst (fetchCnbRates w))))
           \<and> (spec_failure_cause (answers w (requests w)) \<noteq> None \<longrightarrow>
                \<not> available (fx (totals s))
                \<and> fx_conversions (fx (totals s)) = map unavailable [EUR, USD, PLN])"
    if found: "findByIdBasic faults oid db = Inr order"
  proof -
    have down: "rates (fst (fetchCnbRates w)) = None"
      if ne: "spec_failure_cause (answers w (requests w)) \<noteq> None"
    proof -
      obtain cause' where "spec_failure_cause (answers w (requests w)) = Some cause'"
        using ne by auto
      then show ?thesis using fetch_failure_tagged by simp
    qed
    define conv where
      "conv = convertFromCzk fmt (basic_totalPriceCzk order) (rates (fst (fetchCnbRates w)))"
    define s where "s =
      \<lparr>summary_order =
         \<lparr>so_id = basic_id order, so_createdAt = basic_createdAt order,
          so_productId = basic_productId order,
          so_productTitle = basic_productTitle order,
          so_quantity = basic_quantity order,
          so_customerName = basic_customerName order,
          so_customerEmail = basic_customerEmail order\<rparr>,
       totals =
         \<lparr>czk = \<lparr>czk_subtotalCzk = basic_subtotalCzk order,
                 czk_vatAmountCzk = basic_vatAmountCzk order,
                 czk_vatRate = basic_vatRate order,
                 czk_totalCzk = basic_totalPriceCzk order,
                 czk_formatted =
                   \<lparr>subtotal = fmtCZK (basic_subtotalCzk order),
                    vatAmount = fmtCZK (basic_vatAmountCzk order),
                    total = fmtCZK (basic_totalPriceCzk order)\<rparr>\<rparr>,
          fx = \<lparr>available = fxAvailable conv,
                fx_error = spec_failure_cause (answers w (requests w)),
                fx_conversions = conversions conv\<rparr>\<rparr>\<rparr>"
    have run: "getSummary fmt fmtCZK faults oid (db, w) = (Inr s, w\<lparr>requests := requests w + 1\<rparr>)"
      unfolding s_def conv_def by (rule getSummary_found [OF found])
    have degraded: "\<not> available (fx (totals s))
        \<and> fx_conversions (fx (totals s)) = map unavailable [EUR, USD, PLN]"
      if ne: "spec_failure_cause (answers w (requests w)) \<noteq> None"
      by (simp add: s_def conv_def down [OF ne] convertFromCzk_null)
    show ?thesis
    proof (intro exI [of _ s] conjI impI)
      show "getSummary fmt fmtCZK faults oid (db, w) = (Inr s, w\<lparr>requests := requests w + 1\<rparr>)"
        by (rule run)
      show "\<not> available (fx (totals s))"
        if "spec_failure_cause (answers w (requests w)) \<noteq> None"
        using degraded [OF that] by simp
      show "fx_conversions (fx (totals s)) = map unavailable [EUR, USD, PLN]"
        if "spec_failure_cause (answers w (requests w)) \<noteq> None"
        using degraded [OF that] by simp
    qed (simp_all add: s_def conv_def)
  qed
qed

text \<open>
  The theorem at the example data. While the rate source cannot be reached the fetch is a
  failure that carries the cause, and the summary of the order 7 has the total 1210 and
  carries the cause too. A page served with a success status is a success with the table
  parsed from it and no error.
\<close>

theorem rate_failures_degrade_witness:
  "fst (fetchCnbRates world_down)
     = \<lparr>success = False, rates = None,
        error = Some (str ''Failed to fetch rates: fetch failed''), fetchedAt = None\<rparr>
   \<and> fst (fetchCnbRates world_malformed)
     = \<lparr>success = True,
        rates = Some (parseRatesText (str ''<html>Service Unavailable</html>'')),
        error = None, fetchedAt = Some 0\<rparr>
   \<and> (\<exists>s. getSummary (\<lambda>v c. []) (\<lambda>v. []) no_faults 7 (demo_db, world_down)
          = (Inr s, world_down\<lparr>requests := 1\<rparr>)
      \<and> czk_totalCzk (czk (totals s)) = Fin 1210
      \<and> fx_error (fx (totals s)) = Some (str ''Failed to fetch rates: fetch failed'')
      \<and> \<not> available (fx (totals s))
      \<and> fx_conversions (fx (totals s)) = map unavailable [EUR, USD, PLN])"
proof -
  have c: "spec_failure_cause (answers world_down (requests world_down))
      = Some (str ''Failed to fetch rates: fetch failed'')"
    by (simp add: world_down_def spec_failure_cause_def errorMessage_def str_def)
  have r: "requests world_down = 0" by (simp add: world_down_def)
  have m: "answers world_malformed (requests world_malformed)
        = Resolved \<lparr>ok = True, status = 200,
            body = BodyText (str ''<html>Service Unavailable</html>'')\<rparr>"
      "now world_malformed = 0"
    by (simp_all add: world_malformed_def)
  note down = rate_failures_degrade
      [where w = world_down and cause = "str ''Failed to fetch rates: fetch failed''"
        and fmt = "\<lambda>v c. []" and fmtCZK = "\<lambda>v. []" and faults = no_faults and oid = 7
        and db = demo_db and order = demo_basic]
  have first: "fst (fetchCnbRates world_down)
     = \<lparr>success = False, rates = None,
        error = Some (str ''Failed to fetch rates: fetch failed''), fetchedAt = None\<rparr>"
    using down c by blast
  have second: "fst (fetchCnbRates world_malformed)
     = \<lparr>success = True,
        rates = Some (parseRatesText (str ''<html>Service Unavailable</html>'')),
        error = None, fetchedAt = Some 0\<rparr>"
    using rate_failures_degrade
      [where w = world_malformed
        and r = "\<lparr>ok = True, status = 200,
            body = BodyText (str ''<html>Service Unavailable</html>'')\<rparr>"
        and payload = "str ''<html>Service Unavailable</html>''"] m
    by simp
  note summary = down [THEN conjunct2, THEN conjunct2, THEN conjunct2, rule_format,
      OF demo_findByIdBasic]
  then obtain s where s:
    "getSummary (\<lambda>v c. []) (\<lambda>v. []) no_faults 7 (demo_db, world_down)
       = (Inr s, world_down\<lparr>requests := requests world_down + 1\<rparr>)"
    "czk_totalCzk (czk (totals s)) = basic_totalPriceCzk demo_basic"
    "fx_error (fx (totals s)) = spec_failure_cause (answers world_down (requests world_down))"
    "spec_failure_cause (answers world_down (requests world_down)) \<noteq> None \<longrightarrow>
       \<not> available (fx (totals s))
       \<and> fx_conversions (fx (totals s)) = map unavailable [EUR, USD, PLN]"
    by blast
  have third: "\<exists>s. getSummary (\<lambda>v c. []) (\<lambda>v. []) no_faults 7 (demo_db, world_down)
          = (Inr s, world_down\<lparr>requests := 1\<rparr>)
      \<and> czk_totalCzk (czk (totals s)) = Fin 1210
      \<and> fx_error (fx (totals s)) = Some (str ''Failed to fetch rates: fetch failed'')
      \<and> \<not> available (fx (totals s))
      \<and> fx_conversions (fx (totals s)) = map unavailable [EUR, USD, PLN]"
    using s c by (intro exI [of _ s]) (simp add: r demo_basic_def)
  show ?thesis using first second third by blast
qed

section \<open>Properties of two creations at once\<close>

lemma create_callback_cut:
  "create_callback faults time input tx
     = (case product_findUnique faults tx (productId input) of
          Inl e \<Rightarrow> Inl e
        | Inr found \<Rightarrow> create_after_read faults time input found tx)"
  by (simp add: create_callback_def create_after_read_def split: sum.splits option.splits)

lemma advance_twice:
  "(case advance faults time input NotStarted db of (p, db1) \<Rightarrow> advance faults time input p db1)
     = (case transaction faults (create_callback faults time input) db of
          (r, db') \<Rightarrow> (Finished r, db'))"
  by (simp add: advance_def create_callback_cut transaction_def split: sum.splits)

lemma create_after_read_runs:
  assumes "products tx (productId input) = Some cur"
    "\<not> product_quantity product < input_quantity input"
  shows "\<exists>row. create_after_read no_faults time input (Some product) tx
    = Inr ((row, cur),
           \<lparr>products = (products tx)(productId input \<mapsto>
                cur\<lparr>product_quantity := product_quantity cur - input_quantity input\<rparr>),
            orders = orders tx @ [row], next_order_id = next_order_id tx + 1\<rparr>)"
  using assms
  by (cases tx)
    (simp add: create_after_read_def order_create_def product_decrement_def no_faults_def Let_def)

lemma advance_read:
  "advance no_faults time input NotStarted db = (HasRead (products db (productId input)), db)"
  by (simp add: advance_def product_findUnique_def no_faults_def)

lemma advance_write:
  assumes "products db (productId input) = Some cur"
    "\<not> product_quantity product < input_quantity input"
  shows "\<exists>row. advance no_faults time input (HasRead (Some product)) db
    = (Finished (Inr (row, cur)),
       \<lparr>products = (products db)(productId input \<mapsto>
            cur\<lparr>product_quantity := product_quantity cur - input_quantity input\<rparr>),
        orders = orders db @ [row], next_order_id = next_order_id db + 1\<rparr>)"
proof -
  obtain row where "create_after_read no_faults time input (Some product) db
    = Inr ((row, cur),
           \<lparr>products = (products db)(productId input \<mapsto>
                cur\<lparr>product_quantity := product_quantity cur - input_quantity input\<rparr>),
            orders = orders db @ [row], next_order_id = next_order_id db + 1\<rparr>)"
    using create_after_read_runs [OF assms] by blast
  then show ?thesis
    by (simp add: advance_def transaction_def no_faults_def)
qed

lemma advance_conflict:
  assumes "product_quantity product < input_quantity input"
  shows "advance no_faults time input (HasRead (Some product)) db
    = (Finished (Inl (ConflictError
          (insufficient_stock_message (product_quantity product) (input_quantity input)))), db)"
  using assms
  by (simp add: advance_def transaction_def create_after_read_def insufficient_stock_message_def)

lemma turn_of_first:
  assumes "advance faults time inputA p db = (p', db')"
  shows "interleave faults time inputA inputB (First # turns)
           \<lparr>store = db, progress_of_first = p, progress_of_second = q\<rparr>
       = interleave faults time inputA inputB turns
           \<lparr>store = db', progress_of_first = p', progress_of_second = q\<rparr>"
  using assms by simp

lemma turn_of_second:
  assumes "advance faults time inputB q db = (q', db')"
  shows "interleave faults time inputA inputB (Second # turns)
           \<lparr>store = db, progress_of_first = p, progress_of_second = q\<rparr>
       = interleave faults time inputA inputB turns
           \<lparr>store = db', progress_of_first = p, progress_of_second = q'\<rparr>"
  using assms by simp

lemma reads_first:
  assumes "products db pid = Some product" "productId inputA = pid" "productId inputB = pid"
    "input_quantity inputA \<le> product_quantity product"
    "input_quantity inputB \<le> product_quantity product"
  shows "\<exists>rowA rowB curA curB db'.
      interleave no_faults time inputA inputB [First, Second, First, Second]
          \<lparr>store = db, progress_of_first = NotStarted, progress_of_second = NotStarted\<rparr>
        = \<lparr>store = db', progress_of_first = Finished (Inr (rowA, curA)),
           progress_of_second = Finished (Inr (rowB, curB))\<rparr>
      \<and> stored_quantity db' pid
          = Some (product_quantity product - input_quantity inputA - input_quantity inputB)
      \<and> orders db' = orders db @ [rowA, rowB]"
proof -
  have qa: "\<not> product_quantity product < input_quantity inputA"
    and qb: "\<not> product_quantity product < input_quantity inputB"
    using assms(4,5) by simp_all
  have pa: "products db (productId inputA) = Some product"
    and pb: "products db (productId inputB) = Some product"
    using assms(1,2,3) by simp_all
  define cur where
    "cur = product\<lparr>product_quantity := product_quantity product - input_quantity inputA\<rparr>"
  obtain rowA db1 where wa: "advance no_faults time inputA (HasRead (Some product)) db
      = (Finished (Inr (rowA, product)), db1)"
    and db1: "db1 = \<lparr>products = (products db)(productId inputA \<mapsto> cur),
        orders = orders db @ [rowA], next_order_id = next_order_id db + 1\<rparr>"
    using advance_write [OF pa qa] unfolding cur_def by blast
  have pb1: "products db1 (productId inputB) = Some cur"
    using assms(2,3) by (simp add: db1)
  obtain rowB db2 where wb: "advance no_faults time inputB (HasRead (Some product)) db1
      = (Finished (Inr (rowB, cur)), db2)"
    and db2: "db2 = \<lparr>products = (products db1)(productId inputB \<mapsto>
            cur\<lparr>product_quantity := product_quantity cur - input_quantity inputB\<rparr>),
        orders = orders db1 @ [rowB], next_order_id = next_order_id db1 + 1\<rparr>"
    using advance_write [OF pb1 qb] by blast
  have ra: "advance no_faults time inputA NotStarted db = (HasRead (Some product), db)"
    and rb: "advance no_faults time inputB NotStarted db = (HasRead (Some product), db)"
    by (simp_all add: advance_read pa pb)
  have run: "interleave no_faults time inputA inputB [First, Second, First, Second]
          \<lparr>store = db, progress_of_first = NotStarted, progress_of_second = NotStarted\<rparr>
        = \<lparr>store = db2, progress_of_first = Finished (Inr (rowA, product)),
           progress_of_second = Finished (Inr (rowB, cur))\<rparr>"
    unfolding turn_of_first [OF ra] turn_of_second [OF rb] turn_of_first [OF wa]
      turn_of_second [OF wb] interleave.simps(1) ..
  have st: "stored_quantity db2 pid
      = Some (product_quantity product - input_quantity inputA - input_quantity inputB)"
    using assms(3) by (simp add: stored_quantity_def db2 cur_def)
  have os: "orders db2 = orders db @ [rowA, rowB]"
    by (simp add: db2 db1)
  show ?thesis using run st os by blast
qed

lemma one_after_the_other:
  assumes "products db pid = Some product" "productId inputA = pid" "productId inputB = pid"
    "input_quantity inputA \<le> product_quantity product"
    "product_quantity product < input_quantity inputA + input_quantity inputB"
  shows "\<exists>rowA db'.
      interleave no_faults time inputA inputB [First, First, Second, Second]
          \<lparr>store = db, progress_of_first = NotStarted, progress_of_second = NotStarted\<rparr>
        = \<lparr>store = db', progress_of_first = Finished (Inr (rowA, product)),
           progress_of_second = Finished (Inl (ConflictError
             (insufficient_stock_message (product_quantity product - input_quantity inputA)
                (input_quantity inputB))))\<rparr>
      \<and> stored_quantity db' pid = Some (product_quantity product - input_quantity inputA)"
proof -
  have qa: "\<not> product_quantity product < input_quantity inputA" using assms(4) by simp
  have pa: "products db (productId inputA) = Some product" using assms(1,2) by simp
  define cur where
    "cur = product\<lparr>product_quantity := product_quantity product - input_quantity inputA\<rparr>"
  obtain rowA db1 where wa: "advance no_faults time inputA (HasRead (Some product)) db
      = (Finished (Inr (rowA, product)), db1)"
    and db1: "db1 = \<lparr>products = (products db)(productId inputA \<mapsto> cur),
        orders = orders db @ [rowA], next_order_id = next_order_id db + 1\<rparr>"
    using advance_write [OF pa qa] unfolding cur_def by blast
  have pb1: "products db1 (productId inputB) = Some cur"
    using assms(2,3) by (simp add: db1)
  have less: "product_quantity cur < input_quantity inputB" using assms(5) by (simp add: cur_def)
  have wb: "advance no_faults time inputB (HasRead (Some cur)) db1
    = (Finished (Inl (ConflictError
          (insufficient_stock_message (product_quantity cur) (input_quantity inputB)))), db1)"
    using less by (rule advance_conflict)
  have ra: "advance no_faults time inputA NotStarted db = (HasRead (Some product), db)"
    by (simp add: advance_read pa)
  have rb: "advance no_faults time inputB NotStarted db1 = (HasRead (Some cur), db1)"
    by (simp add: advance_read pb1)
  have run: "interleave no_faults time inputA inputB [First, First, Second, Second]
          \<lparr>store = db, progress_of_first = NotStarted, progress_of_second = NotStarted\<rparr>
        = \<lparr>store = db1, progress_of_first = Finished (Inr (rowA, product)),
           progress_of_second = Finished (Inl (ConflictError
             (insufficient_stock_message (product_quantity cur) (input_quantity inputB))))\<rparr>"
    unfolding turn_of_first [OF ra] turn_of_first [OF wa] turn_of_second [OF rb]
      turn_of_second [OF wb] interleave.simps(1) ..
  have st: "stored_quantity db1 pid = Some (product_quantity cur)"
    using assms(2) by (simp add: stored_quantity_def db1)
  have c: "product_quantity cur = product_quantity product - input_quantity inputA"
    by (simp add: cur_def)
  show ?thesis using run st unfolding c by blast
qed

text \<open>
  C2. The code does not keep two creations against one product from both committing. When
  each of the two quantities is within the stock and their sum is not, and both
  transactions read the product before either writes, both pass the check against the
  stock they read, both insert their order and both decrement: two orders are committed
  and the stored quantity ends below zero. When the second transaction reads after the
  first has committed, it fails with the conflict error and the stock stays at what the
  first left. A creation that takes its two turns one after the other is the transaction
  of \<open>create\<close>.
\<close>

theorem concurrent_creates_oversell:
  assumes "products db pid = Some product" "productId inputA = pid" "productId inputB = pid"
    "input_quantity inputA \<le> product_quantity product"
    "input_quantity inputB \<le> product_quantity product"
    "product_quantity product < input_quantity inputA + input_quantity inputB"
  shows "(let st = interleave no_faults time inputA inputB [First, Second, First, Second]
                    \<lparr>store = db, progress_of_first = NotStarted, progress_of_second = NotStarted\<rparr>
          in committed (progress_of_first st) \<and> committed (progress_of_second st)
             \<and> stored_quantity (store st) pid
                 = Some (product_quantity product - input_quantity inputA - input_quantity inputB)
             \<and> length (orders (store st)) = length (orders db) + 2
             \<and> \<not> spec_no_oversell pid st)
     \<and> (let st = interleave no_faults time inputA inputB [First, First, Second, Second]
                    \<lparr>store = db, progress_of_first = NotStarted, progress_of_second = NotStarted\<rparr>
          in committed (progress_of_first st)
             \<and> progress_of_second st
                 = Finished (Inl (ConflictError
                     (insufficient_stock_message (product_quantity product - input_quantity inputA)
                        (input_quantity inputB))))
             \<and> stored_quantity (store st) pid = Some (product_quantity product - input_quantity inputA)
             \<and> spec_no_oversell pid st)
     \<and> (case advance faults time inputA NotStarted db of
          (p, db1) \<Rightarrow> advance faults time inputA p db1)
       = (case transaction faults (create_callback faults time inputA) db of
            (r, db') \<Rightarrow> (Finished r, db'))"
proof (intro conjI)
  obtain rowA rowB curA curB db' where r:
      "interleave no_faults time inputA inputB [First, Second, First, Second]
          \<lparr>store = db, progress_of_first = NotStarted, progress_of_second = NotStarted\<rparr>
        = \<lparr>store = db', progress_of_first = Finished (Inr (rowA, curA)),
           progress_of_second = Finished (Inr (rowB, curB))\<rparr>"
      "stored_quantity db' pid
          = Some (product_quantity product - input_quantity inputA - input_quantity inputB)"
      "orders db' = orders db @ [rowA, rowB]"
    using reads_first [OF assms(1-5)] by blast
  have neg: "product_quantity product - input_quantity inputA - input_quantity inputB < 0"
    using assms(6) by simp
  show "let st = interleave no_faults time inputA inputB [First, Second, First, Second]
                    \<lparr>store = db, progress_of_first = NotStarted, progress_of_second = NotStarted\<rparr>
          in committed (progress_of_first st) \<and> committed (progress_of_second st)
             \<and> stored_quantity (store st) pid
                 = Some (product_quantity product - input_quantity inputA - input_quantity inputB)
             \<and> length (orders (store st)) = length (orders db) + 2
             \<and> \<not> spec_no_oversell pid st"
    unfolding r(1) Let_def using r(2,3) neg by (simp add: committed_def spec_no_oversell_def)
  obtain rowA db' where s:
      "interleave no_faults time inputA inputB [First, First, Second, Second]
          \<lparr>store = db, progress_of_first = NotStarted, progress_of_second = NotStarted\<rparr>
        = \<lparr>store = db', progress_of_first = Finished (Inr (rowA, product)),
           progress_of_second = Finished (Inl (ConflictError
             (insufficient_stock_message (product_quantity product - input_quantity inputA)
                (input_quantity inputB))))\<rparr>"
      "stored_quantity db' pid = Some (product_quantity product - input_quantity inputA)"
    using one_after_the_other [OF assms(1-4,6)] by blast
  show "let st = interleave no_faults time inputA inputB [First, First, Second, Second]
                    \<lparr>store = db, progress_of_first = NotStarted, progress_of_second = NotStarted\<rparr>
          in committed (progress_of_first st)
             \<and> progress_of_second st
                 = Finished (Inl (ConflictError
                     (insufficient_stock_message (product_quantity product - input_quantity inputA)
                        (input_quantity inputB))))
             \<and> stored_quantity (store st) pid = Some (product_quantity product - input_quantity inputA)
             \<and> spec_no_oversell pid st"
    unfolding s(1) Let_def using s(2) assms(4) by (simp add: committed_def spec_no_oversell_def)
  show "(case advance faults time inputA NotStarted db of
          (p, db1) \<Rightarrow> advance faults time inputA p db1)
       = (case transaction faults (create_callback faults time inputA) db of
            (r, db') \<Rightarrow> (Finished r, db'))"
    by (rule advance_twice)
qed

text \<open>
  The theorem at the example data: stock 5 and two orders of 3. With both reads first,
  both orders commit, three orders are stored and the stock is -1. One after the other,
  the second fails with the conflict error and the stock is 2.
\<close>

theorem concurrent_creates_oversell_witness:
  "(let st = interleave no_faults 0 (demo_input 1 3) (demo_input 1 3) [First, Second, First, Second]
              \<lparr>store = demo_db, progress_of_first = NotStarted, progress_of_second = NotStarted\<rparr>
    in committed (progress_of_first st) \<and> committed (progress_of_second st)
       \<and> stored_quantity (store st) 1 = Some (- 1)
       \<and> length (orders (store st)) = 3)
   \<and> (let st = interleave no_faults 0 (demo_input 1 3) (demo_input 1 3) [First, First, Second, Second]
              \<lparr>store = demo_db, progress_of_first = NotStarted, progress_of_second = NotStarted\<rparr>
    in committed (progress_of_first st)
       \<and> progress_of_second st
           = Finished (Inl (ConflictError (str ''Insufficient stock. Available: 2, Requested: 3'')))
       \<and> stored_quantity (store st) 1 = Some 2)"
proof -
  have m: "insufficient_stock_message 2 3 = str ''Insufficient stock. Available: 2, Requested: 3''"
    by (simp add: insufficient_stock_message_def show_int_def decimal.simps str_def)
  show ?thesis
    using concurrent_creates_oversell
      [of demo_db 1 demo_product "demo_input 1 3" "demo_input 1 3" 0 no_faults]
    by (simp add: demo_lookup Let_def m)
qed

end
